(* ===== verification/Hair_Prelude.thy ===== *)
theory Hair_Prelude
  imports Complex_Main "HOL-Library.Word"
begin

text \<open>
  Shared vocabulary of the hair development. It holds
  \<^item> \<open>vec3\<close>, Bullet's \<open>btVector3\<close> over \<open>real\<close> (btScalar rounding is not modelled),
    made an additive group so that the library's algebra applies to it;
  \<^item> \<open>mat4\<close>, the engine's column-major \<open>btScalar[16]\<close> matrices, as functions from the
    index to the entry;
  \<^item> \<open>for_word\<close>, the C loop \<open>for (T i = 0; i < n; i++) body\<close> whose counter \<open>i\<close> has
    the machine type \<open>T\<close> (\<open>uint8_t\<close>, \<open>uint16_t\<close>): it wraps around, so the loop may
    never end, which the \<open>option\<close> result records;
  \<^item> \<open>ub_loop\<close>, the \<open>int\<close>-counted loop whose body may hit undefined behaviour;
  \<^item> the lemmas on lists, folds, maps and words that the component theories share,
    and the collection \<open>store_simps\<close> of the lemmas that read the world store and the
    rig after an operation, which the component theories fill.
\<close>

named_theorems store_simps "how the world store and the rig read after an operation"

text \<open>Undefined behaviour of the C code (a null or dangling pointer dereferenced, an
  array read out of range, a floating value converted to an integer type that cannot
  hold it) is not a value the program computes; the model makes it an
  error value so that a theorem can say it does not happen.\<close>

datatype ub = Null_deref | Dangling_deref | Index_out_of_range | Cast_out_of_range

section \<open>Vectors\<close>

datatype vec3 = Vec3 real real real

fun vx :: "vec3 \<Rightarrow> real" where "vx (Vec3 a _ _) = a"
fun vy :: "vec3 \<Rightarrow> real" where "vy (Vec3 _ b _) = b"
fun vz :: "vec3 \<Rightarrow> real" where "vz (Vec3 _ _ c) = c"

instantiation vec3 :: ab_group_add
begin

definition zero_vec3 :: vec3 where
  "zero_vec3 = Vec3 0 0 0"

fun plus_vec3 :: "vec3 \<Rightarrow> vec3 \<Rightarrow> vec3" where
  "plus_vec3 (Vec3 a b c) (Vec3 a' b' c') = Vec3 (a + a') (b + b') (c + c')"

fun minus_vec3 :: "vec3 \<Rightarrow> vec3 \<Rightarrow> vec3" where
  "minus_vec3 (Vec3 a b c) (Vec3 a' b' c') = Vec3 (a - a') (b - b') (c - c')"

fun uminus_vec3 :: "vec3 \<Rightarrow> vec3" where
  "uminus_vec3 (Vec3 a b c) = Vec3 (- a) (- b) (- c)"

instance
proof
  fix u v w :: vec3
  show "u + v + w = u + (v + w)"
    by (cases u; cases v; cases w) (simp add: algebra_simps)
  show "u + v = v + u"
    by (cases u; cases v) (simp add: algebra_simps)
  show "0 + u = u"
    by (cases u) (simp add: zero_vec3_def)
  show "- u + u = 0"
    by (cases u) (simp add: zero_vec3_def)
  show "u - v = u + - v"
    by (cases u; cases v) simp
qed

end

text \<open>\<open>btVector3 * btScalar\<close> and \<open>v *= s\<close>.\<close>

fun vscale :: "real \<Rightarrow> vec3 \<Rightarrow> vec3" where
  "vscale s (Vec3 a b c) = Vec3 (s * a) (s * b) (s * c)"

section \<open>Matrices\<close>

text \<open>A \<open>btScalar[16]\<close> in OpenGL column-major order: entry \<open>m[4 * c + r]\<close> is row \<open>r\<close>
  of column \<open>c\<close>, so \<open>m[12], m[13], m[14]\<close> is the translation.\<close>

type_synonym mat4 = "nat \<Rightarrow> real"

definition mat4_pos :: "mat4 \<Rightarrow> vec3" where
  "mat4_pos m = Vec3 (m 12) (m 13) (m 14)"

section \<open>Counted loops with a machine-word counter\<close>

text \<open>
  \<open>for (T i = 0; i < n; i++) body(i);\<close> with \<open>T\<close> an unsigned type of \<open>LENGTH('a)\<close> bits
  and \<open>n\<close> an integer of a wider type: the comparison promotes \<open>i\<close> to \<open>unat i\<close>, and
  \<open>i++\<close> wraps at \<open>2 ^ LENGTH('a)\<close>. \<open>None\<close> is a loop that never ends.
\<close>

partial_function (option) for_word ::
  "nat \<Rightarrow> (nat \<Rightarrow> 's \<Rightarrow> 's) \<Rightarrow> 'a::len word \<Rightarrow> 's \<Rightarrow> 's option" where
  "for_word n body i s =
     (if unat i < n then for_word n body (i + 1) (body (unat i) s) else Some s)"

section \<open>Loops whose body may fail\<close>

text \<open>Sequencing of a computation that may hit undefined behaviour, and the counted loop
  \<open>for (int i = 0; i < n; i++) body\<close> whose body may: the first failing iteration ends
  the loop with its error. The \<open>int\<close> counter stays below \<open>n\<close> and never wraps.\<close>

definition ub_bind :: "ub + 'a \<Rightarrow> ('a \<Rightarrow> ub + 'b) \<Rightarrow> ub + 'b" where
  "ub_bind r f = (case r of Inl e \<Rightarrow> Inl e | Inr x \<Rightarrow> f x)"

fun ub_loop :: "(nat \<Rightarrow> 's \<Rightarrow> ub + 's) \<Rightarrow> nat list \<Rightarrow> 's \<Rightarrow> ub + 's" where
  "ub_loop f [] s = Inr s"
| "ub_loop f (k # ks) s = ub_bind (f k s) (ub_loop f ks)"

section \<open>Vector lemmas\<close>

lemma vec3_zero_eq [simp]: "(0::vec3) = Vec3 0 0 0"
  by (simp add: zero_vec3_def)

text \<open>With \<open>0\<close> unfolded to \<open>Vec3 0 0 0\<close>, the unit laws in that form.\<close>

lemma vec3_add_zero [simp]: "Vec3 0 0 0 + v = v" "v + Vec3 0 0 0 = v"
  by (cases v; simp)+

lemma vscale_zero [simp]: "vscale s 0 = 0"
  by simp

section \<open>Counted loops: fold and divergence\<close>

lemma unat_word_Suc:
  fixes i :: "'a::len word"
  assumes "Suc (unat i) < 2 ^ LENGTH('a)"
  shows "unat (i + 1) = Suc (unat i)"
  using assms by (simp add: unat_word_ariths)

lemma for_word_fold:
  fixes i :: "'a::len word"
  assumes "n < 2 ^ LENGTH('a)" and "unat i \<le> n"
  shows "for_word n body i s = Some (fold body [unat i..<n] s)"
  using assms
proof (induction "n - unat i" arbitrary: i s)
  case 0
  then show ?case by (simp add: for_word.simps)
next
  case (Suc k)
  then have lt: "unat i < n" by simp
  with Suc.prems have nxt: "unat (i + 1) = Suc (unat i)"
    by (intro unat_word_Suc) simp
  have "for_word n body (i + 1) (body (unat i) s)
          = Some (fold body [unat (i + 1)..<n] (body (unat i) s))"
    using Suc.hyps(2) Suc.prems lt nxt by (intro Suc.hyps(1)) simp_all
  moreover have "[unat i..<n] = unat i # [Suc (unat i)..<n]"
    using lt by (simp add: upt_conv_Cons)
  ultimately show ?case
    using lt nxt by (simp add: for_word.simps [of n body i s])
qed

lemma for_word_diverges:
  fixes i :: "'a::len word"
  assumes "2 ^ LENGTH('a) \<le> n"
  shows "for_word n body i s = None"
proof (rule ccontr)
  assume "for_word n body i s \<noteq> None"
  then obtain r where ret: "for_word n body i s = Some r" by blast
  have "2 ^ LENGTH('a) \<le> n \<longrightarrow> False"
  proof (rule for_word.raw_induct [where P = "\<lambda>n body i s r. 2 ^ LENGTH('a) \<le> n \<longrightarrow> False",
        OF _ ret])
    fix f :: "nat \<Rightarrow> (nat \<Rightarrow> 's \<Rightarrow> 's) \<Rightarrow> 'a word \<Rightarrow> 's \<Rightarrow> 's option"
      and n body and i :: "'a word" and s r
    assume IH: "\<And>n body i s r. f n body i s = Some r \<Longrightarrow> 2 ^ LENGTH('a) \<le> n \<longrightarrow> False"
      and eq: "(if unat i < n then f n body (i + 1) (body (unat i) s) else Some s) = Some r"
    show "2 ^ LENGTH('a) \<le> n \<longrightarrow> False"
    proof
      assume big: "2 ^ LENGTH('a) \<le> n"
      then have "unat i < n" using unsigned_less [of i, where ?'a = nat] by linarith
      with eq have "f n body (i + 1) (body (unat i) s) = Some r" by simp
      with IH big show False by blast
    qed
  qed
  with assms show False by blast
qed

section \<open>Loops whose body may fail: closed forms\<close>

lemma ub_bind_Inr [simp]: "ub_bind (Inr x) f = f x"
  by (simp add: ub_bind_def)

lemma ub_bind_Inl [simp]: "ub_bind (Inl e) f = Inl e"
  by (simp add: ub_bind_def)

lemma ub_bind_eq_Inr: "ub_bind m f = Inr x \<longleftrightarrow> (\<exists>y. m = Inr y \<and> f y = Inr x)"
  by (cases m) simp_all

lemma ub_loop_append: "ub_loop f (xs @ ys) s = ub_bind (ub_loop f xs s) (ub_loop f ys)"
  by (induction xs arbitrary: s) (auto simp: ub_bind_def split: sum.split)

text \<open>A loop whose every iteration \<open>k\<close> succeeds and moves a closed-form state
  \<open>c k\<close> to \<open>c (k + 1)\<close> ends in \<open>c n\<close>.\<close>

lemma ub_loop_closed:
  assumes "\<And>k. k < n \<Longrightarrow> f k (c k) = Inr (c (Suc k))"
  shows "ub_loop f [0..<n] (c 0) = Inr (c n)"
  using assms by (induction n) (simp_all add: ub_loop_append)

text \<open>A property every successful iteration keeps holds after the loop.\<close>

lemma ub_loop_invariant:
  assumes "\<And>k t t'. f k t = Inr t' \<Longrightarrow> P t \<Longrightarrow> P t'"
  shows "ub_loop f ks s = Inr s' \<Longrightarrow> P s \<Longrightarrow> P s'"
proof (induction ks arbitrary: s)
  case (Cons k ks)
  then show ?case using assms by (cases "f k s") auto
qed simp

section \<open>Lists and folds\<close>

lemma ub_loop_map: "ub_loop f (map g xs) s = ub_loop (\<lambda>k. f (g k)) xs s"
  by (induction xs arbitrary: s) (simp_all add: ub_bind_def split: sum.split)

lemma upt_Suc_map: "[1..<Suc n] = map Suc [0..<n]"
  by (simp add: map_Suc_upt)

lemma update_index_prefix:
  assumes "k < length xs"
  shows "(map g [0..<k] @ drop k xs)[k := g k] = map g [0..<Suc k] @ drop (Suc k) xs"
  using assms by (simp add: list_update_append Cons_nth_drop_Suc [symmetric])

lemma map_replicate_update:
  assumes "k < n"
  shows "(map f [0..<k] @ replicate (n - k) x)[k := f k] = map f [0..<Suc k] @ replicate (n - Suc k) x"
proof -
  from assms have "replicate (n - k) x = x # replicate (n - Suc k) x"
    by (metis Suc_diff_Suc replicate_Suc)
  then show ?thesis by (simp add: list_update_append)
qed

text \<open>Pointer lists of a rig: the non-null entries of a prefix of an array.\<close>

lemma map_filter_append: "List.map_filter f (xs @ ys) = List.map_filter f xs @ List.map_filter f ys"
  by (simp add: List.map_filter_def)

lemma set_map_filter: "set (List.map_filter f xs) = {y. \<exists>x \<in> set xs. f x = Some y}"
  by (auto simp: List.map_filter_def image_iff) (metis option.sel)

lemma map_filter_take_fresh:
  assumes "distinct (List.map_filter f (take n xs))" and "k < n" and "k < length xs"
    and "f (xs ! k) = Some b"
  shows "b \<notin> set (List.map_filter f (take k xs))"
proof -
  have "take n xs = take (Suc k) xs @ drop (Suc k) (take n xs)"
    using assms(2) by (metis Suc_leI append_take_drop_id min.absorb1 take_take)
  then have "distinct (List.map_filter f (take (Suc k) xs))"
    using assms(1) by (metis distinct_append map_filter_append)
  then show ?thesis
    using assms(3,4) by (simp add: take_Suc_conv_app_nth map_filter_append)
qed

lemma map_filter_take_mem:
  assumes "k < n" and "k < length xs" and "f (xs ! k) = Some b"
  shows "b \<in> set (List.map_filter f (take n xs))"
proof -
  have "xs ! k \<in> set (take n xs)"
    using assms(1,2) by (metis in_set_conv_nth length_take min_less_iff_conj nth_take)
  with assms(3) show ?thesis by (auto simp: set_map_filter)
qed

lemma update_strip_prefix:
  assumes "k < length xs"
  shows "(map f (take k xs) @ drop k xs)[k := f (xs ! k)] = map f (take (Suc k) xs) @ drop (Suc k) xs"
  using assms by (simp add: take_Suc_conv_app_nth list_update_append Cons_nth_drop_Suc [symmetric])

lemma nth_strip_prefix: "k < length xs \<Longrightarrow> (map f (take k xs) @ drop k xs) ! k = xs ! k"
  by (simp add: nth_append)

section \<open>Arithmetic\<close>

text \<open>Objects allocated three per segment: address arithmetic modulo 3.\<close>

lemma upto_Suc_cases:
  "((b::nat) \<le> a \<and> a < b + (3 + 3 * k)) =
      (b \<le> a \<and> a < b + 3 * k \<or> a = b + 3 * k \<or> a = Suc (b + 3 * k) \<or> a = Suc (Suc (b + 3 * k)))"
  by auto

lemma mod3_simps:
  "Suc (Suc (3 * k)) mod 3 = 2" "Suc (Suc (3 * k)) div 3 = k"
  "Suc (3 * k) mod 3 = 1" "Suc (3 * k) div 3 = k"
  "(3 * k) mod 3 = (0::nat)" "(3 * k) div 3 = (k::nat)"
  by presburger+

lemma mod3_window:
  fixes a b k :: nat
  assumes "\<not> a < b + 3 * k" "a < b + (3 + 3 * k)"
  shows "a = b + 3 * k + (a - b) mod 3"
proof -
  from assms have eq: "a - b = 3 * k + (a - b - 3 * k)" and lt: "a - b - 3 * k < 3" by arith+
  have "(a - b) mod 3 = (a - b - 3 * k) mod 3" by (subst eq) simp
  with lt have "(a - b) mod 3 = a - b - 3 * k" by simp
  with assms show ?thesis by arith
qed

lemma mod3_cases:
  fixes a b k :: nat
  assumes "\<not> a < b + 3 * k" "a < b + (3 + 3 * k)"
  shows "(a - b) mod 3 = 2 \<Longrightarrow> a = Suc (Suc (b + 3 * k))"
    and "(a - b) mod 3 = 1 \<Longrightarrow> a = Suc (b + 3 * k)"
    and "3 dvd (a - b) \<Longrightarrow> a = b + 3 * k"
  using mod3_window [OF assms] by (simp_all add: dvd_eq_mod_eq_0)

lemma weight_Suc: "(r::real) - real k * ws - ws = r - real (Suc k) * ws"
  by (simp add: algebra_simps)

text \<open>The addresses \<open>B + 3 i + r\<close>, \<open>i < N\<close>: the window \<open>[B, B + 3 N)\<close> at residue \<open>r\<close>.\<close>

lemma mem_stride3:
  fixes a B N r :: nat
  assumes "r < 3"
  shows "(\<exists>i<N. a = B + 3 * i + r) \<longleftrightarrow> B \<le> a \<and> a < B + 3 * N \<and> (a - B) mod 3 = r"
proof
  assume "\<exists>i<N. a = B + 3 * i + r"
  then obtain i where "i < N" "a = B + 3 * i + r" by blast
  with assms show "B \<le> a \<and> a < B + 3 * N \<and> (a - B) mod 3 = r" by simp
next
  assume a: "B \<le> a \<and> a < B + 3 * N \<and> (a - B) mod 3 = r"
  have d: "a - B = 3 * ((a - B) div 3) + r" using a by (metis div_mult_mod_eq mult.commute)
  then have "(a - B) div 3 < N" using a assms by linarith
  with d a show "\<exists>i<N. a = B + 3 * i + r" by (intro exI [of _ "(a - B) div 3"]) linarith
qed

lemma set_stride3:
  fixes B N r :: nat
  assumes "r < 3"
  shows "set (map (\<lambda>i. B + 3 * i + r) [0..<N]) = {a. B \<le> a \<and> a < B + 3 * N \<and> (a - B) mod 3 = r}"
proof (rule set_eqI)
  fix a
  have "a \<in> set (map (\<lambda>i. B + 3 * i + r) [0..<N]) \<longleftrightarrow> (\<exists>i<N. a = B + 3 * i + r)" by auto
  then show "a \<in> set (map (\<lambda>i. B + 3 * i + r) [0..<N]) \<longleftrightarrow>
      a \<in> {a. B \<le> a \<and> a < B + 3 * N \<and> (a - B) mod 3 = r}"
    using mem_stride3 [OF assms, where a = a and N = N and B = B] by simp
qed

lemma set_stride3_0:
  fixes B N :: nat
  shows "set (map (\<lambda>i. B + 3 * i) [0..<N]) = {a. B \<le> a \<and> a < B + 3 * N \<and> (a - B) mod 3 = 0}"
  using set_stride3 [of 0 B N] by (simp only: add_0_right)

end
