(* ===== verification/Physics_World.thy ===== *)
theory Physics_World
  imports Hair_Prelude
begin

text \<open>
  The Bullet dynamics world that \<open>hair.cpp\<close> calls into (\<open>bt_engine_dynamicsWorld\<close>),
  modelled from the spec's external interface (section 6), not from Bullet's sources.
  The world is an object store: every \<open>new\<close> of a shape, a rigid body or a constraint
  allocates a fresh address from the counter \<open>w_next\<close>, every \<open>delete\<close> frees it; apart
  from the store, the world keeps the bodies registered by \<open>addRigidBody\<close> (with their
  collision group and mask) and the constraints registered by \<open>addConstraint\<close> (with
  the flag that disables collisions between the linked bodies). The setters the hair
  code calls are record updates of the stored object. \<open>world_wf\<close> is the store's
  invariant (addresses below the counter, registered objects allocated); every
  operation keeps it.
\<close>

datatype activation_state =
  ACTIVE_TAG | ISLAND_SLEEPING | WANTS_DEACTIVATION | DISABLE_DEACTIVATION | DISABLE_SIMULATION

text \<open>The symbolic collision-filter constants of the engine that the hair code passes.\<close>

datatype collision_filter = COLLISION_GROUP_KINEMATIC | COLLISION_MASK_NONE | COLLISION_FILTER_OTHER nat

record collision_shape =
  cs_mesh :: nat
  cs_static :: bool

record rigid_body =
  rb_mass :: real
  rb_static :: bool
  rb_inertia_mass :: real
  rb_shape :: nat
  rb_motion :: nat
  rb_gravity :: vec3
  rb_lin_damping :: real
  rb_ang_damping :: real
  rb_restitution :: real
  rb_friction :: real
  rb_activation :: activation_state
  rb_lin_vel :: vec3
  rb_ang_vel :: vec3

text \<open>A constraint frame: its origin and the Euler angles given to \<open>setEulerZYX\<close>.\<close>

record frame =
  fr_origin :: vec3
  fr_euler :: vec3

text \<open>\<open>btGeneric6DofConstraint\<close>: the two linked bodies, their frames, the per-axis stop
  CFM and ERP (\<open>None\<close> while unset; axes 0--2 linear, 3--5 angular), the limits, the
  solver-iteration override (\<open>-1\<close> is none) and the debug draw size.\<close>

record constraint =
  c_body_a :: nat
  c_body_b :: nat
  c_frame_a :: frame
  c_frame_b :: frame
  c_use_ref_a :: bool
  c_stop_cfm :: "nat \<Rightarrow> real option"
  c_stop_erp :: "nat \<Rightarrow> real option"
  c_lin_lower :: vec3
  c_lin_upper :: vec3
  c_ang_lower :: vec3
  c_ang_upper :: vec3
  c_solver_iters :: int
  c_dbg_size :: real

record world =
  w_gravity :: vec3
  w_bodies :: "nat \<rightharpoonup> rigid_body"
  w_shapes :: "nat \<rightharpoonup> collision_shape"
  w_motion :: "nat \<rightharpoonup> mat4"
  w_constraints :: "nat \<rightharpoonup> constraint"
  w_next :: nat
  w_rigid :: "(nat \<times> collision_filter \<times> collision_filter) list"
  w_joints :: "(nat \<times> bool) list"

section \<open>Constructors\<close>

text \<open>\<open>new btRigidBody(mass, motionState, shape, localInertia)\<close>: a body of mass 0 is
  static in Bullet; the other fields take Bullet's defaults. The body refers to its
  motion state (a \<open>btDefaultMotionState\<close> holding the start transform) and to its
  shape, and owns neither: deleting the body frees neither of them.\<close>

definition new_btRigidBody :: "real \<Rightarrow> nat \<Rightarrow> nat \<Rightarrow> real \<Rightarrow> rigid_body" where
  "new_btRigidBody mass motion shape inertia_mass =
     \<lparr>rb_mass = mass, rb_static = (mass = 0), rb_inertia_mass = inertia_mass,
      rb_shape = shape, rb_motion = motion, rb_gravity = 0, rb_lin_damping = 0,
      rb_ang_damping = 0, rb_restitution = 0, rb_friction = 1 / 2,
      rb_activation = ACTIVE_TAG, rb_lin_vel = 0, rb_ang_vel = 0\<rparr>"

definition new_btGeneric6DofConstraint ::
  "nat \<Rightarrow> nat \<Rightarrow> frame \<Rightarrow> frame \<Rightarrow> bool \<Rightarrow> constraint" where
  "new_btGeneric6DofConstraint a b fa fb ref_a =
     \<lparr>c_body_a = a, c_body_b = b, c_frame_a = fa, c_frame_b = fb, c_use_ref_a = ref_a,
      c_stop_cfm = (\<lambda>_. None), c_stop_erp = (\<lambda>_. None),
      c_lin_lower = 0, c_lin_upper = 0, c_ang_lower = Vec3 1 1 1,
      c_ang_upper = Vec3 (- 1) (- 1) (- 1), c_solver_iters = - 1, c_dbg_size = 3 / 10\<rparr>"

section \<open>Allocation and release\<close>

definition alloc_shape :: "collision_shape \<Rightarrow> world \<Rightarrow> nat \<times> world" where
  "alloc_shape s w = (w_next w, w\<lparr>w_shapes := (w_shapes w)(w_next w \<mapsto> s), w_next := Suc (w_next w)\<rparr>)"

definition alloc_motion_state :: "mat4 \<Rightarrow> world \<Rightarrow> nat \<times> world" where
  "alloc_motion_state t w = (w_next w, w\<lparr>w_motion := (w_motion w)(w_next w \<mapsto> t), w_next := Suc (w_next w)\<rparr>)"

definition alloc_body :: "rigid_body \<Rightarrow> world \<Rightarrow> nat \<times> world" where
  "alloc_body b w = (w_next w, w\<lparr>w_bodies := (w_bodies w)(w_next w \<mapsto> b), w_next := Suc (w_next w)\<rparr>)"

definition alloc_constraint :: "constraint \<Rightarrow> world \<Rightarrow> nat \<times> world" where
  "alloc_constraint c w =
     (w_next w, w\<lparr>w_constraints := (w_constraints w)(w_next w \<mapsto> c), w_next := Suc (w_next w)\<rparr>)"

definition delete_body :: "nat \<Rightarrow> world \<Rightarrow> world" where
  "delete_body b w = w\<lparr>w_bodies := (w_bodies w)(b := None)\<rparr>"

definition delete_shape :: "nat \<Rightarrow> world \<Rightarrow> world" where
  "delete_shape s w = w\<lparr>w_shapes := (w_shapes w)(s := None)\<rparr>"

definition delete_constraint :: "nat \<Rightarrow> world \<Rightarrow> world" where
  "delete_constraint c w = w\<lparr>w_constraints := (w_constraints w)(c := None)\<rparr>"

section \<open>Registration\<close>

definition addRigidBody ::
  "nat \<Rightarrow> collision_filter \<Rightarrow> collision_filter \<Rightarrow> world \<Rightarrow> world" where
  "addRigidBody b grp msk w = w\<lparr>w_rigid := w_rigid w @ [(b, grp, msk)]\<rparr>"

definition removeRigidBody :: "nat \<Rightarrow> world \<Rightarrow> world" where
  "removeRigidBody b w = w\<lparr>w_rigid := filter (\<lambda>e. fst e \<noteq> b) (w_rigid w)\<rparr>"

definition addConstraint :: "nat \<Rightarrow> bool \<Rightarrow> world \<Rightarrow> world" where
  "addConstraint c disable w = w\<lparr>w_joints := w_joints w @ [(c, disable)]\<rparr>"

definition removeConstraint :: "nat \<Rightarrow> world \<Rightarrow> world" where
  "removeConstraint c w = w\<lparr>w_joints := filter (\<lambda>e. fst e \<noteq> c) (w_joints w)\<rparr>"

section \<open>Setters\<close>

text \<open>A setter called through a pointer writes the object at that address; the hair
  code calls them only on objects it has just allocated or checked.\<close>

definition update_body :: "nat \<Rightarrow> (rigid_body \<Rightarrow> rigid_body) \<Rightarrow> world \<Rightarrow> world" where
  "update_body b f w = w\<lparr>w_bodies := (w_bodies w)(b := map_option f (w_bodies w b))\<rparr>"

definition update_constraint :: "nat \<Rightarrow> (constraint \<Rightarrow> constraint) \<Rightarrow> world \<Rightarrow> world" where
  "update_constraint c f w =
     w\<lparr>w_constraints := (w_constraints w)(c := map_option f (w_constraints w c))\<rparr>"

text \<open>\<open>setDamping\<close> clamps both coefficients to \<open>[0, 1]\<close>.\<close>

definition bt_clamp01 :: "real \<Rightarrow> real" where
  "bt_clamp01 x = max 0 (min 1 x)"

definition setDamping :: "real \<Rightarrow> real \<Rightarrow> rigid_body \<Rightarrow> rigid_body" where
  "setDamping l a b = b\<lparr>rb_lin_damping := bt_clamp01 l, rb_ang_damping := bt_clamp01 a\<rparr>"

text \<open>\<open>activate()\<close> wakes a body unless its state is pinned by
  \<open>DISABLE_DEACTIVATION\<close> or \<open>DISABLE_SIMULATION\<close>.\<close>

definition activate :: "rigid_body \<Rightarrow> rigid_body" where
  "activate b =
     (if rb_activation b \<in> {DISABLE_DEACTIVATION, DISABLE_SIMULATION} then b
      else b\<lparr>rb_activation := ACTIVE_TAG\<rparr>)"

text \<open>\<open>setParam(BT_CONSTRAINT_STOP_CFM, v, axis)\<close> and the ERP counterpart.\<close>

definition set_stop_cfm :: "real \<Rightarrow> nat \<Rightarrow> constraint \<Rightarrow> constraint" where
  "set_stop_cfm v ax c = c\<lparr>c_stop_cfm := (c_stop_cfm c)(ax \<mapsto> v)\<rparr>"

definition set_stop_erp :: "real \<Rightarrow> nat \<Rightarrow> constraint \<Rightarrow> constraint" where
  "set_stop_erp v ax c = c\<lparr>c_stop_erp := (c_stop_erp c)(ax \<mapsto> v)\<rparr>"

text \<open>\<open>setLinearVelocity(v)\<close>.\<close>

definition setLinearVelocity :: "vec3 \<Rightarrow> rigid_body \<Rightarrow> rigid_body" where
  "setLinearVelocity v b = b\<lparr>rb_lin_vel := v\<rparr>"

section \<open>The store invariant\<close>

definition world_wf :: "world \<Rightarrow> bool" where
  "world_wf w \<longleftrightarrow>
     (\<forall>k \<in> dom (w_bodies w) \<union> dom (w_shapes w) \<union> dom (w_motion w) \<union> dom (w_constraints w).
        k < w_next w) \<and>
     (\<forall>e \<in> set (w_rigid w). fst e \<in> dom (w_bodies w)) \<and>
     (\<forall>e \<in> set (w_joints w). fst e \<in> dom (w_constraints w))"

lemma world_wf_fresh:
  assumes "world_wf w"
  shows "w_bodies w (w_next w) = None" "w_shapes w (w_next w) = None"
    "w_motion w (w_next w) = None" "w_constraints w (w_next w) = None"
  using assms unfolding world_wf_def by blast+

lemma world_wf_alloc_shape: "world_wf w \<Longrightarrow> world_wf (snd (alloc_shape s w))"
  by (auto simp: world_wf_def alloc_shape_def less_Suc_eq)

lemma world_wf_alloc_motion_state: "world_wf w \<Longrightarrow> world_wf (snd (alloc_motion_state t w))"
  by (auto simp: world_wf_def alloc_motion_state_def less_Suc_eq)

lemma world_wf_alloc_body: "world_wf w \<Longrightarrow> world_wf (snd (alloc_body b w))"
  by (auto simp: world_wf_def alloc_body_def less_Suc_eq)

lemma world_wf_alloc_constraint: "world_wf w \<Longrightarrow> world_wf (snd (alloc_constraint c w))"
  by (auto simp: world_wf_def alloc_constraint_def less_Suc_eq)

lemma world_wf_update_body: "world_wf w \<Longrightarrow> world_wf (update_body b f w)"
  by (auto simp: world_wf_def update_body_def split: if_splits)

lemma world_wf_update_constraint: "world_wf w \<Longrightarrow> world_wf (update_constraint c f w)"
  by (auto simp: world_wf_def update_constraint_def split: if_splits)

lemma world_wf_addRigidBody:
  "world_wf w \<Longrightarrow> b \<in> dom (w_bodies w) \<Longrightarrow> world_wf (addRigidBody b g m w)"
  by (auto simp: world_wf_def addRigidBody_def)

lemma world_wf_addConstraint:
  "world_wf w \<Longrightarrow> c \<in> dom (w_constraints w) \<Longrightarrow> world_wf (addConstraint c d w)"
  by (auto simp: world_wf_def addConstraint_def)

text \<open>Releasing: unregister first, then free, as \<open>Hair_Clear\<close> does.\<close>

lemma world_wf_remove_delete_body:
  "world_wf w \<Longrightarrow> world_wf (delete_body b (removeRigidBody b w))"
  by (auto simp: world_wf_def delete_body_def removeRigidBody_def)

lemma world_wf_delete_shape: "world_wf w \<Longrightarrow> world_wf (delete_shape s w)"
  by (auto simp: world_wf_def delete_shape_def)

lemma world_wf_remove_delete_constraint:
  "world_wf w \<Longrightarrow> world_wf (delete_constraint c (removeConstraint c w))"
  by (auto simp: world_wf_def delete_constraint_def removeConstraint_def)

lemmas world_wf_ops = world_wf_alloc_shape world_wf_alloc_motion_state world_wf_alloc_body world_wf_alloc_constraint
  world_wf_update_body world_wf_update_constraint world_wf_addRigidBody world_wf_addConstraint
  world_wf_remove_delete_body world_wf_delete_shape world_wf_remove_delete_constraint

end
