(* ===== verification/Engine_Entity.thy ===== *)
theory Engine_Entity
  imports Hair_Prelude
begin

text \<open>
  The engine data \<open>hair.cpp\<close> reads, modelled from the spec (sections 3 and 6): an
  entity (the owning character) with its world transform and, per skeletal bone, the
  bone's full transform and the address of the already simulated body attached to it
  (\<open>bf.bone_tags[k]\<close> and \<open>bt_body[k]\<close>; one list, so \<open>bone_tag_count\<close> is its
  length and both arrays have one entry per bone); the skeletal model registry
  (\<open>World_GetModelByID\<close>), whose models list their meshes with bounding boxes; the
  engine container the hair registers for room bookkeeping; and the matrix product
  \<open>Mat4_Mat4_mul\<close>.
\<close>

record bone_tag =
  full_transform :: mat4
  bt_body :: "nat option"

record entity =
  e_transform :: mat4
  bone_tags :: "bone_tag list"

definition bone_tag_count :: "entity \<Rightarrow> nat" where
  "bone_tag_count e = length (bone_tags e)"

text \<open>A mesh's bounding box is two \<open>btScalar\<close> arrays read by index (\<open>bb_min[k]\<close>); the
  model keeps the read as the function the C pointer arithmetic is.\<close>

record base_mesh =
  mesh_id :: nat
  bb_min :: "nat \<Rightarrow> real"
  bb_max :: "nat \<Rightarrow> real"

record skeletal_model =
  model_id :: nat
  mesh_tree :: "base_mesh list"

definition mesh_count :: "skeletal_model \<Rightarrow> nat" where
  "mesh_count m = length (mesh_tree m)"

definition World_GetModelByID :: "(nat \<rightharpoonup> skeletal_model) \<Rightarrow> nat \<Rightarrow> skeletal_model option" where
  "World_GetModelByID models mid = models mid"

datatype object_type = OBJECT_STATIC_MESH | OBJECT_ROOM_BASE | OBJECT_ENTITY | OBJECT_HAIR

record engine_container =
  room :: "nat option"
  object_type :: object_type

text \<open>\<open>Mat4_Mat4_mul(result, a, b)\<close>: the column-major product \<open>a * b\<close>.\<close>

definition Mat4_Mat4_mul :: "mat4 \<Rightarrow> mat4 \<Rightarrow> mat4" where
  "Mat4_Mat4_mul a b =
     (\<lambda>k. if k < 16 then (\<Sum>t<4. a (4 * t + k mod 4) * b (4 * (k div 4) + t)) else 0)"

text \<open>The compressed orientation sample the hair keeps of a transform: the first row
  of its rotation (\<open>m[0], m[4], m[8]\<close>).\<close>

definition mat4_ang :: "mat4 \<Rightarrow> vec3" where
  "mat4_ang m = Vec3 (m 0) (m 4) (m 8)"

text \<open>The same three entries in the reverse order, as \<open>Hair_Update\<close> reads them
  (\<open>m[8], m[4], m[0]\<close>).\<close>

definition mat4_ang_rev :: "mat4 \<Rightarrow> vec3" where
  "mat4_ang_rev m = Vec3 (m 8) (m 4) (m 0)"

end
