(* ===== verification/Hair_Types.thy ===== *)
theory Hair_Types
  imports Physics_World Engine_Entity
begin

text \<open>
  The data of \<open>hair.h\<close> as \<open>hair.cpp\<close> uses it (the header is not among the sources; the
  field list is the one the code reads and writes and the spec's section 3 describes):
  the tuning profile \<open>hair_setup_t\<close> that \<open>Hair_GetSetup\<close> fills from the script and
  \<open>Hair_Create\<close> reads, one \<open>hair_element_t\<close> per segment (its mesh, its body and its
  collision shape, each a nullable pointer), and the rig \<open>hair_t\<close> with its owner
  reference, its cached owner pose, its element and joint arrays and the container
  used for room bookkeeping. A pointer is an address of the world's store or \<open>None\<close>
  for \<open>NULL\<close>; a \<open>calloc\<close>ed array is a list of \<open>None\<close>s.
\<close>

record hair_setup =
  model :: nat
  link_body :: nat
  vertex_map_count :: nat
  root_weight :: real
  tail_weight :: real
  hair_inertia :: real
  hair_friction :: real
  hair_restitution :: real
  joint_radius :: real
  joint_overlap :: real
  joints_per_body :: nat
  joint_cfm :: real
  joint_erp :: real
  hair_damping :: "real \<times> real"
  head_vertex_map :: "nat list"
  head_offset :: vec3
  root_angle :: vec3

record hair_element =
  el_mesh :: "base_mesh option"
  el_body :: "nat option"
  el_shape :: "nat option"

definition empty_element :: hair_element where
  "empty_element = \<lparr>el_mesh = None, el_body = None, el_shape = None\<rparr>"

record hair =
  container :: "engine_container option"
  owner_char :: "nat option"
  owner_body :: nat
  owner_char_pos :: vec3
  owner_char_ang :: vec3
  owner_body_pos :: vec3
  owner_body_ang :: vec3
  root_index :: nat
  tail_index :: nat
  element_count :: nat
  elements :: "hair_element list"
  joint_count :: nat
  joints :: "nat option list"

text \<open>The rig state a zero-initialised \<open>hair_t\<close> starts from, and the one \<open>Hair_Clear\<close>
  leaves.\<close>

definition empty_hair :: hair where
  "empty_hair =
     \<lparr>container = None, owner_char = None, owner_body = 0, owner_char_pos = 0,
      owner_char_ang = 0, owner_body_pos = 0, owner_body_ang = 0, root_index = 0,
      tail_index = 0, element_count = 0, elements = [], joint_count = 0, joints = []\<rparr>"

end
