(* ===== verification/Hair_Create.thy ===== *)
theory Hair_Create
  imports Hair_Types "HOL-Library.Monad_Syntax"
begin

text \<open>
  \<open>Hair_Create\<close> (\<open>hair.cpp\<close> lines 3--245), the rig builder. It checks its inputs
  (\<open>Hair_Create\<close>'s guard), fills the rig's header from the owner's pose
  (\<open>hair_create_init\<close>), creates one body per mesh of the model in a loop whose
  counter is a \<open>uint8_t\<close> (\<open>create_body_step\<close>, run by \<open>for_word\<close> at 8 bits), and
  then, in a loop with a \<open>uint16_t\<close> counter, \<open>joints_per_body\<close> constraints per
  segment (\<open>create_segment_joints\<close>, whose inner loop is \<open>create_joint_step\<close>, with
  the frames of \<open>joint_frames\<close>, the softness of \<open>set_stop_params\<close> and the limits of
  \<open>joint_limits\<close>). The result is \<open>None\<close> when a loop never ends, \<open>Inl\<close> on undefined
  behaviour, and otherwise the C return value with the rig and the world.
\<close>

section \<open>Initial rig header\<close>

definition upd_element :: "nat \<Rightarrow> (hair_element \<Rightarrow> hair_element) \<Rightarrow> hair \<Rightarrow> hair" where
  "upd_element i f h = h\<lparr>elements := (elements h)[i := f (elements h ! i)]\<rparr>"

text \<open>Lines 19--46: the container, the owner, the pose snapshot, the element array
  (\<open>calloc\<close>: all pointers \<open>NULL\<close>), the root and tail indices.\<close>

definition hair_create_init :: "hair \<Rightarrow> hair_setup \<Rightarrow> nat \<Rightarrow> entity \<Rightarrow> skeletal_model \<Rightarrow> hair" where
  "hair_create_init h s eid ent m =
     (let bone = full_transform (bone_tags ent ! link_body s); n = mesh_count m in
      h\<lparr>container := Some \<lparr>room = None, object_type = OBJECT_HAIR\<rparr>,
        owner_char := Some eid, owner_body := link_body s,
        owner_char_pos := mat4_pos (e_transform ent), owner_char_ang := mat4_ang (e_transform ent),
        owner_body_pos := mat4_pos bone, owner_body_ang := mat4_ang bone,
        element_count := n, elements := replicate n empty_element,
        root_index := 0, tail_index := n - 1\<rparr>)"

section \<open>Bodies\<close>

text \<open>One pass of the loop of lines 54--114 for segment \<open>i\<close>. The state is the rig, the
  world and \<open>current_weight\<close>. The inertia is computed from the weight before the
  decrement of line 73, the body's mass from the weight after it. The start transform
  composes the owner's transform with the bone \<open>root_index\<close> (line 77).\<close>

definition create_body_step ::
  "hair_setup \<Rightarrow> entity \<Rightarrow> skeletal_model \<Rightarrow> real \<Rightarrow> nat \<Rightarrow>
   hair \<times> world \<times> real \<Rightarrow> hair \<times> world \<times> real" where
  "create_body_step s ent m weight_step i hwc =
     (case hwc of (h, w, current_weight) \<Rightarrow>
      let mesh = mesh_tree m ! i;
          h1 = upd_element i (el_mesh_update (\<lambda>_. Some mesh)) h
      in case alloc_shape \<lparr>cs_mesh = mesh_id mesh, cs_static = False\<rparr> w of (sid, w1) \<Rightarrow>
      let h2 = upd_element i (el_shape_update (\<lambda>_. Some sid)) h1;
          inertia_mass = current_weight * hair_inertia s;
          current_weight' = current_weight - weight_step;
          tr = Mat4_Mat4_mul (e_transform ent) (full_transform (bone_tags ent ! root_index h2))
      in case alloc_motion_state tr w1 of (ms, w2) \<Rightarrow>
      case alloc_body (new_btRigidBody current_weight' ms sid inertia_mass) w2 of (bid, w3) \<Rightarrow>
      let h3 = upd_element i (el_body_update (\<lambda>_. Some bid)) h2;
          w4 = update_body bid (\<lambda>b. b\<lparr>rb_gravity := vscale (1 / 10) (w_gravity w3)\<rparr>) w3;
          w5 = update_body bid (setDamping (fst (hair_damping s)) (snd (hair_damping s))) w4;
          w6 = update_body bid (\<lambda>b. b\<lparr>rb_restitution := hair_restitution s\<rparr>) w5;
          w7 = update_body bid (\<lambda>b. b\<lparr>rb_friction := hair_friction s\<rparr>) w6;
          w8 = update_body bid (\<lambda>b. b\<lparr>rb_activation := DISABLE_DEACTIVATION\<rparr>) w7;
          w9 = addRigidBody bid COLLISION_GROUP_KINEMATIC COLLISION_MASK_NONE w8;
          w10 = update_body bid activate w9
      in (h3, w10, current_weight'))"

section \<open>Joints\<close>

text \<open>Lines 195--207: stop CFM on the six axes, then stop ERP on the six axes.\<close>

definition set_stop_params :: "real \<Rightarrow> real \<Rightarrow> constraint \<Rightarrow> constraint" where
  "set_stop_params cfm erp c =
     fold (set_stop_erp erp) [0..<6] (fold (set_stop_cfm cfm) [0..<6] c)"

text \<open>Lines 209--232: the linear axes are locked; the root group gets the narrow
  asymmetric angular window and 100 solver iterations, the others a symmetric
  \<open>\<plusminus>45\<degree>\<close> window (\<open>SIMD_HALF_PI\<close> is \<open>\<pi> / 2\<close>).\<close>

definition joint_limits :: "nat \<Rightarrow> constraint \<Rightarrow> constraint" where
  "joint_limits i c =
     (if i = 0 then
        c\<lparr>c_lin_lower := Vec3 0 0 0, c_lin_upper := Vec3 0 0 0,
          c_ang_lower := Vec3 (- (pi / 2)) 0 (- (pi / 2) * 0.4),
          c_ang_upper := Vec3 (- (pi / 2) * 0.3) 0 ((pi / 2) * 0.4),
          c_solver_iters := 100\<rparr>
      else
        c\<lparr>c_lin_lower := Vec3 0 0 0, c_lin_upper := Vec3 0 0 0,
          c_ang_lower := Vec3 (- (pi / 2) * 0.5) 0 (- (pi / 2) * 0.5),
          c_ang_upper := Vec3 ((pi / 2) * 0.5) 0 ((pi / 2) * 0.5)\<rparr>)"

text \<open>Lines 158--185: the two frames of joint group \<open>i\<close> and the body the joint hangs
  from, the owner's anchor body for the root group and the previous segment's body
  otherwise. The previous segment's length along \<open>y\<close> (line 174) is scaled by the
  overlap factor.\<close>

definition joint_frames ::
  "hair_setup \<Rightarrow> nat \<Rightarrow> real \<Rightarrow> real \<Rightarrow> nat \<Rightarrow> hair \<Rightarrow> ub + frame \<times> frame \<times> nat" where
  "joint_frames s i joint_x joint_y anchor h =
     (if i = 0 then
        Inr (\<lparr>fr_origin = head_offset s + Vec3 joint_x 0 joint_y, fr_euler = root_angle s\<rparr>,
             \<lparr>fr_origin = Vec3 joint_x 0 joint_y, fr_euler = Vec3 0 (- (pi / 2)) 0\<rparr>,
             anchor)
      else
        (case el_mesh (elements h ! (i - 1)) of
           None \<Rightarrow> Inl Null_deref
         | Some pm \<Rightarrow>
             let body_length = \<bar>bb_max pm 1 - bb_min pm 1\<bar> * joint_overlap s in
             (case el_body (elements h ! (i - 1)) of
                None \<Rightarrow> Inl Null_deref
              | Some pb \<Rightarrow>
                  Inr (\<lparr>fr_origin = Vec3 joint_x body_length joint_y, fr_euler = Vec3 0 (pi / 2) 0\<rparr>,
                       \<lparr>fr_origin = Vec3 joint_x 0 joint_y, fr_euler = Vec3 0 (pi / 2) 0\<rparr>,
                       pb))))"

text \<open>The state of the joint loops: the circle position \<open>d\<close>, the last joint offsets
  \<open>joint_x\<close>, \<open>joint_y\<close>, the index \<open>curr_joint\<close> of the next joint, the rig and the
  world.\<close>

record jloop =
  jl_d :: real
  jl_x :: real
  jl_y :: real
  jl_curr :: nat
  jl_hair :: hair
  jl_world :: world

text \<open>One pass of the inner loop (lines 149--241) for joint \<open>j\<close> of group \<open>i\<close>. The
  constraint is stored at \<open>joints[curr_joint]\<close>, but the CFM and ERP of lines 195--207
  are set on \<open>joints[i]\<close>, the joint whose index is the segment's; the limits, the
  draw size and the registration go to \<open>joints[curr_joint]\<close>.\<close>

definition create_joint_step ::
  "hair_setup \<Rightarrow> nat \<Rightarrow> real \<Rightarrow> nat \<Rightarrow> real \<Rightarrow> real \<Rightarrow> nat \<Rightarrow> ub + jloop \<Rightarrow> ub + jloop" where
  "create_joint_step s anchor step i body_width body_depth j r =
     (case r of
        Inl e \<Rightarrow> Inl e
      | Inr st \<Rightarrow>
          let joint_x = (if 1 < joints_per_body s
                         then cos (jl_d st) * ((body_depth * 0.5) * joint_radius s) else jl_x st);
              joint_y = (if 1 < joints_per_body s
                         then sin (jl_d st) * ((body_width * 0.5) * joint_radius s) else jl_y st);
              h = jl_hair st
          in (case joint_frames s i joint_x joint_y anchor h of
                Inl e \<Rightarrow> Inl e
              | Inr (localA, localB, prev_body) \<Rightarrow>
                  (case el_body (elements h ! i) of
                     None \<Rightarrow> Inl Null_deref
                   | Some body \<Rightarrow>
                       (case alloc_constraint
                               (new_btGeneric6DofConstraint prev_body body localA localB True)
                               (jl_world st) of
                          (cid, w1) \<Rightarrow>
                            let h1 = h\<lparr>joints := (joints h)[jl_curr st := Some cid]\<rparr> in
                            (case joints h1 ! i of
                               None \<Rightarrow> Inl Null_deref
                             | Some ji \<Rightarrow>
                                 let w2 = update_constraint ji
                                            (set_stop_params (joint_cfm s) (joint_erp s)) w1;
                                     w3 = update_constraint cid (joint_limits i) w2;
                                     w4 = update_constraint cid (\<lambda>c. c\<lparr>c_dbg_size := 5\<rparr>) w3;
                                     w5 = addConstraint cid True w4
                                 in Inr \<lparr>jl_d = jl_d st + step, jl_x = joint_x, jl_y = joint_y,
                                         jl_curr = Suc (jl_curr st), jl_hair = h1,
                                         jl_world = w5\<rparr>)))))"

text \<open>Lines 139--140: a segment's width and depth from its bounding box. The depth
  reads index 3 of the box arrays, one past the \<open>x, y, z\<close> entries the other reads use.\<close>

definition body_width :: "base_mesh \<Rightarrow> real" where
  "body_width mesh = \<bar>bb_max mesh 0 - bb_min mesh 0\<bar>"

definition body_depth :: "base_mesh \<Rightarrow> real" where
  "body_depth mesh = \<bar>bb_max mesh 3 - bb_min mesh 3\<bar>"

text \<open>One pass of the outer joint loop (lines 132--242) for segment \<open>i\<close>: the segment's
  width and depth, then \<open>joints_per_body\<close> passes of the inner loop from \<open>d = 0\<close>,
  \<open>joint_x = joint_y = 0\<close>.\<close>

definition create_segment_joints ::
  "hair_setup \<Rightarrow> nat \<Rightarrow> real \<Rightarrow> nat \<Rightarrow> ub + jloop \<Rightarrow> ub + jloop" where
  "create_segment_joints s anchor step i r =
     (case r of
        Inl e \<Rightarrow> Inl e
      | Inr st \<Rightarrow>
          (case el_mesh (elements (jl_hair st) ! i) of
             None \<Rightarrow> Inl Null_deref
           | Some mesh \<Rightarrow>
               fold (create_joint_step s anchor step i (body_width mesh) (body_depth mesh))
                    [0..<joints_per_body s] (Inr (st\<lparr>jl_d := 0, jl_x := 0, jl_y := 0\<rparr>))))"

section \<open>The builder\<close>

text \<open>Lines 17--244, after the guards: \<open>anchor\<close> is the owner's body at the link bone,
  checked non-null by the guard.\<close>

definition create_rig ::
  "hair \<Rightarrow> hair_setup \<Rightarrow> nat \<Rightarrow> entity \<Rightarrow> nat \<Rightarrow> skeletal_model \<Rightarrow> world \<Rightarrow>
   (ub + bool \<times> hair \<times> world) option" where
  "create_rig h s eid ent anchor m w =
     (let h1 = hair_create_init h s eid ent m;
          weight_step = (root_weight s - tail_weight s) / real (element_count h1)
      in do {
        (h2, w2, _) \<leftarrow> for_word (element_count h1) (create_body_step s ent m weight_step)
                          (0 :: 8 word) (h1, w, root_weight s);
        let n_joints = element_count h2 * joints_per_body s;
        let h3 = h2\<lparr>joint_count := n_joints, joints := replicate n_joints None\<rparr>;
        let step = (pi * 2) / real (joints_per_body s);
        r \<leftarrow> for_word (element_count h3) (create_segment_joints s anchor step) (0 :: 16 word)
               (Inr \<lparr>jl_d = 0, jl_x = 0, jl_y = 0, jl_curr = 0, jl_hair = h3, jl_world = w2\<rparr>);
        Some (case r of Inl e \<Rightarrow> Inl e | Inr st \<Rightarrow> Inr (True, jl_hair st, jl_world st))
      })"

text \<open>Lines 3--15: the guards. Each failing check returns \<open>false\<close> before anything is
  allocated.\<close>

definition Hair_Create ::
  "hair \<Rightarrow> hair_setup option \<Rightarrow> (nat \<times> entity) option \<Rightarrow> (nat \<rightharpoonup> skeletal_model) \<Rightarrow> world \<Rightarrow>
   (ub + bool \<times> hair \<times> world) option" where
  "Hair_Create h setup parent models w =
     (case (parent, setup) of
        (Some (eid, ent), Some s) \<Rightarrow>
          if bone_tag_count ent \<le> link_body s then Some (Inr (False, h, w))
          else (case bt_body (bone_tags ent ! link_body s) of
                  None \<Rightarrow> Some (Inr (False, h, w))
                | Some anchor \<Rightarrow>
                    (case World_GetModelByID models (model s) of
                       None \<Rightarrow> Some (Inr (False, h, w))
                     | Some m \<Rightarrow>
                         if mesh_count m = 0 then Some (Inr (False, h, w))
                         else create_rig h s eid ent anchor m w))
      | _ \<Rightarrow> Some (Inr (False, h, w)))"

section \<open>Loop frames and termination\<close>

lemma element_count_upd_element [simp]: "element_count (upd_element i f h) = element_count h"
  by (simp add: upd_element_def)

lemma element_count_create_body_step:
  "element_count (fst (create_body_step s ent m ws i hwc)) = element_count (fst hwc)"
  by (simp add: create_body_step_def Let_def split: prod.splits)

lemma element_count_body_loop:
  "element_count (fst (fold (create_body_step s ent m ws) ks hwc)) = element_count (fst hwc)"
  by (induction ks arbitrary: hwc) (simp_all add: element_count_create_body_step)

lemma element_count_hair_create_init [simp]:
  "element_count (hair_create_init h s eid ent m) = mesh_count m"
  by (simp add: hair_create_init_def Let_def)

text \<open>Both loops of the builder run to completion when the model has fewer than 256
  meshes: the \<open>uint8_t\<close> counter then never wraps, nor a fortiori the \<open>uint16_t\<close> one.\<close>

lemma create_rig_returns:
  assumes "mesh_count m < 256"
  shows "\<exists>r. create_rig h s eid ent anchor m w = Some r"
proof -
  let ?h1 = "hair_create_init h s eid ent m"
  let ?ws = "(root_weight s - tail_weight s) / real (mesh_count m)"
  obtain h2 w2 c where loop: "fold (create_body_step s ent m ?ws) [0..<mesh_count m] (?h1, w, root_weight s)
      = (h2, w2, c)" by (metis prod_cases3)
  have n2: "element_count h2 = mesh_count m"
    using element_count_body_loop [of s ent m ?ws "[0..<mesh_count m]" "(?h1, w, root_weight s)"]
    by (simp add: loop)
  have b1: "for_word (mesh_count m) (create_body_step s ent m ?ws) (0 :: 8 word) (?h1, w, root_weight s)
      = Some (h2, w2, c)"
    using assms by (simp add: for_word_fold loop)
  have b2: "\<And>st stp. for_word (mesh_count m) (create_segment_joints s anchor stp) (0 :: 16 word) st
      = Some (fold (create_segment_joints s anchor stp) [0..<mesh_count m] st)"
    using assms by (simp add: for_word_fold)
  show ?thesis
    by (simp add: create_rig_def b1 n2 b2 Let_def)
qed

lemma create_rig_diverges:
  assumes "256 \<le> mesh_count m"
  shows "create_rig h s eid ent anchor m w = None"
  using assms by (simp add: create_rig_def Let_def for_word_diverges)

section \<open>The builder's contract: rejection and termination\<close>

text \<open>C5: the builder is atomic on invalid input. When the owner or the setup is
  missing, the link bone is out of the owner's range or has no body, or the model is
  missing or has no mesh, \<open>Hair_Create\<close> returns \<open>false\<close> and leaves the rig and
  the world exactly as they were: nothing is allocated or registered.\<close>

theorem Hair_Create_rejects:
  assumes "parent = None \<or> setup = None \<or>
     (\<exists>eid ent s. parent = Some (eid, ent) \<and> setup = Some s \<and>
        (bone_tag_count ent \<le> link_body s \<or> bt_body (bone_tags ent ! link_body s) = None \<or>
         World_GetModelByID models (model s) = None \<or>
         (\<exists>m. World_GetModelByID models (model s) = Some m \<and> mesh_count m = 0)))"
  shows "Hair_Create h setup parent models w = Some (Inr (False, h, w))"
  using assms by (auto simp: Hair_Create_def split: option.splits)

text \<open>C8: the builder returns (both of its loops end) whenever the model it would
  build from has fewer than 256 meshes, whatever the other inputs.\<close>

theorem Hair_Create_returns:
  assumes "\<forall>s m. setup = Some s \<longrightarrow> World_GetModelByID models (model s) = Some m \<longrightarrow>
             mesh_count m < 256"
  shows "\<exists>r. Hair_Create h setup parent models w = Some r"
  using assms create_rig_returns
  by (auto simp: Hair_Create_def split: option.splits prod.splits)

text \<open>C9: with valid inputs and a model of 256 meshes or more, the builder never
  returns: the \<open>uint8_t\<close> counter of the body loop wraps from 255 to 0 before it
  reaches the mesh count.\<close>

theorem Hair_Create_diverges:
  assumes "parent = Some (eid, ent)" and "setup = Some s"
    and "link_body s < bone_tag_count ent" and "bt_body (bone_tags ent ! link_body s) \<noteq> None"
    and "World_GetModelByID models (model s) = Some m" and "256 \<le> mesh_count m"
  shows "Hair_Create h setup parent models w = None"
  using assms create_rig_diverges by (auto simp: Hair_Create_def)

end
