(* ===== verification/Hair_Create_Bodies.thy ===== *)
theory Hair_Create_Bodies
  imports Hair_Create
begin

text \<open>
  The body loop of \<open>Hair_Create\<close> in closed form. Starting from a world whose
  addresses from \<open>w_next\<close> on are free, pass \<open>k\<close> of \<open>create_body_step\<close> allocates,
  for segment \<open>i\<close>, the collision shape at \<open>base + 3 i\<close>, the motion state at
  \<open>base + 3 i + 1\<close> and the rigid body \<open>seg_body\<close> at \<open>base + 3 i + 2\<close>, registers the
  body, and points element \<open>i\<close> of the rig at the three (\<open>seg_element\<close>); after \<open>k\<close>
  passes the rig is \<open>body_hair\<close> and the world \<open>body_world\<close>, and \<open>current_weight\<close>
  is \<open>root_weight - k * weight_step\<close>. These are specifications of the loop's result,
  not models of code.
\<close>

definition seg_tr :: "entity \<Rightarrow> mat4" where
  "seg_tr ent = Mat4_Mat4_mul (e_transform ent) (full_transform (bone_tags ent ! 0))"

definition seg_element :: "skeletal_model \<Rightarrow> nat \<Rightarrow> nat \<Rightarrow> hair_element" where
  "seg_element m base i =
     \<lparr>el_mesh = Some (mesh_tree m ! i), el_body = Some (base + 3 * i + 2), el_shape = Some (base + 3 * i)\<rparr>"

definition seg_body :: "hair_setup \<Rightarrow> vec3 \<Rightarrow> real \<Rightarrow> nat \<Rightarrow> nat \<Rightarrow> rigid_body" where
  "seg_body s g ws base i =
     \<lparr>rb_mass = root_weight s - real (Suc i) * ws,
      rb_static = (root_weight s - real (Suc i) * ws = 0),
      rb_inertia_mass = (root_weight s - real i * ws) * hair_inertia s,
      rb_shape = base + 3 * i, rb_motion = base + 3 * i + 1, rb_gravity = vscale (1 / 10) g,
      rb_lin_damping = bt_clamp01 (fst (hair_damping s)),
      rb_ang_damping = bt_clamp01 (snd (hair_damping s)),
      rb_restitution = hair_restitution s, rb_friction = hair_friction s,
      rb_activation = DISABLE_DEACTIVATION, rb_lin_vel = 0, rb_ang_vel = 0\<rparr>"

definition body_hair :: "hair \<Rightarrow> skeletal_model \<Rightarrow> nat \<Rightarrow> nat \<Rightarrow> hair" where
  "body_hair h m base k =
     h\<lparr>elements := map (seg_element m base) [0..<k] @ replicate (length (mesh_tree m) - k) empty_element\<rparr>"

definition body_world :: "hair_setup \<Rightarrow> entity \<Rightarrow> skeletal_model \<Rightarrow> real \<Rightarrow> world \<Rightarrow> nat \<Rightarrow> world" where
  "body_world s ent m ws w0 k =
     (let base = w_next w0 in
      w0\<lparr>w_bodies := (\<lambda>a. if base \<le> a \<and> a < base + 3 * k \<and> (a - base) mod 3 = 2
                          then Some (seg_body s (w_gravity w0) ws base ((a - base) div 3))
                          else w_bodies w0 a),
         w_shapes := (\<lambda>a. if base \<le> a \<and> a < base + 3 * k \<and> (a - base) mod 3 = 0
                          then Some \<lparr>cs_mesh = mesh_id (mesh_tree m ! ((a - base) div 3)), cs_static = False\<rparr>
                          else w_shapes w0 a),
         w_motion := (\<lambda>a. if base \<le> a \<and> a < base + 3 * k \<and> (a - base) mod 3 = 1
                          then Some (seg_tr ent) else w_motion w0 a),
         w_next := base + 3 * k,
         w_rigid := w_rigid w0 @ map (\<lambda>i. (base + 3 * i + 2, COLLISION_GROUP_KINEMATIC, COLLISION_MASK_NONE)) [0..<k]\<rparr>)"

definition fresh_above :: "world \<Rightarrow> bool" where
  "fresh_above w \<longleftrightarrow> (\<forall>a \<ge> w_next w. w_bodies w a = None \<and> w_shapes w a = None \<and> w_motion w a = None)"

lemma body_world_simps [store_simps]:
  "w_next (body_world s ent m ws w0 k) = w_next w0 + 3 * k"
  "w_gravity (body_world s ent m ws w0 k) = w_gravity w0"
  "w_joints (body_world s ent m ws w0 k) = w_joints w0"
  "w_constraints (body_world s ent m ws w0 k) = w_constraints w0"
  by (simp_all add: body_world_def Let_def)

lemma elements_body_hair:
  "elements (body_hair h m base k) = map (seg_element m base) [0..<k] @ replicate (length (mesh_tree m) - k) empty_element"
  by (simp add: body_hair_def)

lemma body_world_Suc:
  assumes fresh: "fresh_above w0"
  shows "body_world s ent m ws w0 (Suc k) =
    (let b = w_next w0; w = body_world s ent m ws w0 k in
     w\<lparr>w_bodies := (w_bodies w)(b + 3 * k + 2 \<mapsto> seg_body s (w_gravity w0) ws b k),
       w_shapes := (w_shapes w)(b + 3 * k \<mapsto> \<lparr>cs_mesh = mesh_id (mesh_tree m ! k), cs_static = False\<rparr>),
       w_motion := (w_motion w)(b + 3 * k + 1 \<mapsto> seg_tr ent),
       w_next := b + 3 * k + 3,
       w_rigid := w_rigid w @ [(b + 3 * k + 2, COLLISION_GROUP_KINEMATIC, COLLISION_MASK_NONE)]\<rparr>)"
proof -
  let ?b = "w_next w0"
  have fr: "\<And>a. ?b \<le> a \<Longrightarrow> w_bodies w0 a = None \<and> w_shapes w0 a = None \<and> w_motion w0 a = None"
    using fresh by (simp add: fresh_above_def)
  have bodies: "(\<lambda>a. if ?b \<le> a \<and> a < ?b + 3 * Suc k \<and> (a - ?b) mod 3 = 2
                    then Some (seg_body s (w_gravity w0) ws ?b ((a - ?b) div 3)) else w_bodies w0 a)
      = (\<lambda>a. if ?b \<le> a \<and> a < ?b + 3 * k \<and> (a - ?b) mod 3 = 2
                    then Some (seg_body s (w_gravity w0) ws ?b ((a - ?b) div 3)) else w_bodies w0 a)
        (?b + 3 * k + 2 \<mapsto> seg_body s (w_gravity w0) ws ?b k)"
    by (rule ext) (auto simp: upto_Suc_cases fr mod3_simps dest: mod3_cases)
  have shapes: "(\<lambda>a. if ?b \<le> a \<and> a < ?b + 3 * Suc k \<and> (a - ?b) mod 3 = 0
                    then Some \<lparr>cs_mesh = mesh_id (mesh_tree m ! ((a - ?b) div 3)), cs_static = False\<rparr>
                    else w_shapes w0 a)
      = (\<lambda>a. if ?b \<le> a \<and> a < ?b + 3 * k \<and> (a - ?b) mod 3 = 0
                    then Some \<lparr>cs_mesh = mesh_id (mesh_tree m ! ((a - ?b) div 3)), cs_static = False\<rparr>
                    else w_shapes w0 a)
        (?b + 3 * k \<mapsto> \<lparr>cs_mesh = mesh_id (mesh_tree m ! k), cs_static = False\<rparr>)"
    by (rule ext) (auto simp: upto_Suc_cases fr mod3_simps dest: mod3_cases)
  have motion: "(\<lambda>a. if ?b \<le> a \<and> a < ?b + 3 * Suc k \<and> (a - ?b) mod 3 = 1
                    then Some (seg_tr ent) else w_motion w0 a)
      = (\<lambda>a. if ?b \<le> a \<and> a < ?b + 3 * k \<and> (a - ?b) mod 3 = 1
                    then Some (seg_tr ent) else w_motion w0 a)
        (?b + 3 * k + 1 \<mapsto> seg_tr ent)"
    by (rule ext) (auto simp: upto_Suc_cases fr mod3_simps dest: mod3_cases)
  show ?thesis
    unfolding body_world_def Let_def bodies shapes motion by simp
qed

lemma seg_element_eq:
  "empty_element\<lparr>el_mesh := Some (mesh_tree m ! k), el_shape := Some (b + 3 * k),
     el_body := Some (Suc (Suc (b + 3 * k)))\<rparr> = seg_element m b k"
  by (simp add: empty_element_def seg_element_def)

lemma body_hair_Suc:
  "k < length (mesh_tree m) \<Longrightarrow>
   (body_hair h m b k)\<lparr>elements := (elements (body_hair h m b k))[k := seg_element m b k]\<rparr>
     = body_hair h m b (Suc k)"
  by (simp add: body_hair_def map_replicate_update)

lemma create_body_step_closed:
  assumes fresh: "fresh_above w0" and k: "k < length (mesh_tree m)" and r: "root_index h = 0"
  shows "create_body_step s ent m ws k
           (body_hair h m (w_next w0) k, body_world s ent m ws w0 k, root_weight s - real k * ws)
       = (body_hair h m (w_next w0) (Suc k), body_world s ent m ws w0 (Suc k),
          root_weight s - real (Suc k) * ws)"
proof -
  let ?b = "w_next w0"
  have el: "elements (body_hair h m ?b k) ! k = empty_element"
    using k by (simp add: elements_body_hair nth_append)
  have len: "k < length (elements (body_hair h m ?b k))"
    using k by (simp add: elements_body_hair)
  show ?thesis
    using el len r k
    apply (simp add: create_body_step_def Let_def upd_element_def alloc_shape_def alloc_motion_state_def
        alloc_body_def body_world_simps update_body_def addRigidBody_def body_world_Suc [OF fresh]
        seg_element_eq weight_Suc body_hair_Suc)
    apply (simp add: body_hair_def seg_tr_def seg_body_def activate_def setDamping_def new_btRigidBody_def)
    done
qed

lemma empty_window: "((b::nat) \<le> a \<and> a < b \<and> P) = False"
  by simp

lemma body_world_0: "body_world s ent m ws w0 0 = w0"
  by (simp add: body_world_def Let_def empty_window)

lemma body_hair_0:
  "elements h = replicate (length (mesh_tree m)) empty_element \<Longrightarrow> body_hair h m b 0 = h"
  by (simp add: body_hair_def)

lemma world_wf_fresh_above:
  assumes "world_wf w"
  shows "fresh_above w"
  unfolding fresh_above_def
proof (intro allI impI)
  fix a assume "w_next w \<le> a"
  with assms show "w_bodies w a = None \<and> w_shapes w a = None \<and> w_motion w a = None"
    unfolding world_wf_def by (meson UnCI domIff not_le)
qed

text \<open>The whole loop, by induction on the number of passes.\<close>

lemma body_loop_closed:
  assumes fresh: "fresh_above w0" and r: "root_index h = 0" and k: "k \<le> length (mesh_tree m)"
  shows "fold (create_body_step s ent m ws) [0..<k] (body_hair h m (w_next w0) 0, w0, root_weight s)
       = (body_hair h m (w_next w0) k, body_world s ent m ws w0 k, root_weight s - real k * ws)"
  using k
proof (induction k)
  case 0
  then show ?case by (simp add: body_world_0)
next
  case (Suc k)
  then have "fold (create_body_step s ent m ws) [0..<k] (body_hair h m (w_next w0) 0, w0, root_weight s)
       = (body_hair h m (w_next w0) k, body_world s ent m ws w0 k, root_weight s - real k * ws)"
    by simp
  with Suc.prems fresh r show ?case by (simp add: create_body_step_closed)
qed

end
