(* ===== verification/Hair_Create_Joints.thy ===== *)
theory Hair_Create_Joints
  imports Hair_Create_Bodies
begin

text \<open>
  The joint loops of \<open>Hair_Create\<close> in closed form. Joint \<open>q\<close> of the rig belongs to
  group \<open>i = q div joints_per_body\<close> as its \<open>j = q mod joints_per_body\<close>-th member and
  lives at address \<open>C + q\<close>, \<open>C\<close> being the first address after the bodies. Its
  constraint is \<open>joint_con\<close>: it links the owner's anchor body (group 0) or the body
  of segment \<open>i - 1\<close> to the body of segment \<open>i\<close>, with the frames of \<open>seg_frames\<close>
  at the circle offsets \<open>joint_off_x\<close>, \<open>joint_off_y\<close>, the limits of \<open>joint_limits\<close>,
  and its stop CFM and ERP set exactly when some earlier or current pass touched
  \<open>joints[q]\<close> through the index of its segment. \<open>jstate i j\<close> is the loop state
  before pass \<open>j\<close> of group \<open>i\<close>; one pass maps \<open>jstate i j\<close> to \<open>jstate i (j + 1)\<close>
  (\<open>create_joint_step_closed\<close>), a group maps \<open>jstate i 0\<close> to
  \<open>jstate i joints_per_body\<close>, which is \<open>jstate (i + 1) 0\<close> up to the offsets reset
  at the start of each group.
\<close>

section \<open>Specifications of the loop state\<close>

definition on_six_axes :: "real \<Rightarrow> (nat \<Rightarrow> real option) \<Rightarrow> nat \<Rightarrow> real option" where
  "on_six_axes v f = (\<lambda>ax. if ax < 6 then Some v else f ax)"

definition joint_off_x :: "hair_setup \<Rightarrow> base_mesh \<Rightarrow> real \<Rightarrow> nat \<Rightarrow> real" where
  "joint_off_x s mesh stp j =
     (if 1 < joints_per_body s then cos (real j * stp) * ((body_depth mesh * 0.5) * joint_radius s) else 0)"

definition joint_off_y :: "hair_setup \<Rightarrow> base_mesh \<Rightarrow> real \<Rightarrow> nat \<Rightarrow> real" where
  "joint_off_y s mesh stp j =
     (if 1 < joints_per_body s then sin (real j * stp) * ((body_width mesh * 0.5) * joint_radius s) else 0)"

definition seg_frames ::
  "hair_setup \<Rightarrow> nat \<Rightarrow> skeletal_model \<Rightarrow> nat \<Rightarrow> nat \<Rightarrow> real \<Rightarrow> real \<Rightarrow> frame \<times> frame \<times> nat" where
  "seg_frames s anchor m B i jx jy =
     (if i = 0 then
        (\<lparr>fr_origin = head_offset s + Vec3 jx 0 jy, fr_euler = root_angle s\<rparr>,
         \<lparr>fr_origin = Vec3 jx 0 jy, fr_euler = Vec3 0 (- (pi / 2)) 0\<rparr>, anchor)
      else
        (\<lparr>fr_origin = Vec3 jx (\<bar>bb_max (mesh_tree m ! (i - 1)) 1 - bb_min (mesh_tree m ! (i - 1)) 1\<bar>
                                 * joint_overlap s) jy,
          fr_euler = Vec3 0 (pi / 2) 0\<rparr>,
         \<lparr>fr_origin = Vec3 jx 0 jy, fr_euler = Vec3 0 (pi / 2) 0\<rparr>, B + 3 * (i - 1) + 2))"

definition seg_con :: "hair_setup \<Rightarrow> nat \<Rightarrow> skeletal_model \<Rightarrow> nat \<Rightarrow> real \<Rightarrow> nat \<Rightarrow> nat \<Rightarrow> constraint" where
  "seg_con s anchor m B stp i j =
     (case seg_frames s anchor m B i (joint_off_x s (mesh_tree m ! i) stp j)
             (joint_off_y s (mesh_tree m ! i) stp j) of
        (fa, fb, prev) \<Rightarrow> new_btGeneric6DofConstraint prev (B + 3 * i + 2) fa fb True)"

definition joint_con :: "hair_setup \<Rightarrow> nat \<Rightarrow> skeletal_model \<Rightarrow> nat \<Rightarrow> real \<Rightarrow> nat \<Rightarrow> bool \<Rightarrow> constraint" where
  "joint_con s anchor m B stp q sp =
     (let J = joints_per_body s; i = q div J;
          c = (joint_limits i (seg_con s anchor m B stp i (q mod J)))\<lparr>c_dbg_size := 5\<rparr>
      in if sp then set_stop_params (joint_cfm s) (joint_erp s) c else c)"

definition joint_ptrs :: "nat \<Rightarrow> nat \<Rightarrow> nat \<Rightarrow> nat option list" where
  "joint_ptrs C c n = map (\<lambda>q. Some (C + q)) [0..<c] @ replicate (n - c) None"

definition joint_regs :: "nat \<Rightarrow> nat \<Rightarrow> (nat \<times> bool) list" where
  "joint_regs C c = map (\<lambda>q. (C + q, True)) [0..<c]"

definition joint_map ::
  "hair_setup \<Rightarrow> nat \<Rightarrow> skeletal_model \<Rightarrow> nat \<Rightarrow> real \<Rightarrow> world \<Rightarrow> nat \<Rightarrow> nat \<Rightarrow> nat \<rightharpoonup> constraint" where
  "joint_map s anchor m B stp w i j =
     (\<lambda>a. if w_next w \<le> a \<and> a < w_next w + (i * joints_per_body s + j)
          then Some (joint_con s anchor m B stp (a - w_next w) (a - w_next w < i \<or> (a - w_next w = i \<and> 0 < j)))
          else w_constraints w a)"

definition jstate ::
  "hair_setup \<Rightarrow> nat \<Rightarrow> skeletal_model \<Rightarrow> nat \<Rightarrow> real \<Rightarrow> hair \<Rightarrow> world \<Rightarrow> nat \<Rightarrow> nat \<Rightarrow> jloop" where
  "jstate s anchor m B stp h w i j =
     (let c = i * joints_per_body s + j; mesh = mesh_tree m ! i in
      \<lparr>jl_d = real j * stp,
       jl_x = (if 0 < j then joint_off_x s mesh stp (j - 1) else 0),
       jl_y = (if 0 < j then joint_off_y s mesh stp (j - 1) else 0),
       jl_curr = c,
       jl_hair = h\<lparr>joints := joint_ptrs (w_next w) c (length (mesh_tree m) * joints_per_body s)\<rparr>,
       jl_world = w\<lparr>w_constraints := joint_map s anchor m B stp w i j, w_next := w_next w + c,
                    w_joints := w_joints w @ joint_regs (w_next w) c\<rparr>\<rparr>)"

definition reset_offsets :: "jloop \<Rightarrow> jloop" where
  "reset_offsets st = st\<lparr>jl_d := 0, jl_x := 0, jl_y := 0\<rparr>"

section \<open>Loop lemmas\<close>

lemma on_six_axes_idem [simp]: "on_six_axes v (on_six_axes v f) = on_six_axes v f"
  by (auto simp: on_six_axes_def)

lemma on_six_axes_upd: "f(0 \<mapsto> v, Suc 0 \<mapsto> v, 2 \<mapsto> v, 3 \<mapsto> v, 4 \<mapsto> v, 5 \<mapsto> v) = on_six_axes v f"
proof
  fix ax :: nat
  show "(f(0 \<mapsto> v, Suc 0 \<mapsto> v, 2 \<mapsto> v, 3 \<mapsto> v, 4 \<mapsto> v, 5 \<mapsto> v)) ax = on_six_axes v f ax"
    by (cases "ax < 6") (auto simp: on_six_axes_def less_Suc_eq numeral_eq_Suc)
qed

lemma set_stop_params_eq:
  "set_stop_params cfm erp c =
     c\<lparr>c_stop_cfm := on_six_axes cfm (c_stop_cfm c), c_stop_erp := on_six_axes erp (c_stop_erp c)\<rparr>"
proof -
  have six: "[0..<6] = [0, 1, 2, 3, 4, 5::nat]" by (simp add: upt_rec)
  show ?thesis
    by (simp add: set_stop_params_def set_stop_cfm_def set_stop_erp_def six on_six_axes_upd)
qed

lemma set_stop_params_idem:
  "set_stop_params a b (set_stop_params a b c) = set_stop_params a b c"
  by (simp add: set_stop_params_eq)

lemma set_stop_params_joint_limits:
  "set_stop_params a b (joint_limits i c) = joint_limits i (set_stop_params a b c)"
  by (simp add: set_stop_params_eq joint_limits_def)

lemma set_stop_params_dbg:
  "set_stop_params a b (c\<lparr>c_dbg_size := x\<rparr>) = (set_stop_params a b c)\<lparr>c_dbg_size := x\<rparr>"
  by (simp add: set_stop_params_eq)


lemma joint_index_bound: "i < N \<Longrightarrow> j < J \<Longrightarrow> i * J + j < N * (J::nat)"
proof -
  assume "i < N" "j < J"
  then have "i * J + j < Suc i * J" by simp
  also have "\<dots> \<le> N * J" using \<open>i < N\<close> mult_le_mono1 [of "Suc i" N J] by simp
  finally show ?thesis .
qed

lemma joint_frames_built:
  assumes "elements h = map (seg_element m B) [0..<length (mesh_tree m)]" "i < length (mesh_tree m)"
  shows "joint_frames s i x y anchor h = Inr (seg_frames s anchor m B i x y)"
  using assms by (simp add: joint_frames_def seg_frames_def seg_element_def Let_def)

lemma joint_ptrs_Suc:
  "c < n \<Longrightarrow> (joint_ptrs C c n)[c := Some (C + c)] = joint_ptrs C (Suc c) n"
  unfolding joint_ptrs_def by (rule map_replicate_update)

lemma joint_ptrs_nth: "q < c \<Longrightarrow> joint_ptrs C c n ! q = Some (C + q)"
  by (simp add: joint_ptrs_def nth_append)

lemma joint_con_set: "set_stop_params (joint_cfm s) (joint_erp s) (joint_con s anchor m B stp q b)
    = joint_con s anchor m B stp q True"
  by (simp add: joint_con_def Let_def set_stop_params_idem)

lemma joint_con_new:
  assumes "j < joints_per_body s"
  shows "(joint_limits i (seg_con s anchor m B stp i j))\<lparr>c_dbg_size := 5\<rparr>
           = joint_con s anchor m B stp (i * joints_per_body s + j) False"
    and "(joint_limits i (set_stop_params (joint_cfm s) (joint_erp s) (seg_con s anchor m B stp i j)))
           \<lparr>c_dbg_size := 5\<rparr> = joint_con s anchor m B stp (i * joints_per_body s + j) True"
  using assms
  by (simp_all add: joint_con_def Let_def set_stop_params_joint_limits set_stop_params_dbg)

lemma joint_regs_Suc: "joint_regs C c @ [(C + c, True)] = joint_regs C (Suc c)"
  by (simp add: joint_regs_def)

lemma joint_world_Suc:
  fixes i j anchor B :: nat and w :: world and s :: hair_setup and m :: skeletal_model
    and stp :: real and h :: hair
  assumes j: "j < joints_per_body s"
  defines "c \<equiv> i * joints_per_body s + j"
    and "w1 \<equiv> jl_world (jstate s anchor m B stp h w i j)"
  shows "addConstraint (w_next w + c) True
          (update_constraint (w_next w + c) (\<lambda>x. x\<lparr>c_dbg_size := 5\<rparr>)
            (update_constraint (w_next w + c) (joint_limits i)
              (update_constraint (w_next w + i) (set_stop_params (joint_cfm s) (joint_erp s))
                (snd (alloc_constraint (seg_con s anchor m B stp i j) w1)))))
       = jl_world (jstate s anchor m B stp h w i (Suc j))"
    (is "?lhs = ?rhs")
proof (rule world.equality)
  have ic: "i \<le> c" using j unfolding c_def by (cases "joints_per_body s") auto
  have dm: "c div joints_per_body s = i" "c mod joints_per_body s = j"
    using j unfolding c_def by simp_all
  show "w_constraints ?lhs = w_constraints ?rhs"
  proof (rule ext)
    fix a
    show "w_constraints ?lhs a = w_constraints ?rhs a"
    proof (cases "a = w_next w + c")
      case True
      then show ?thesis
        using j ic joint_con_new [OF j]
        by (auto simp: w1_def jstate_def Let_def joint_map_def c_def update_constraint_def
            alloc_constraint_def addConstraint_def)
    next
      case False
      show ?thesis
      proof (cases "a = w_next w + i")
        case True
        with False ic have "i < c" by simp
        with True False show ?thesis
          by (simp add: w1_def jstate_def Let_def joint_map_def c_def update_constraint_def
              alloc_constraint_def addConstraint_def joint_con_set)
      next
        case False
        then have ne: "w_next w \<le> a \<Longrightarrow> a - w_next w \<noteq> i" by auto
        with \<open>a \<noteq> w_next w + c\<close> False show ?thesis
          by (auto simp: w1_def jstate_def Let_def joint_map_def c_def update_constraint_def
              alloc_constraint_def addConstraint_def)
      qed
    qed
  qed
qed (simp_all add: w1_def jstate_def Let_def c_def update_constraint_def alloc_constraint_def
       addConstraint_def joint_regs_Suc [symmetric])


lemma create_joint_step_closed:
  assumes i: "i < length (mesh_tree m)" and j: "j < joints_per_body s"
    and el: "elements h = map (seg_element m B) [0..<length (mesh_tree m)]"
  shows "create_joint_step s anchor stp i (body_width (mesh_tree m ! i)) (body_depth (mesh_tree m ! i)) j
           (Inr (jstate s anchor m B stp h w i j)) = Inr (jstate s anchor m B stp h w i (Suc j))"
proof -
  let ?J = "joints_per_body s" and ?N = "length (mesh_tree m)" and ?C = "w_next w"
  let ?c = "i * ?J + j" and ?mesh = "mesh_tree m ! i"
  let ?st = "jstate s anchor m B stp h w i j"
  obtain fa fb prev where sf: "seg_frames s anchor m B i (joint_off_x s ?mesh stp j) (joint_off_y s ?mesh stp j)
      = (fa, fb, prev)" by (metis prod_cases3)
  have con: "seg_con s anchor m B stp i j = new_btGeneric6DofConstraint prev (B + 3 * i + 2) fa fb True"
    by (simp add: seg_con_def sf)
  have frames: "joint_frames s i (joint_off_x s ?mesh stp j) (joint_off_y s ?mesh stp j) anchor (jl_hair ?st)
      = Inr (fa, fb, prev)"
    using el i sf by (simp add: jstate_def Let_def joint_frames_built)
  have body: "el_body (elements (jl_hair ?st) ! i) = Some (B + 3 * i + 2)"
    using el i by (simp add: jstate_def Let_def seg_element_def)
  have cN: "?c < ?N * ?J" using i j by (rule joint_index_bound)
  have ic: "i < Suc ?c" using j by (cases ?J) auto
  have ptr: "(joints (jl_hair ?st))[?c := Some (?C + ?c)] = joint_ptrs ?C (Suc ?c) (?N * ?J)"
    using cN by (simp add: jstate_def Let_def joint_ptrs_Suc)
  have ji: "joint_ptrs ?C (Suc ?c) (?N * ?J) ! i = Some (?C + i)"
    using ic by (rule joint_ptrs_nth)
  have wn: "w_next (jl_world ?st) = ?C + ?c" by (simp add: jstate_def Let_def)
  have x: "(if 1 < ?J then cos (jl_d ?st) * ((body_depth ?mesh * 0.5) * joint_radius s) else jl_x ?st)
      = joint_off_x s ?mesh stp j"
   and y: "(if 1 < ?J then sin (jl_d ?st) * ((body_width ?mesh * 0.5) * joint_radius s) else jl_y ?st)
      = joint_off_y s ?mesh stp j"
    by (simp_all add: jstate_def Let_def joint_off_x_def joint_off_y_def)
  have w: "addConstraint (?C + ?c) True
          (update_constraint (?C + ?c) (\<lambda>x. x\<lparr>c_dbg_size := 5\<rparr>)
            (update_constraint (?C + ?c) (joint_limits i)
              (update_constraint (?C + i) (set_stop_params (joint_cfm s) (joint_erp s))
                (snd (alloc_constraint (seg_con s anchor m B stp i j) (jl_world ?st))))))
       = jl_world (jstate s anchor m B stp h w i (Suc j))"
    using j by (rule joint_world_Suc)
  have d: "real j * stp + stp = real (Suc j) * stp" by (simp add: algebra_simps)
  have cur: "jl_curr ?st = ?c" and dd: "jl_d ?st = real j * stp" by (simp_all add: jstate_def Let_def)
  obtain W where W: "W = jl_world (jstate s anchor m B stp h w i (Suc j))" by blast
  have next_state: "jstate s anchor m B stp h w i (Suc j) =
      \<lparr>jl_d = real (Suc j) * stp, jl_x = joint_off_x s ?mesh stp j, jl_y = joint_off_y s ?mesh stp j,
       jl_curr = Suc ?c, jl_hair = h\<lparr>joints := joint_ptrs ?C (Suc ?c) (?N * ?J)\<rparr>, jl_world = W\<rparr>"
    by (simp add: W jstate_def Let_def)
  show ?thesis
    unfolding create_joint_step_def sum.case Let_def x y frames
    using w by (simp add: body cur dd ptr ji wn con d alloc_constraint_def next_state W [symmetric])
      (simp add: jstate_def Let_def)
qed


lemma inner_loop_closed:
  assumes i: "i < length (mesh_tree m)" and k: "k \<le> joints_per_body s"
    and el: "elements h = map (seg_element m B) [0..<length (mesh_tree m)]"
  shows "fold (create_joint_step s anchor stp i (body_width (mesh_tree m ! i)) (body_depth (mesh_tree m ! i)))
           [0..<k] (Inr (jstate s anchor m B stp h w i 0)) = Inr (jstate s anchor m B stp h w i k)"
  using k
proof (induction k)
  case 0
  then show ?case by simp
next
  case (Suc k)
  then have "k < joints_per_body s" by simp
  with Suc show ?case by (simp add: create_joint_step_closed [OF i _ el])
qed

lemma jstate_next_segment:
  "reset_offsets (jstate s anchor m B stp h w i (joints_per_body s)) = jstate s anchor m B stp h w (Suc i) 0"
proof -
  have "joint_map s anchor m B stp w i (joints_per_body s) = joint_map s anchor m B stp w (Suc i) 0"
  proof (rule ext)
    fix a
    show "joint_map s anchor m B stp w i (joints_per_body s) a = joint_map s anchor m B stp w (Suc i) 0 a"
      by (cases "joints_per_body s = 0") (auto simp: joint_map_def less_Suc_eq)
  qed
  then show ?thesis by (simp add: reset_offsets_def jstate_def Let_def add.commute)
qed

lemma segment_step_closed:
  assumes i: "i < length (mesh_tree m)"
    and el: "elements h = map (seg_element m B) [0..<length (mesh_tree m)]"
    and st: "reset_offsets st = jstate s anchor m B stp h w i 0"
  shows "create_segment_joints s anchor stp i (Inr st) = Inr (jstate s anchor m B stp h w i (joints_per_body s))"
proof -
  have hair: "jl_hair st = jl_hair (jstate s anchor m B stp h w i 0)"
    using arg_cong [OF st, of jl_hair] by (simp add: reset_offsets_def)
  have mesh: "el_mesh (elements (jl_hair st) ! i) = Some (mesh_tree m ! i)"
    using i el by (simp add: hair jstate_def Let_def seg_element_def)
  have "st\<lparr>jl_d := 0, jl_x := 0, jl_y := 0\<rparr> = jstate s anchor m B stp h w i 0"
    using st by (simp add: reset_offsets_def)
  then show ?thesis
    using inner_loop_closed [OF i order_refl el]
    by (simp add: create_segment_joints_def mesh)
qed

lemma outer_loop_closed:
  assumes k: "k \<le> length (mesh_tree m)"
    and el: "elements h = map (seg_element m B) [0..<length (mesh_tree m)]"
  shows "\<exists>st. fold (create_segment_joints s anchor stp) [0..<k] (Inr (jstate s anchor m B stp h w 0 0)) = Inr st
              \<and> reset_offsets st = jstate s anchor m B stp h w k 0"
  using k
proof (induction k)
  case 0
  have "reset_offsets (jstate s anchor m B stp h w 0 0) = jstate s anchor m B stp h w 0 0"
    by (simp add: reset_offsets_def jstate_def Let_def)
  then show ?case by auto
next
  case (Suc k)
  then obtain st where fold: "fold (create_segment_joints s anchor stp) [0..<k] (Inr (jstate s anchor m B stp h w 0 0))
      = Inr st" and rs: "reset_offsets st = jstate s anchor m B stp h w k 0" by auto
  from Suc.prems have "k < length (mesh_tree m)" by simp
  from segment_step_closed [OF this el rs] fold jstate_next_segment show ?case by auto
qed

end
