(* ===== verification/Hair_Build.thy ===== *)
theory Hair_Build
  imports Hair_Create_Joints
begin

text \<open>
  What \<open>Hair_Create\<close> builds, in closed form, and the properties of the built rig.
  For valid inputs (an owner with a body at the link bone, a model of \<open>N\<close> meshes with
  \<open>0 < N < 256\<close>, a well-formed world) the builder returns \<open>true\<close> with the rig
  \<open>built_hair\<close> and the world \<open>built_world\<close> (\<open>Hair_Create_closed\<close>): segment \<open>i\<close>
  owns the shape, motion state and body at \<open>B + 3 i\<close>, \<open>B + 3 i + 1\<close>, \<open>B + 3 i + 2\<close>
  (\<open>B\<close> the world's first free address), joint \<open>q\<close> is the constraint at
  \<open>B + 3 N + q\<close>. The lemmas after it read the counts, masses, links, softness and
  registrations off this closed form.
\<close>

definition built_hair :: "hair \<Rightarrow> hair_setup \<Rightarrow> nat \<Rightarrow> entity \<Rightarrow> skeletal_model \<Rightarrow> nat \<Rightarrow> hair" where
  "built_hair h s eid ent m B =
     (let n = mesh_count m; nj = mesh_count m * joints_per_body s in
      (hair_create_init h s eid ent m)\<lparr>elements := map (seg_element m B) [0..<n], joint_count := nj,
         joints := joint_ptrs (B + 3 * n) nj nj\<rparr>)"

definition built_world :: "hair_setup \<Rightarrow> entity \<Rightarrow> nat \<Rightarrow> skeletal_model \<Rightarrow> world \<Rightarrow> world" where
  "built_world s ent anchor m w =
     (let n = mesh_count m; nj = mesh_count m * joints_per_body s;
          wb = body_world s ent m ((root_weight s - tail_weight s) / real n) w n;
          stp = (pi * 2) / real (joints_per_body s)
      in wb\<lparr>w_constraints := joint_map s anchor m (w_next w) stp wb n 0, w_next := w_next w + 3 * n + nj,
            w_joints := w_joints w @ joint_regs (w_next w + 3 * n) nj\<rparr>)"

lemma jstate_start:
  assumes "joints h = replicate (length (mesh_tree m) * joints_per_body s) None"
  shows "jstate s anchor m B stp h w 0 0 = \<lparr>jl_d = 0, jl_x = 0, jl_y = 0, jl_curr = 0, jl_hair = h, jl_world = w\<rparr>"
proof -
  have "joint_map s anchor m B stp w 0 0 = w_constraints w"
    by (rule ext) (auto simp: joint_map_def)
  with assms show ?thesis by (simp add: jstate_def joint_ptrs_def joint_regs_def)
qed

lemma create_rig_closed:
  assumes n0: "0 < mesh_count m" and n: "mesh_count m < 256" and wf: "world_wf w"
  shows "create_rig h s eid ent anchor m w =
           Some (Inr (True, built_hair h s eid ent m (w_next w), built_world s ent anchor m w))"
proof -
  let ?N = "mesh_count m" and ?J = "joints_per_body s" and ?B = "w_next w"
  let ?h1 = "hair_create_init h s eid ent m"
  let ?ws = "(root_weight s - tail_weight s) / real ?N"
  let ?stp = "(pi * 2) / real ?J"
  let ?wb = "body_world s ent m ?ws w ?N"
  let ?hb = "body_hair ?h1 m ?B ?N"
  let ?h3 = "?hb\<lparr>joint_count := ?N * ?J, joints := replicate (?N * ?J) None\<rparr>"
  have h1: "root_index ?h1 = 0" "elements ?h1 = replicate (length (mesh_tree m)) empty_element"
    by (simp_all add: hair_create_init_def Let_def mesh_count_def)
  have fold_b: "fold (create_body_step s ent m ?ws) [0..<?N] (?h1, w, root_weight s)
      = (?hb, ?wb, root_weight s - real ?N * ?ws)"
    using body_loop_closed [OF world_wf_fresh_above [OF wf] h1(1), where k = "length (mesh_tree m)"
        and s = s and ent = ent and m = m and ws = ?ws] body_hair_0 [OF h1(2)]
    by (simp add: mesh_count_def)
  have body: "for_word ?N (create_body_step s ent m ?ws) (0 :: 8 word) (?h1, w, root_weight s)
      = Some (?hb, ?wb, root_weight s - real ?N * ?ws)"
  proof -
    have "for_word ?N (create_body_step s ent m ?ws) (0 :: 8 word) (?h1, w, root_weight s)
        = Some (fold (create_body_step s ent m ?ws) [unat (0 :: 8 word)..<?N] (?h1, w, root_weight s))"
      using n by (intro for_word_fold) simp_all
    then show ?thesis by (simp only: fold_b unsigned_0)
  qed
  have eb: "element_count ?hb = ?N" by (simp add: body_hair_def)
  have el3: "elements ?h3 = map (seg_element m ?B) [0..<length (mesh_tree m)]"
    by (simp add: body_hair_def mesh_count_def)
  have start: "\<lparr>jl_d = 0, jl_x = 0, jl_y = 0, jl_curr = 0, jl_hair = ?h3, jl_world = ?wb\<rparr>
      = jstate s anchor m ?B ?stp ?h3 ?wb 0 0"
    by (rule jstate_start [symmetric]) (simp add: mesh_count_def)
  obtain st where fold: "fold (create_segment_joints s anchor ?stp) [0..<length (mesh_tree m)]
        (Inr (jstate s anchor m ?B ?stp ?h3 ?wb 0 0)) = Inr st"
      and rs: "reset_offsets st = jstate s anchor m ?B ?stp ?h3 ?wb (length (mesh_tree m)) 0"
    using outer_loop_closed [OF order_refl el3] by blast
  have hs: "jl_hair st = jl_hair (jstate s anchor m ?B ?stp ?h3 ?wb (length (mesh_tree m)) 0)"
   and ws: "jl_world st = jl_world (jstate s anchor m ?B ?stp ?h3 ?wb (length (mesh_tree m)) 0)"
    using arg_cong [OF rs, of jl_hair] arg_cong [OF rs, of jl_world] by (simp_all add: reset_offsets_def)
  have joints0: "for_word ?N (create_segment_joints s anchor ?stp) (0 :: 16 word)
      (Inr (jstate s anchor m ?B ?stp ?h3 ?wb 0 0)) = Some (Inr st)"
    using n fold by (simp add: for_word_fold mesh_count_def)
  have joints: "for_word ?N (create_segment_joints s anchor ?stp) (0 :: 16 word)
      (Inr \<lparr>jl_d = 0, jl_x = 0, jl_y = 0, jl_curr = 0, jl_hair = ?h3, jl_world = ?wb\<rparr>) = Some (Inr st)"
    by (subst start) (rule joints0)
  have wb: "w_next ?wb = ?B + 3 * ?N" by (simp add: body_world_simps)
  show ?thesis
    by (simp add: create_rig_def Let_def body joints eb)
      (simp add: hs ws jstate_def Let_def built_hair_def built_world_def body_world_simps body_hair_def
        mesh_count_def)
qed

lemma Hair_Create_closed:
  assumes "parent = Some (eid, ent)" and "setup = Some s"
    and "link_body s < bone_tag_count ent" and "bt_body (bone_tags ent ! link_body s) = Some anchor"
    and "World_GetModelByID models (model s) = Some m"
    and "0 < mesh_count m" and "mesh_count m < 256" and "world_wf w"
  shows "Hair_Create h setup parent models w =
           Some (Inr (True, built_hair h s eid ent m (w_next w), built_world s ent anchor m w))"
  using assms create_rig_closed by (simp add: Hair_Create_def not_le)

section \<open>Reading the built rig\<close>

lemma built_hair_fields [store_simps]:
  "element_count (built_hair h s eid ent m B) = mesh_count m"
  "elements (built_hair h s eid ent m B) = map (seg_element m B) [0..<mesh_count m]"
  "joint_count (built_hair h s eid ent m B) = mesh_count m * joints_per_body s"
  "joints (built_hair h s eid ent m B) =
     joint_ptrs (B + 3 * mesh_count m) (mesh_count m * joints_per_body s) (mesh_count m * joints_per_body s)"
  "root_index (built_hair h s eid ent m B) = 0"
  "tail_index (built_hair h s eid ent m B) = mesh_count m - 1"
  "owner_char (built_hair h s eid ent m B) = Some eid"
  "owner_body (built_hair h s eid ent m B) = link_body s"
  by (simp_all add: built_hair_def hair_create_init_def Let_def)

lemma built_element:
  "i < mesh_count m \<Longrightarrow> elements (built_hair h s eid ent m B) ! i = seg_element m B i"
  by (simp add: built_hair_fields)

lemma built_world_body:
  assumes "i < mesh_count m"
  shows "w_bodies (built_world s ent anchor m w) (w_next w + 3 * i + 2) =
           Some (seg_body s (w_gravity w) ((root_weight s - tail_weight s) / real (mesh_count m)) (w_next w) i)"
  using assms by (simp add: built_world_def body_world_def Let_def mod3_simps mesh_count_def)

lemma built_world_constraint:
  assumes "q < mesh_count m * joints_per_body s"
  shows "w_constraints (built_world s ent anchor m w) (w_next w + 3 * mesh_count m + q) =
           Some (joint_con s anchor m (w_next w) ((pi * 2) / real (joints_per_body s)) q (q < mesh_count m))"
  using assms by (simp add: built_world_def joint_map_def body_world_simps Let_def)

lemma built_joint_ptr:
  "q < mesh_count m * joints_per_body s \<Longrightarrow>
   joints (built_hair h s eid ent m B) ! q = Some (B + 3 * mesh_count m + q)"
  by (simp add: built_hair_fields joint_ptrs_nth)

lemma joint_con_links:
  "c_body_a (joint_con s anchor m B stp q sp) =
     (if q div joints_per_body s = 0 then anchor else B + 3 * (q div joints_per_body s - 1) + 2)"
  "c_body_b (joint_con s anchor m B stp q sp) = B + 3 * (q div joints_per_body s) + 2"
  by (simp_all add: joint_con_def seg_con_def seg_frames_def Let_def joint_limits_def set_stop_params_eq
      new_btGeneric6DofConstraint_def split: prod.splits)

lemma joint_con_softness:
  "c_stop_cfm (joint_con s anchor m B stp q sp) = (if sp then on_six_axes (joint_cfm s) (\<lambda>_. None) else (\<lambda>_. None))"
  "c_stop_erp (joint_con s anchor m B stp q sp) = (if sp then on_six_axes (joint_erp s) (\<lambda>_. None) else (\<lambda>_. None))"
  by (simp_all add: joint_con_def seg_con_def seg_frames_def Let_def joint_limits_def set_stop_params_eq
      new_btGeneric6DofConstraint_def split: prod.splits)

lemma joint_con_limits:
  "c_lin_lower (joint_con s anchor m B stp q sp) = Vec3 0 0 0"
  "c_lin_upper (joint_con s anchor m B stp q sp) = Vec3 0 0 0"
  "c_ang_lower (joint_con s anchor m B stp q sp) =
     (if q div joints_per_body s = 0 then Vec3 (- (pi / 2)) 0 (- (pi / 2) * 0.4)
      else Vec3 (- (pi / 2) * 0.5) 0 (- (pi / 2) * 0.5))"
  "c_ang_upper (joint_con s anchor m B stp q sp) =
     (if q div joints_per_body s = 0 then Vec3 (- (pi / 2) * 0.3) 0 ((pi / 2) * 0.4)
      else Vec3 ((pi / 2) * 0.5) 0 ((pi / 2) * 0.5))"
  "c_solver_iters (joint_con s anchor m B stp q sp) =
     (if q div joints_per_body s = 0 then 100 else - 1)"
  by (simp_all add: joint_con_def seg_con_def seg_frames_def Let_def joint_limits_def set_stop_params_eq
      new_btGeneric6DofConstraint_def split: prod.splits)

lemma joint_con_frames:
  "c_frame_a (joint_con s anchor m B stp q sp) =
     fst (seg_frames s anchor m B (q div joints_per_body s)
            (joint_off_x s (mesh_tree m ! (q div joints_per_body s)) stp (q mod joints_per_body s))
            (joint_off_y s (mesh_tree m ! (q div joints_per_body s)) stp (q mod joints_per_body s)))"
  "c_frame_b (joint_con s anchor m B stp q sp) =
     fst (snd (seg_frames s anchor m B (q div joints_per_body s)
            (joint_off_x s (mesh_tree m ! (q div joints_per_body s)) stp (q mod joints_per_body s))
            (joint_off_y s (mesh_tree m ! (q div joints_per_body s)) stp (q mod joints_per_body s))))"
  by (simp_all add: joint_con_def seg_con_def Let_def joint_limits_def set_stop_params_eq
      new_btGeneric6DofConstraint_def split: prod.splits)

lemma seg_index_bound: "q < n * J \<Longrightarrow> q div J < (n::nat)"
  by (simp add: less_mult_imp_div_less)

lemma built_world_fields [store_simps]:
  "w_rigid (built_world s ent anchor m w) = w_rigid w @
     map (\<lambda>i. (w_next w + 3 * i + 2, COLLISION_GROUP_KINEMATIC, COLLISION_MASK_NONE)) [0..<mesh_count m]"
  "w_joints (built_world s ent anchor m w) =
     w_joints w @ joint_regs (w_next w + 3 * mesh_count m) (mesh_count m * joints_per_body s)"
  "w_next (built_world s ent anchor m w) = w_next w + 3 * mesh_count m + mesh_count m * joints_per_body s"
  by (simp_all add: built_world_def body_world_def Let_def)

section \<open>Properties of the built rig\<close>

text \<open>C1: on valid input the builder succeeds with one element per mesh, one joint per
  element and joint slot, the root at index 0, the tail at the last index, and the
  owner recorded.\<close>

theorem Hair_Create_builds:
  assumes "parent = Some (eid, ent)" and "setup = Some s"
    and "link_body s < bone_tag_count ent" and "bt_body (bone_tags ent ! link_body s) = Some anchor"
    and "World_GetModelByID models (model s) = Some m"
    and "0 < mesh_count m" and "mesh_count m < 256" and "world_wf w"
  shows "\<exists>h' w'. Hair_Create h setup parent models w = Some (Inr (True, h', w')) \<and>
     element_count h' = mesh_count m \<and> length (elements h') = mesh_count m \<and>
     joint_count h' = mesh_count m * joints_per_body s \<and> length (joints h') = joint_count h' \<and>
     root_index h' = 0 \<and> tail_index h' = mesh_count m - 1 \<and>
     owner_char h' = Some eid \<and> owner_body h' = link_body s"
  using Hair_Create_closed [OF assms] by (simp add: store_simps joint_ptrs_def)

text \<open>C3: segment \<open>i\<close>'s body has mass \<open>root_weight - (i + 1) * weight_step\<close>, with
  \<open>weight_step = (root_weight - tail_weight) / N\<close>, so the tail body weighs exactly
  \<open>tail_weight\<close> and the root body one step less than \<open>root_weight\<close>; its inertia is
  computed from the weight one step heavier, \<open>root_weight - i * weight_step\<close>.\<close>

theorem Hair_Create_masses:
  assumes "parent = Some (eid, ent)" and "setup = Some s"
    and "link_body s < bone_tag_count ent" and "bt_body (bone_tags ent ! link_body s) = Some anchor"
    and "World_GetModelByID models (model s) = Some m"
    and "0 < mesh_count m" and "mesh_count m < 256" and "world_wf w"
  shows "\<exists>h' w'. Hair_Create h setup parent models w = Some (Inr (True, h', w')) \<and>
     (\<forall>i < mesh_count m. \<exists>b rb. el_body (elements h' ! i) = Some b \<and> w_bodies w' b = Some rb \<and>
        rb_mass rb = root_weight s - real (Suc i) * ((root_weight s - tail_weight s) / real (mesh_count m)) \<and>
        rb_inertia_mass rb =
          (root_weight s - real i * ((root_weight s - tail_weight s) / real (mesh_count m))) * hair_inertia s) \<and>
     (\<exists>b rb. el_body (elements h' ! (mesh_count m - 1)) = Some b \<and> w_bodies w' b = Some rb \<and>
        rb_mass rb = tail_weight s)"
proof -
  let ?N = "mesh_count m"
  have tail: "root_weight s - real (Suc (?N - 1)) * ((root_weight s - tail_weight s) / real ?N) = tail_weight s"
    using assms(6) by (simp add: of_nat_diff)
  show ?thesis
    using Hair_Create_closed [OF assms] built_world_body [of _ m s ent anchor w] assms(6) tail
    by (auto simp: built_element seg_element_def seg_body_def)
qed

text \<open>C2: joint \<open>q\<close> (group \<open>i = q div joints_per_body\<close>) is a registered constraint
  that hangs segment \<open>i\<close>'s body from the owner's anchor body when \<open>i = 0\<close> and from
  segment \<open>i - 1\<close>'s body otherwise.\<close>

theorem Hair_Create_links:
  assumes "parent = Some (eid, ent)" and "setup = Some s"
    and "link_body s < bone_tag_count ent" and "bt_body (bone_tags ent ! link_body s) = Some anchor"
    and "World_GetModelByID models (model s) = Some m"
    and "0 < mesh_count m" and "mesh_count m < 256" and "world_wf w"
  shows "\<exists>h' w'. Hair_Create h setup parent models w = Some (Inr (True, h', w')) \<and>
     (\<forall>q < mesh_count m * joints_per_body s. \<exists>a c.
        joints h' ! q = Some a \<and> w_constraints w' a = Some c \<and> (a, True) \<in> set (w_joints w') \<and>
        Some (c_body_b c) = el_body (elements h' ! (q div joints_per_body s)) \<and>
        Some (c_body_a c) = (if q div joints_per_body s = 0 then Some anchor
                             else el_body (elements h' ! (q div joints_per_body s - 1))))"
proof -
  have "\<forall>q < mesh_count m * joints_per_body s.
          (w_next w + 3 * mesh_count m + q, True) \<in> set (joint_regs (w_next w + 3 * mesh_count m)
             (mesh_count m * joints_per_body s))"
    by (auto simp: joint_regs_def)
  then show ?thesis
    using Hair_Create_closed [OF assms]
    by (auto simp: built_joint_ptr built_world_constraint built_world_fields built_element seg_element_def
        joint_con_links seg_index_bound less_imp_diff_less)
qed

text \<open>C6: the stop CFM and ERP reach only the joints whose index is a segment index:
  joint \<open>q\<close> has them on its six axes exactly when \<open>q < N\<close>, because lines 195--207
  write \<open>joints[i]\<close> rather than \<open>joints[curr_joint]\<close>. With one joint per segment every
  joint is reached; with more, joints \<open>N .. N * joints_per_body - 1\<close> keep Bullet's
  defaults.\<close>

theorem Hair_Create_softness:
  assumes "parent = Some (eid, ent)" and "setup = Some s"
    and "link_body s < bone_tag_count ent" and "bt_body (bone_tags ent ! link_body s) = Some anchor"
    and "World_GetModelByID models (model s) = Some m"
    and "0 < mesh_count m" and "mesh_count m < 256" and "world_wf w"
  shows "\<exists>h' w'. Hair_Create h setup parent models w = Some (Inr (True, h', w')) \<and>
     (\<forall>q < mesh_count m * joints_per_body s. \<exists>a c.
        joints h' ! q = Some a \<and> w_constraints w' a = Some c \<and>
        (\<forall>ax. c_stop_cfm c ax = (if q < mesh_count m \<and> ax < 6 then Some (joint_cfm s) else None)) \<and>
        (\<forall>ax. c_stop_erp c ax = (if q < mesh_count m \<and> ax < 6 then Some (joint_erp s) else None)))"
  using Hair_Create_closed [OF assms]
  by (auto simp: built_joint_ptr built_world_constraint joint_con_softness on_six_axes_def)

text \<open>C10: every segment body is registered in the kinematic collision group with an
  empty mask, never deactivates, falls at a tenth of the world's gravity, and carries
  the profile's (clamped) damping, restitution and friction.\<close>

theorem Hair_Create_body_setup:
  assumes "parent = Some (eid, ent)" and "setup = Some s"
    and "link_body s < bone_tag_count ent" and "bt_body (bone_tags ent ! link_body s) = Some anchor"
    and "World_GetModelByID models (model s) = Some m"
    and "0 < mesh_count m" and "mesh_count m < 256" and "world_wf w"
  shows "\<exists>h' w'. Hair_Create h setup parent models w = Some (Inr (True, h', w')) \<and>
     (\<forall>i < mesh_count m. \<exists>b rb. el_body (elements h' ! i) = Some b \<and> w_bodies w' b = Some rb \<and>
        (b, COLLISION_GROUP_KINEMATIC, COLLISION_MASK_NONE) \<in> set (w_rigid w') \<and>
        rb_activation rb = DISABLE_DEACTIVATION \<and> rb_gravity rb = vscale (1 / 10) (w_gravity w) \<and>
        rb_lin_damping rb = bt_clamp01 (fst (hair_damping s)) \<and>
        rb_ang_damping rb = bt_clamp01 (snd (hair_damping s)) \<and>
        rb_restitution rb = hair_restitution s \<and> rb_friction rb = hair_friction s)"
  using Hair_Create_closed [OF assms] built_world_body [of _ m s ent anchor w]
  by (auto simp: built_element seg_element_def seg_body_def store_simps)

text \<open>C23: the limit policy of lines 209--232 on every built joint: the three linear
  axes and the angular \<open>y\<close> axis are locked; the joints of the root segment swing
  within \<open>[-90, -27]\<close> degrees about \<open>x\<close> and \<open>[-36, 36]\<close> about \<open>z\<close> and get 100
  solver iterations; every other joint swings within \<open>[-45, 45]\<close> degrees about \<open>x\<close> and
  \<open>z\<close> and keeps the solver's default (\<open>-1\<close>).\<close>

theorem Hair_Create_joint_limits:
  assumes "parent = Some (eid, ent)" and "setup = Some s"
    and "link_body s < bone_tag_count ent" and "bt_body (bone_tags ent ! link_body s) = Some anchor"
    and "World_GetModelByID models (model s) = Some m"
    and "0 < mesh_count m" and "mesh_count m < 256" and "world_wf w"
  shows "\<exists>h' w'. Hair_Create h setup parent models w = Some (Inr (True, h', w')) \<and>
     (\<forall>q < mesh_count m * joints_per_body s. \<exists>a c.
        joints h' ! q = Some a \<and> w_constraints w' a = Some c \<and>
        c_lin_lower c = Vec3 0 0 0 \<and> c_lin_upper c = Vec3 0 0 0 \<and>
        (if q div joints_per_body s = 0 then
           c_ang_lower c = Vec3 (- (pi / 2)) 0 (- (pi / 2) * 0.4) \<and>
           c_ang_upper c = Vec3 (- (pi / 2) * 0.3) 0 ((pi / 2) * 0.4) \<and> c_solver_iters c = 100
         else
           c_ang_lower c = Vec3 (- (pi / 2) * 0.5) 0 (- (pi / 2) * 0.5) \<and>
           c_ang_upper c = Vec3 ((pi / 2) * 0.5) 0 ((pi / 2) * 0.5) \<and> c_solver_iters c = - 1))"
  using Hair_Create_closed [OF assms]
  by (auto simp: built_joint_ptr built_world_constraint joint_con_limits simp del: vec3_zero_eq)

text \<open>C24: the placement of every built joint (lines 149--185). Joint \<open>j\<close> of segment
  \<open>i\<close> sits at angle \<open>j * 2 pi / J\<close> on the segment's cross-section, at
  \<open>(cos * half-depth * radius, 0, sin * half-width * radius)\<close> in the segment's frame;
  with one joint per segment it sits on the axis. Its frame in the parent is shifted
  by the head offset and turned by the root angle for the root segment, and otherwise
  shifted along \<open>y\<close> by the previous segment's length times the overlap factor. The
  half-depth is read from entry 3 of the bounding box, not from its \<open>z\<close> extent
  (entry 2).\<close>

theorem Hair_Create_joint_placement:
  assumes "parent = Some (eid, ent)" and "setup = Some s"
    and "link_body s < bone_tag_count ent" and "bt_body (bone_tags ent ! link_body s) = Some anchor"
    and "World_GetModelByID models (model s) = Some m"
    and "0 < mesh_count m" and "mesh_count m < 256" and "world_wf w"
  shows "\<exists>h' w'. Hair_Create h setup parent models w = Some (Inr (True, h', w')) \<and>
     (\<forall>q < mesh_count m * joints_per_body s. \<exists>a c.
        joints h' ! q = Some a \<and> w_constraints w' a = Some c \<and>
        (let J = joints_per_body s; i = q div J; mesh = mesh_tree m ! i;
             jx = (if 1 < J then cos (real (q mod J) * ((pi * 2) / real J)) *
                                 ((\<bar>bb_max mesh 3 - bb_min mesh 3\<bar> * 0.5) * joint_radius s) else 0);
             jy = (if 1 < J then sin (real (q mod J) * ((pi * 2) / real J)) *
                                 ((\<bar>bb_max mesh 0 - bb_min mesh 0\<bar> * 0.5) * joint_radius s) else 0)
         in c_frame_b c = \<lparr>fr_origin = Vec3 jx 0 jy,
                           fr_euler = (if i = 0 then Vec3 0 (- (pi / 2)) 0 else Vec3 0 (pi / 2) 0)\<rparr> \<and>
            c_frame_a c = (if i = 0 then \<lparr>fr_origin = head_offset s + Vec3 jx 0 jy, fr_euler = root_angle s\<rparr>
                           else \<lparr>fr_origin = Vec3 jx (\<bar>bb_max (mesh_tree m ! (i - 1)) 1 -
                                                        bb_min (mesh_tree m ! (i - 1)) 1\<bar> * joint_overlap s) jy,
                                 fr_euler = Vec3 0 (pi / 2) 0\<rparr>)))"
  using Hair_Create_closed [OF assms]
  by (auto simp: built_joint_ptr built_world_constraint joint_con_frames seg_frames_def
      joint_off_x_def joint_off_y_def body_width_def body_depth_def Let_def simp del: vec3_zero_eq)

text \<open>C27: the builder does not require a joint per segment: with \<open>joints_per_body = 0\<close>
  it succeeds and builds the segments without a single constraint, so nothing ties the
  chain together or to the owner.\<close>

theorem Hair_Create_no_joints:
  assumes "parent = Some (eid, ent)" and "setup = Some s"
    and "link_body s < bone_tag_count ent" and "bt_body (bone_tags ent ! link_body s) = Some anchor"
    and "World_GetModelByID models (model s) = Some m"
    and "0 < mesh_count m" and "mesh_count m < 256" and "world_wf w"
    and "joints_per_body s = 0"
  shows "\<exists>h' w'. Hair_Create h setup parent models w = Some (Inr (True, h', w')) \<and>
     element_count h' = mesh_count m \<and> joint_count h' = 0 \<and> joints h' = [] \<and>
     w_constraints w' = w_constraints w \<and> w_joints w' = w_joints w"
proof -
  have "joint_map s anchor m B stp wb n 0 = w_constraints wb" for B stp wb n
    using assms(9) by (auto simp: joint_map_def fun_eq_iff)
  then have "w_constraints (built_world s ent anchor m w) = w_constraints w"
    by (simp add: built_world_def body_world_simps Let_def)
  then show ?thesis
    using Hair_Create_closed [OF assms(1-8)] assms(9)
    by (simp add: built_hair_fields built_world_fields joint_ptrs_def joint_regs_def)
qed

end
