(* ===== verification/Hair_Clear.thy ===== *)
theory Hair_Clear
  imports Hair_Types
begin

text \<open>
  \<open>Hair_Clear\<close> (\<open>hair.cpp\<close>, lines 247--293): the element loop removes each segment's
  body from the world and deletes it, deletes its collision shape, and nulls both
  pointers; the element array is freed; the joint loop removes and deletes each
  constraint; the joint array and the container are freed and every scalar field is
  reset. Deleting a pointer the world no longer holds (a double delete) and reading
  past an array are undefined behaviour, an \<open>ub\<close> value here. The motion states the
  builder allocated are not deleted (a leak the code has).

  \<open>rig_wf\<close> is what the teardown needs of a rig: counts within the arrays, live and
  pairwise distinct body, shape and constraint pointers. Under it the teardown is the
  closed form \<open>release_rig\<close>: every pointer of the rig released, nothing else touched.
\<close>

section \<open>The teardown\<close>

text \<open>Lines 251--256: remove and delete the body, null the pointer.\<close>

definition clear_element_body :: "nat \<Rightarrow> hair \<times> world \<Rightarrow> ub + hair \<times> world" where
  "clear_element_body i hw =
     (case hw of (h, w) \<Rightarrow>
       if length (elements h) \<le> i then Inl Index_out_of_range
       else case el_body (elements h ! i) of
         None \<Rightarrow> Inr (h, w)
       | Some b \<Rightarrow>
           if w_bodies w b = None then Inl Dangling_deref
           else Inr (h\<lparr>elements := (elements h)[i := (elements h ! i)\<lparr>el_body := None\<rparr>]\<rparr>,
                     delete_body b (removeRigidBody b w)))"

text \<open>Lines 257--261: delete the shape, null the pointer.\<close>

definition clear_element_shape :: "nat \<Rightarrow> hair \<times> world \<Rightarrow> ub + hair \<times> world" where
  "clear_element_shape i hw =
     (case hw of (h, w) \<Rightarrow>
       if length (elements h) \<le> i then Inl Index_out_of_range
       else case el_shape (elements h ! i) of
         None \<Rightarrow> Inr (h, w)
       | Some sh \<Rightarrow>
           if w_shapes w sh = None then Inl Dangling_deref
           else Inr (h\<lparr>elements := (elements h)[i := (elements h ! i)\<lparr>el_shape := None\<rparr>]\<rparr>,
                     delete_shape sh w))"

definition clear_element :: "nat \<Rightarrow> hair \<times> world \<Rightarrow> ub + hair \<times> world" where
  "clear_element i hw = ub_bind (clear_element_body i hw) (clear_element_shape i)"

text \<open>Lines 269--274: remove and delete the constraint, null the pointer.\<close>

definition clear_joint :: "nat \<Rightarrow> hair \<times> world \<Rightarrow> ub + hair \<times> world" where
  "clear_joint i hw =
     (case hw of (h, w) \<Rightarrow>
       if length (joints h) \<le> i then Inl Index_out_of_range
       else case joints h ! i of
         None \<Rightarrow> Inr (h, w)
       | Some c \<Rightarrow>
           if w_constraints w c = None then Inl Dangling_deref
           else Inr (h\<lparr>joints := (joints h)[i := None]\<rparr>,
                     delete_constraint c (removeConstraint c w)))"

text \<open>The whole function; \<open>None\<close> is a null \<open>hair\<close> argument, dereferenced at once.\<close>

definition Hair_Clear :: "hair option \<Rightarrow> world \<Rightarrow> ub + hair \<times> world" where
  "Hair_Clear hair w =
     (case hair of
       None \<Rightarrow> Inl Null_deref
     | Some h \<Rightarrow>
         ub_bind (ub_loop clear_element [0..<element_count h] (h, w)) (\<lambda>(h1, w1).
           let h2 = h1\<lparr>elements := [], element_count := 0\<rparr> in
           ub_bind (ub_loop clear_joint [0..<joint_count h2] (h2, w1)) (\<lambda>(h3, w3).
             Inr (h3\<lparr>joints := [], joint_count := 0, container := None, owner_char := None,
                     owner_body := 0, owner_char_ang := 0, owner_char_pos := 0,
                     owner_body_ang := 0, owner_body_pos := 0, root_index := 0, tail_index := 0\<rparr>,
                  w3))))"

section \<open>What the teardown needs and what it leaves\<close>

definition rig_bodies :: "hair \<Rightarrow> nat list" where
  "rig_bodies h = List.map_filter el_body (take (element_count h) (elements h))"

definition rig_shapes :: "hair \<Rightarrow> nat list" where
  "rig_shapes h = List.map_filter el_shape (take (element_count h) (elements h))"

definition rig_joints :: "hair \<Rightarrow> nat list" where
  "rig_joints h = List.map_filter id (take (joint_count h) (joints h))"

definition rig_wf :: "hair \<Rightarrow> world \<Rightarrow> bool" where
  "rig_wf h w \<longleftrightarrow>
     element_count h \<le> length (elements h) \<and> joint_count h \<le> length (joints h) \<and>
     distinct (rig_bodies h) \<and> (\<forall>b \<in> set (rig_bodies h). w_bodies w b \<noteq> None) \<and>
     distinct (rig_shapes h) \<and> (\<forall>s \<in> set (rig_shapes h). w_shapes w s \<noteq> None) \<and>
     distinct (rig_joints h) \<and> (\<forall>c \<in> set (rig_joints h). w_constraints w c \<noteq> None)"

text \<open>The world effect of releasing one element, one joint, and a whole rig.\<close>

definition release_element :: "hair_element \<Rightarrow> world \<Rightarrow> world" where
  "release_element e w =
     (let w1 = (case el_body e of None \<Rightarrow> w | Some b \<Rightarrow> delete_body b (removeRigidBody b w))
      in case el_shape e of None \<Rightarrow> w1 | Some s \<Rightarrow> delete_shape s w1)"

definition release_joint :: "nat option \<Rightarrow> world \<Rightarrow> world" where
  "release_joint j w = (case j of None \<Rightarrow> w | Some c \<Rightarrow> delete_constraint c (removeConstraint c w))"

definition strip_element :: "hair_element \<Rightarrow> hair_element" where
  "strip_element e = e\<lparr>el_body := None, el_shape := None\<rparr>"

definition release_rig :: "hair \<Rightarrow> world \<Rightarrow> world" where
  "release_rig h w =
     fold release_joint (take (joint_count h) (joints h))
       (fold release_element (take (element_count h) (elements h)) w)"

text \<open>The state of the element loop after \<open>k\<close> iterations, and of the joint loop.\<close>

definition elements_after :: "hair \<Rightarrow> world \<Rightarrow> nat \<Rightarrow> hair \<times> world" where
  "elements_after h w k =
     (h\<lparr>elements := map strip_element (take k (elements h)) @ drop k (elements h)\<rparr>,
      fold release_element (take k (elements h)) w)"

definition joints_after :: "hair \<Rightarrow> world \<Rightarrow> nat \<Rightarrow> hair \<times> world" where
  "joints_after h w k =
     (h\<lparr>joints := map (\<lambda>_. None) (take k (joints h)) @ drop k (joints h)\<rparr>,
      fold release_joint (take k (joints h)) w)"

section \<open>The loops in closed form\<close>

lemma release_element_fields [store_simps]:
  "w_bodies (release_element e w) = (case el_body e of None \<Rightarrow> w_bodies w | Some b \<Rightarrow> (w_bodies w)(b := None))"
  "w_shapes (release_element e w) = (case el_shape e of None \<Rightarrow> w_shapes w | Some s \<Rightarrow> (w_shapes w)(s := None))"
  "w_rigid (release_element e w) = (case el_body e of None \<Rightarrow> w_rigid w | Some b \<Rightarrow> filter (\<lambda>x. fst x \<noteq> b) (w_rigid w))"
  "w_constraints (release_element e w) = w_constraints w" "w_joints (release_element e w) = w_joints w"
  "w_motion (release_element e w) = w_motion w" "w_next (release_element e w) = w_next w"
  by (simp_all add: release_element_def delete_body_def removeRigidBody_def delete_shape_def Let_def
      split: option.split)

lemma release_joint_fields [store_simps]:
  "w_constraints (release_joint j w) = (case j of None \<Rightarrow> w_constraints w | Some c \<Rightarrow> (w_constraints w)(c := None))"
  "w_joints (release_joint j w) = (case j of None \<Rightarrow> w_joints w | Some c \<Rightarrow> filter (\<lambda>x. fst x \<noteq> c) (w_joints w))"
  "w_bodies (release_joint j w) = w_bodies w" "w_shapes (release_joint j w) = w_shapes w"
  "w_rigid (release_joint j w) = w_rigid w"
  "w_motion (release_joint j w) = w_motion w" "w_next (release_joint j w) = w_next w"
  by (simp_all add: release_joint_def delete_constraint_def removeConstraint_def split: option.split)

lemma release_elements_fields [store_simps]:
  "w_bodies (fold release_element es w) b =
     (if b \<in> set (List.map_filter el_body es) then None else w_bodies w b)"
  "w_shapes (fold release_element es w) s =
     (if s \<in> set (List.map_filter el_shape es) then None else w_shapes w s)"
  "w_rigid (fold release_element es w) = filter (\<lambda>x. fst x \<notin> set (List.map_filter el_body es)) (w_rigid w)"
  "w_constraints (fold release_element es w) = w_constraints w"
  "w_joints (fold release_element es w) = w_joints w"
  "w_motion (fold release_element es w) = w_motion w" "w_next (fold release_element es w) = w_next w"
  by (induction es arbitrary: w) (auto simp: release_element_fields split: option.split)

lemma release_joints_fields [store_simps]:
  "w_constraints (fold release_joint js w) c =
     (if c \<in> set (List.map_filter id js) then None else w_constraints w c)"
  "w_joints (fold release_joint js w) = filter (\<lambda>x. fst x \<notin> set (List.map_filter id js)) (w_joints w)"
  "w_bodies (fold release_joint js w) = w_bodies w" "w_shapes (fold release_joint js w) = w_shapes w"
  "w_rigid (fold release_joint js w) = w_rigid w"
  "w_motion (fold release_joint js w) = w_motion w" "w_next (fold release_joint js w) = w_next w"
  by (induction js arbitrary: w) (auto simp: release_joint_fields split: option.split)


lemma el_update_None:
  "el_body e = None \<Longrightarrow> e\<lparr>el_body := None\<rparr> = e"
  "el_shape e = None \<Longrightarrow> e\<lparr>el_shape := None\<rparr> = e"
  by (cases e; simp)+

lemma rig_wf_element:
  assumes "rig_wf h w" and "k < element_count h"
  shows "k < length (elements h)"
    "el_body (elements h ! k) = Some b \<Longrightarrow>
       b \<notin> set (List.map_filter el_body (take k (elements h))) \<and> w_bodies w b \<noteq> None"
    "el_shape (elements h ! k) = Some sh \<Longrightarrow>
       sh \<notin> set (List.map_filter el_shape (take k (elements h))) \<and> w_shapes w sh \<noteq> None"
proof -
  have wf: "element_count h \<le> length (elements h)"
    "distinct (List.map_filter el_body (take (element_count h) (elements h)))"
    "\<forall>b \<in> set (List.map_filter el_body (take (element_count h) (elements h))). w_bodies w b \<noteq> None"
    "distinct (List.map_filter el_shape (take (element_count h) (elements h)))"
    "\<forall>s \<in> set (List.map_filter el_shape (take (element_count h) (elements h))). w_shapes w s \<noteq> None"
    using assms(1) by (simp_all add: rig_wf_def rig_bodies_def rig_shapes_def)
  show len: "k < length (elements h)" using assms(2) wf(1) by simp
  show "el_body (elements h ! k) = Some b \<Longrightarrow>
       b \<notin> set (List.map_filter el_body (take k (elements h))) \<and> w_bodies w b \<noteq> None"
    using map_filter_take_fresh [OF wf(2) assms(2) len] bspec [OF wf(3) map_filter_take_mem [OF assms(2) len]]
    by simp
  show "el_shape (elements h ! k) = Some sh \<Longrightarrow>
       sh \<notin> set (List.map_filter el_shape (take k (elements h))) \<and> w_shapes w sh \<noteq> None"
    using map_filter_take_fresh [OF wf(4) assms(2) len] bspec [OF wf(5) map_filter_take_mem [OF assms(2) len]]
    by simp
qed

lemma update_strip_prefix_id:
  "k < length xs \<Longrightarrow> (map f (take k xs) @ drop k xs)[k := xs ! k] = map f (take k xs) @ drop k xs"
  by (metis list_update_id nth_strip_prefix)


lemma elements_after_Suc:
  assumes "k < length (elements h)"
  shows "elements_after h w (Suc k) =
    (h\<lparr>elements := (map strip_element (take k (elements h)) @ drop k (elements h))[k := strip_element (elements h ! k)]\<rparr>,
     release_element (elements h ! k) (fold release_element (take k (elements h)) w))"
  using assms update_strip_prefix [OF assms, of strip_element]
  by (simp add: elements_after_def take_Suc_conv_app_nth)

lemma clear_element_step:
  assumes "rig_wf h w" and "k < element_count h"
  shows "clear_element k (elements_after h w k) = Inr (elements_after h w (Suc k))"
proof -
  note len = rig_wf_element(1) [OF assms(1,2)]
  have len': "\<not> length (elements h) \<le> k" using len by simp
  note defs = elements_after_def clear_element_def clear_element_body_def clear_element_shape_def
    len' nth_strip_prefix len release_element_def strip_element_def release_elements_fields
  show ?thesis
  proof (cases "el_body (elements h ! k)"; cases "el_shape (elements h ! k)")
    assume "el_body (elements h ! k) = None" "el_shape (elements h ! k) = None"
    then show ?thesis
      unfolding elements_after_Suc [OF len] by (simp add: defs el_update_None update_strip_prefix_id)
  next
    fix sh
    assume "el_body (elements h ! k) = None" "el_shape (elements h ! k) = Some sh"
    with rig_wf_element(3) [OF assms, of sh] show ?thesis
      unfolding elements_after_Suc [OF len] by (simp add: defs el_update_None)
  next
    fix b
    assume "el_body (elements h ! k) = Some b" "el_shape (elements h ! k) = None"
    with rig_wf_element(2) [OF assms, of b] show ?thesis
      unfolding elements_after_Suc [OF len] by (simp add: defs el_update_None)
  next
    fix b sh
    assume "el_body (elements h ! k) = Some b" "el_shape (elements h ! k) = Some sh"
    with rig_wf_element(2) [OF assms, of b] rig_wf_element(3) [OF assms, of sh] show ?thesis
      unfolding elements_after_Suc [OF len] by (simp add: defs delete_body_def removeRigidBody_def)
  qed
qed

lemma clear_joint_step:
  assumes "k < joint_count h" and "joint_count h \<le> length (joints h)" and "distinct (rig_joints h)"
    and "\<forall>c \<in> set (rig_joints h). w_constraints w c \<noteq> None"
  shows "clear_joint k (joints_after h w k) = Inr (joints_after h w (Suc k))"
proof -
  have len: "k < length (joints h)" using assms(1,2) by simp
  have len': "\<not> length (joints h) \<le> k" using len by simp
  have after: "joints_after h w (Suc k) =
    (h\<lparr>joints := (map (\<lambda>_. None) (take k (joints h)) @ drop k (joints h))[k := None]\<rparr>,
     release_joint (joints h ! k) (fold release_joint (take k (joints h)) w))"
    using update_strip_prefix [OF len, of "\<lambda>_. None"] len
    by (simp add: joints_after_def take_Suc_conv_app_nth)
  show ?thesis
  proof (cases "joints h ! k")
    case None
    then show ?thesis unfolding after
      using update_strip_prefix_id [OF len, of "\<lambda>_. None"]
      by (simp add: joints_after_def clear_joint_def len' nth_strip_prefix len release_joint_def)
  next
    case (Some c)
    have "c \<notin> set (List.map_filter id (take k (joints h)))"
      using map_filter_take_fresh [of id, OF _ assms(1) len] assms(3) Some by (simp add: rig_joints_def)
    moreover have "c \<in> set (rig_joints h)"
      using map_filter_take_mem [of _ _ _ id, OF assms(1) len] Some by (simp add: rig_joints_def)
    with assms(4) have "w_constraints w c \<noteq> None" by blast
    ultimately show ?thesis unfolding after using Some
      by (simp add: joints_after_def clear_joint_def len' nth_strip_prefix len release_joint_def
          release_joints_fields)
  qed
qed

lemma elements_after_0: "elements_after h w 0 = (h, w)"
  by (simp add: elements_after_def)

lemma joints_after_0: "joints_after h w 0 = (h, w)"
  by (simp add: joints_after_def)

lemma Hair_Clear_closed:
  assumes "rig_wf h w"
  shows "Hair_Clear (Some h) w = Inr (empty_hair, release_rig h w)"
proof -
  let ?N = "element_count h"
  obtain h1 w1 where e: "elements_after h w ?N = (h1, w1)" by fastforce
  have loop1: "ub_loop clear_element [0..<?N] (h, w) = Inr (h1, w1)"
    using ub_loop_closed [of ?N clear_element "elements_after h w"] clear_element_step [OF assms]
    by (simp add: elements_after_0 e)
  let ?h2 = "h1\<lparr>elements := [], element_count := 0\<rparr>"
  have h1: "joints h1 = joints h" "joint_count h1 = joint_count h" "w_constraints w1 = w_constraints w"
    and w1: "w1 = fold release_element (take ?N (elements h)) w"
    using e by (auto simp: elements_after_def store_simps)
  have wfj: "joint_count ?h2 \<le> length (joints ?h2)" "distinct (rig_joints ?h2)"
    "\<forall>c \<in> set (rig_joints ?h2). w_constraints w1 c \<noteq> None"
    using assms by (simp_all add: rig_wf_def rig_joints_def h1)
  obtain h3 w3 where j: "joints_after ?h2 w1 (joint_count h1) = (h3, w3)" by fastforce
  have loop2: "ub_loop clear_joint [0..<joint_count h1] (?h2, w1) = Inr (h3, w3)"
    using ub_loop_closed [of "joint_count ?h2" clear_joint "joints_after ?h2 w1"]
      clear_joint_step [OF _ wfj] by (simp add: joints_after_0 j)
  have w3: "w3 = release_rig h w"
    using j by (simp add: joints_after_def release_rig_def w1 h1)
  have h3: "elements h3 = []" "element_count h3 = 0"
    using j by (auto simp: joints_after_def)
  then show ?thesis
    by (cases h3) (simp add: Hair_Clear_def loop1 loop2 w3 empty_hair_def)
qed
section \<open>Properties of the teardown\<close>

lemma clear_joint_keeps_elements:
  "clear_joint k hw = Inr hw' \<Longrightarrow> elements (fst hw') = elements (fst hw) \<and>
     element_count (fst hw') = element_count (fst hw)"
  by (auto simp: clear_joint_def split: prod.splits if_splits option.splits)

text \<open>C7: on a well-formed rig the teardown succeeds, leaves the empty rig, and
  releases exactly the rig's pointers: its bodies are deleted and unregistered, its
  shapes deleted, its constraints deleted and unregistered; every other object, the
  motion states and the allocation counter are untouched.\<close>

theorem Hair_Clear_releases:
  assumes "rig_wf h w"
  shows "\<exists>w'. Hair_Clear (Some h) w = Inr (empty_hair, w') \<and>
     (\<forall>b. w_bodies w' b = (if b \<in> set (rig_bodies h) then None else w_bodies w b)) \<and>
     w_rigid w' = filter (\<lambda>e. fst e \<notin> set (rig_bodies h)) (w_rigid w) \<and>
     (\<forall>s. w_shapes w' s = (if s \<in> set (rig_shapes h) then None else w_shapes w s)) \<and>
     (\<forall>c. w_constraints w' c = (if c \<in> set (rig_joints h) then None else w_constraints w c)) \<and>
     w_joints w' = filter (\<lambda>e. fst e \<notin> set (rig_joints h)) (w_joints w) \<and>
     w_motion w' = w_motion w \<and> w_next w' = w_next w"
  using Hair_Clear_closed [OF assms]
  by (simp add: release_rig_def store_simps
      rig_bodies_def rig_shapes_def rig_joints_def)

text \<open>C12: a second teardown of a torn-down rig changes nothing: whatever rig and
  world a successful \<open>Hair_Clear\<close> leaves, \<open>Hair_Clear\<close> returns them unchanged.\<close>

theorem Hair_Clear_idempotent:
  assumes "Hair_Clear (Some h) w = Inr (h', w')"
  shows "Hair_Clear (Some h') w' = Inr (h', w')"
proof -
  have "h' = empty_hair"
  proof -
    obtain h1 w1 h3 w3 where
      l2: "ub_loop clear_joint [0..<joint_count h1] (h1\<lparr>elements := [], element_count := 0\<rparr>, w1) = Inr (h3, w3)"
      and r: "h' = h3\<lparr>joints := [], joint_count := 0, container := None, owner_char := None,
                     owner_body := 0, owner_char_ang := 0, owner_char_pos := 0,
                     owner_body_ang := 0, owner_body_pos := 0, root_index := 0, tail_index := 0\<rparr>"
      using assms by (auto simp: Hair_Clear_def ub_bind_def Let_def split: sum.splits prod.splits)
    have "elements h3 = [] \<and> element_count h3 = 0"
      using ub_loop_invariant [where P = "\<lambda>hw. elements (fst hw) = [] \<and> element_count (fst hw) = 0",
          OF _ l2] clear_joint_keeps_elements by fastforce
    then show ?thesis using r by (cases h3) (simp add: empty_hair_def)
  qed
  then show ?thesis by (simp add: Hair_Clear_def empty_hair_def)
qed

end
