(* ===== verification/Hair_Update.thy ===== *)
theory Hair_Update
  imports Hair_Types
begin

text \<open>
  \<open>Hair_Update\<close> (\<open>hair.cpp\<close>, lines 295--341), run once per tick: it samples the
  owner's transform and the transform of bone 14, takes the difference to the cached
  pose as a velocity, caches the new pose, imposes \<open>-100\<close> times the summed position
  differences as the linear velocity of the rig's root body and of the owner's body
  \<open>bt_body[owner_body]\<close>, and re-resolves the container's room. The summed angle
  differences are computed and not applied (lines 332--333 are commented out).

  The owner entity is read through its handle \<open>owner_char\<close> in the entity table
  \<open>ents\<close>; \<open>Room_FindPosCogerrence\<close> is the parameter \<open>find_room\<close>. A null rig pointer is
  \<open>None\<close> and, like an empty rig, makes the call a no-op. Reading bone 14 of an owner
  with fewer bones, a null or dangling body pointer, and a null container are
  undefined behaviour, an \<open>ub\<close> value.
\<close>

text \<open>\<open>p->setLinearVelocity(v)\<close> through a body pointer \<open>p\<close>.\<close>

definition set_body_velocity :: "nat option \<Rightarrow> vec3 \<Rightarrow> world \<Rightarrow> ub + world" where
  "set_body_velocity p v w =
     (case p of
       None \<Rightarrow> Inl Null_deref
     | Some b \<Rightarrow> if w_bodies w b = None then Inl Dangling_deref
                 else Inr (update_body b (setLinearVelocity v) w))"

definition Hair_Update ::
  "(vec3 \<Rightarrow> nat option \<Rightarrow> nat option) \<Rightarrow> (nat \<rightharpoonup> entity) \<Rightarrow> hair option \<Rightarrow> world \<Rightarrow>
   ub + hair option \<times> world" where
  "Hair_Update find_room ents hair w =
     (case hair of
       None \<Rightarrow> Inr (None, w)
     | Some h \<Rightarrow>
       if element_count h < 1 then Inr (Some h, w)
       else case owner_char h of
         None \<Rightarrow> Inl Null_deref
       | Some eid \<Rightarrow> (case ents eid of
           None \<Rightarrow> Inl Dangling_deref
         | Some ent \<Rightarrow>
           if bone_tag_count ent \<le> 14 then Inl Index_out_of_range
           else
             let T = e_transform ent; B = full_transform (bone_tags ent ! 14);
                 new_char_pos = mat4_pos T; new_body_pos = mat4_pos B;
                 new_char_ang = mat4_ang_rev T; new_body_ang = mat4_ang_rev B;
                 char_vel = owner_char_pos h - new_char_pos;
                 char_ang = owner_char_ang h - new_char_ang;
                 body_vel = owner_body_pos h - new_body_pos;
                 body_ang = owner_body_ang h - new_body_ang;
                 h1 = h\<lparr>owner_char_pos := new_char_pos, owner_char_ang := new_char_ang,
                        owner_body_pos := new_body_pos, owner_body_ang := new_body_ang\<rparr>;
                 mix_vel = vscale (- 100) (char_vel + body_vel);
                 mix_ang = vscale (- 100) (char_ang + body_ang)
             in if length (elements h1) \<le> root_index h1 then Inl Index_out_of_range
             else ub_bind (set_body_velocity (el_body (elements h1 ! root_index h1)) mix_vel w) (\<lambda>w1.
               if bone_tag_count ent \<le> owner_body h1 then Inl Index_out_of_range
               else ub_bind (set_body_velocity (bt_body (bone_tags ent ! owner_body h1)) mix_vel w1) (\<lambda>w2.
                 case container h1 of
                   None \<Rightarrow> Inl Null_deref
                 | Some c \<Rightarrow>
                     Inr (Some (h1\<lparr>container := Some (c\<lparr>room := find_room new_char_pos (room c)\<rparr>)\<rparr>), w2)))))"

text \<open>The engine calls \<open>Hair_Update\<close> once per tick on the rig it keeps; \<open>n\<close> ticks
  thread the rig and the world through \<open>n\<close> calls, and stop at the first undefined
  behaviour.\<close>

fun Hair_Update_ticks ::
  "(vec3 \<Rightarrow> nat option \<Rightarrow> nat option) \<Rightarrow> (nat \<rightharpoonup> entity) \<Rightarrow> nat \<Rightarrow> hair option \<Rightarrow> world \<Rightarrow>
   ub + hair option \<times> world" where
  "Hair_Update_ticks find_room ents 0 hair w = Inr (hair, w)"
| "Hair_Update_ticks find_room ents (Suc n) hair w =
     ub_bind (Hair_Update find_room ents hair w) (\<lambda>(hair', w'). Hair_Update_ticks find_room ents n hair' w')"

text \<open>A rig the update can run on: it has segments, its owner \<open>eid\<close> is the entity
  \<open>ent\<close> with a bone 14, the root body \<open>rb\<close> and the owner's body \<open>ab\<close> are live, and
  there is a container.\<close>

definition update_ready ::
  "(nat \<rightharpoonup> entity) \<Rightarrow> nat \<Rightarrow> entity \<Rightarrow> nat \<Rightarrow> nat \<Rightarrow> hair \<Rightarrow> world \<Rightarrow> bool" where
  "update_ready ents eid ent rb ab h w \<longleftrightarrow>
     0 < element_count h \<and> owner_char h = Some eid \<and> ents eid = Some ent \<and>
     14 < bone_tag_count ent \<and> root_index h < length (elements h) \<and>
     el_body (elements h ! root_index h) = Some rb \<and> w_bodies w rb \<noteq> None \<and>
     owner_body h < bone_tag_count ent \<and> bt_body (bone_tags ent ! owner_body h) = Some ab \<and>
     w_bodies w ab \<noteq> None \<and> container h \<noteq> None"

section \<open>The update in closed form\<close>

lemma Hair_Update_closed:
  assumes "0 < element_count h" and "owner_char h = Some eid" and "ents eid = Some ent"
    and "14 < bone_tag_count ent"
    and "root_index h < length (elements h)" and "el_body (elements h ! root_index h) = Some rb"
    and "w_bodies w rb \<noteq> None"
    and "owner_body h < bone_tag_count ent" and "bt_body (bone_tags ent ! owner_body h) = Some ab"
    and "w_bodies w ab \<noteq> None" and "container h = Some c"
  shows "Hair_Update find_room ents (Some h) w =
    Inr (Some (h\<lparr>owner_char_pos := mat4_pos (e_transform ent),
                 owner_char_ang := mat4_ang_rev (e_transform ent),
                 owner_body_pos := mat4_pos (full_transform (bone_tags ent ! 14)),
                 owner_body_ang := mat4_ang_rev (full_transform (bone_tags ent ! 14)),
                 container := Some (c\<lparr>room := find_room (mat4_pos (e_transform ent)) (room c)\<rparr>)\<rparr>),
         update_body ab (setLinearVelocity (vscale (- 100)
             ((owner_char_pos h - mat4_pos (e_transform ent)) +
              (owner_body_pos h - mat4_pos (full_transform (bone_tags ent ! 14))))))
           (update_body rb (setLinearVelocity (vscale (- 100)
             ((owner_char_pos h - mat4_pos (e_transform ent)) +
              (owner_body_pos h - mat4_pos (full_transform (bone_tags ent ! 14)))))) w))"
proof -
  have "w_bodies (update_body rb f w) ab \<noteq> None" for f
    using assms(7,10) by (simp add: update_body_def)
  then show ?thesis
    using assms by (simp add: Hair_Update_def Let_def set_body_velocity_def not_less)
qed


text \<open>One tick on a ready rig: it returns, the rig stays ready, the cache holds the
  current pose, and both bodies carry the velocity from the cached pose.\<close>

lemma Hair_Update_ready_step:
  assumes "update_ready ents eid ent rb ab h w"
  shows "\<exists>h' w'. Hair_Update find_room ents (Some h) w = Inr (Some h', w') \<and>
     update_ready ents eid ent rb ab h' w' \<and>
     owner_char_pos h' = mat4_pos (e_transform ent) \<and>
     owner_body_pos h' = mat4_pos (full_transform (bone_tags ent ! 14)) \<and>
     map_option rb_lin_vel (w_bodies w' rb) = Some (vscale (- 100)
        ((owner_char_pos h - mat4_pos (e_transform ent)) +
         (owner_body_pos h - mat4_pos (full_transform (bone_tags ent ! 14))))) \<and>
     map_option rb_lin_vel (w_bodies w' ab) = Some (vscale (- 100)
        ((owner_char_pos h - mat4_pos (e_transform ent)) +
         (owner_body_pos h - mat4_pos (full_transform (bone_tags ent ! 14)))))"
proof -
  obtain c where "container h = Some c"
    using assms by (auto simp: update_ready_def)
  moreover note r = assms [unfolded update_ready_def]
  ultimately show ?thesis
    using Hair_Update_closed [where ents = ents and find_room = find_room and c = c and ab = ab and rb = rb]
    by (auto simp: update_ready_def update_body_def setLinearVelocity_def)
qed

text \<open>Ticks on a ready rig with a still owner: each returns and keeps the rig ready,
  and from the second on (or from the first when the cache already holds the pose)
  the imposed velocity is zero.\<close>

lemma Hair_Update_ticks_ready:
  assumes "update_ready ents eid ent rb ab h w"
  shows "\<exists>h' w'. Hair_Update_ticks find_room ents (Suc n) (Some h) w = Inr (Some h', w') \<and>
     update_ready ents eid ent rb ab h' w' \<and>
     owner_char_pos h' = mat4_pos (e_transform ent) \<and>
     owner_body_pos h' = mat4_pos (full_transform (bone_tags ent ! 14)) \<and>
     (0 < n \<or> owner_char_pos h = mat4_pos (e_transform ent) \<and>
               owner_body_pos h = mat4_pos (full_transform (bone_tags ent ! 14)) \<longrightarrow>
      map_option rb_lin_vel (w_bodies w' rb) = Some 0 \<and> map_option rb_lin_vel (w_bodies w' ab) = Some 0)"
  using assms
proof (induction n arbitrary: h w)
  case 0
  then show ?case
    using Hair_Update_ready_step [where find_room = find_room, OF "0.prems"] by auto
next
  case (Suc n)
  obtain h1 w1 where s: "Hair_Update find_room ents (Some h) w = Inr (Some h1, w1)"
    and r1: "update_ready ents eid ent rb ab h1 w1"
    and p1: "owner_char_pos h1 = mat4_pos (e_transform ent)"
            "owner_body_pos h1 = mat4_pos (full_transform (bone_tags ent ! 14))"
    using Hair_Update_ready_step [where find_room = find_room, OF Suc.prems] by blast
  show ?case
    using Suc.IH [OF r1] s p1 by auto
qed

text \<open>An owner with at most 14 bones: line 303 reads \<open>bone_tags[14]\<close> past the array.\<close>

lemma Hair_Update_short_owner:
  assumes "0 < element_count h" and "owner_char h = Some eid" and "ents eid = Some ent"
    and "bone_tag_count ent \<le> 14"
  shows "Hair_Update find_room ents (Some h) w = Inl Index_out_of_range"
  using assms by (simp add: Hair_Update_def)

section \<open>Properties of the update\<close>

text \<open>C13: the update is a no-op on a null rig and on a rig without segments.\<close>

theorem Hair_Update_noop:
  "Hair_Update find_room ents None w = Inr (None, w) \<and>
   (element_count h = 0 \<longrightarrow> Hair_Update find_room ents (Some h) w = Inr (Some h, w))"
  by (simp add: Hair_Update_def)

text \<open>C4: on a rig whose owner has a bone 14, whose root body and owner body are live
  and whose container exists, the update imposes
  \<open>v = -100 * ((cached_char_pos - char_pos) + (cached_body_pos - bone14_pos))\<close> as the
  linear velocity of the root body and of the owner's body, changes nothing else in
  the world, caches the new pose (angles in the order \<open>m[8], m[4], m[0]\<close>) and
  re-resolves the room from the new position, with the old room as the hint.\<close>

theorem Hair_Update_velocity:
  assumes "0 < element_count h" and "owner_char h = Some eid" and "ents eid = Some ent"
    and "14 < bone_tag_count ent"
    and "root_index h < length (elements h)" and "el_body (elements h ! root_index h) = Some rb"
    and "w_bodies w rb \<noteq> None"
    and "owner_body h < bone_tag_count ent" and "bt_body (bone_tags ent ! owner_body h) = Some ab"
    and "w_bodies w ab \<noteq> None" and "container h = Some c"
  shows "\<exists>h' w'. Hair_Update find_room ents (Some h) w = Inr (Some h', w') \<and>
     w_bodies w' rb = map_option (setLinearVelocity (vscale (- 100)
        ((owner_char_pos h - mat4_pos (e_transform ent)) +
         (owner_body_pos h - mat4_pos (full_transform (bone_tags ent ! 14)))))) (w_bodies w rb) \<and>
     w_bodies w' ab = map_option (setLinearVelocity (vscale (- 100)
        ((owner_char_pos h - mat4_pos (e_transform ent)) +
         (owner_body_pos h - mat4_pos (full_transform (bone_tags ent ! 14)))))) (w_bodies w ab) \<and>
     (\<forall>x. x \<noteq> rb \<longrightarrow> x \<noteq> ab \<longrightarrow> w_bodies w' x = w_bodies w x) \<and>
     w'\<lparr>w_bodies := w_bodies w\<rparr> = w \<and>
     owner_char_pos h' = mat4_pos (e_transform ent) \<and>
     owner_body_pos h' = mat4_pos (full_transform (bone_tags ent ! 14)) \<and>
     owner_char_ang h' = mat4_ang_rev (e_transform ent) \<and>
     owner_body_ang h' = mat4_ang_rev (full_transform (bone_tags ent ! 14)) \<and>
     container h' = Some (c\<lparr>room := find_room (mat4_pos (e_transform ent)) (room c)\<rparr>) \<and>
     elements h' = elements h \<and> joints h' = joints h \<and> element_count h' = element_count h"
  using Hair_Update_closed [where ents = ents and find_room = find_room, OF assms] assms(7,10)
  by (auto simp: update_body_def setLinearVelocity_def)

text \<open>C11: when the owner has not moved since the cached pose, the update imposes the
  zero velocity on the root body and on the owner's body.\<close>

theorem Hair_Update_still:
  assumes "0 < element_count h" and "owner_char h = Some eid" and "ents eid = Some ent"
    and "14 < bone_tag_count ent"
    and "root_index h < length (elements h)" and "el_body (elements h ! root_index h) = Some rb"
    and "w_bodies w rb \<noteq> None"
    and "owner_body h < bone_tag_count ent" and "bt_body (bone_tags ent ! owner_body h) = Some ab"
    and "w_bodies w ab \<noteq> None" and "container h = Some c"
    and "owner_char_pos h = mat4_pos (e_transform ent)"
    and "owner_body_pos h = mat4_pos (full_transform (bone_tags ent ! 14))"
  shows "\<exists>h' w'. Hair_Update find_room ents (Some h) w = Inr (Some h', w') \<and>
     map_option rb_lin_vel (w_bodies w' rb) = Some 0 \<and> map_option rb_lin_vel (w_bodies w' ab) = Some 0"
  using Hair_Update_closed [where ents = ents and find_room = find_room, OF assms(1-11)] assms(7,10,12,13)
  by (auto simp: update_body_def setLinearVelocity_def)

text \<open>C22: the rig settles: on a ready rig whose owner stays still, every tick
  returns, and from the second tick on the velocity imposed on the root body and on
  the owner's body is zero, whatever velocity the first tick imposed from a stale
  cache.\<close>

theorem Hair_Update_settles:
  assumes "update_ready ents eid ent rb ab h w"
  shows "\<exists>h' w'. Hair_Update_ticks find_room ents (Suc (Suc n)) (Some h) w = Inr (Some h', w') \<and>
     map_option rb_lin_vel (w_bodies w' rb) = Some 0 \<and> map_option rb_lin_vel (w_bodies w' ab) = Some 0"
  using Hair_Update_ticks_ready [where find_room = find_room and n = "Suc n", OF assms] by auto

end
