(* ===== verification/Hair_Lifecycle.thy ===== *)
theory Hair_Lifecycle
  imports Hair_Build Hair_Clear Hair_Update
begin

text \<open>
  The rig's life as the engine drives it: \<open>Hair_Create\<close> once, \<open>Hair_Update\<close> every
  tick, \<open>Hair_Clear\<close> at the end, over the shared physics world. \<open>rig_step\<close> is one
  successful call of any of the three, with any setup, owner, model table, entity
  table and room lookup. The lemmas show that the built world is well formed
  (\<open>built_world_wf\<close>), that the built rig is what the teardown needs
  (\<open>built_rig_wf\<close>), that every step keeps \<open>world_wf\<close> and \<open>rig_wf\<close>
  (\<open>rig_step_preserves\<close>, hence \<open>reachable_wf\<close> by induction on the reflexive
  transitive closure), and what a teardown of a freshly built rig leaves
  (\<open>release_built\<close>). The last section orders the calls: an update after a teardown,
  and a second build without a teardown.
\<close>

inductive rig_step :: "hair \<times> world \<Rightarrow> hair \<times> world \<Rightarrow> bool" where
  create: "Hair_Create h su parent models w = Some (Inr (b, h', w')) \<Longrightarrow> rig_step (h, w) (h', w')"
| update: "Hair_Update find_room ents (Some h) w = Inr (Some h', w') \<Longrightarrow> rig_step (h, w) (h', w')"
| clear: "Hair_Clear (Some h) w = Inr (h', w') \<Longrightarrow> rig_step (h, w) (h', w')"


section \<open>The built rig meets the teardown's requirements\<close>

lemma built_world_lookup [store_simps]:
  "w_bodies (built_world s ent anchor m w) a =
     (if w_next w \<le> a \<and> a < w_next w + 3 * mesh_count m \<and> (a - w_next w) mod 3 = 2
      then Some (seg_body s (w_gravity w) ((root_weight s - tail_weight s) / real (mesh_count m)) (w_next w) ((a - w_next w) div 3))
      else w_bodies w a)"
  "w_shapes (built_world s ent anchor m w) a =
     (if w_next w \<le> a \<and> a < w_next w + 3 * mesh_count m \<and> (a - w_next w) mod 3 = 0
      then Some \<lparr>cs_mesh = mesh_id (mesh_tree m ! ((a - w_next w) div 3)), cs_static = False\<rparr>
      else w_shapes w a)"
  "w_motion (built_world s ent anchor m w) a =
     (if w_next w \<le> a \<and> a < w_next w + 3 * mesh_count m \<and> (a - w_next w) mod 3 = 1
      then Some (seg_tr ent) else w_motion w a)"
  "w_constraints (built_world s ent anchor m w) a =
     (if w_next w + 3 * mesh_count m \<le> a \<and> a < w_next w + 3 * mesh_count m + mesh_count m * joints_per_body s
      then Some (joint_con s anchor m (w_next w) ((pi * 2) / real (joints_per_body s))
                  (a - (w_next w + 3 * mesh_count m)) (a - (w_next w + 3 * mesh_count m) < mesh_count m))
      else w_constraints w a)"
  by (simp_all add: built_world_def body_world_def joint_map_def Let_def)

lemma built_world_wf:
  assumes "world_wf w"
  shows "world_wf (built_world s ent anchor m w)"
proof -
  let ?B = "w_next w" and ?N = "mesh_count m" and ?J = "joints_per_body s"
  let ?w' = "built_world s ent anchor m w"
  have ob: "w_bodies w a = Some y \<Longrightarrow> a < ?B" and os: "w_shapes w a = Some y' \<Longrightarrow> a < ?B"
    and om: "w_motion w a = Some t \<Longrightarrow> a < ?B" and oc: "w_constraints w a = Some c \<Longrightarrow> a < ?B"
    for a y y' t c using assms by (auto simp: world_wf_def)
  have dom_lt: "a < w_next ?w'"
    if "a \<in> dom (w_bodies ?w') \<union> dom (w_shapes ?w') \<union> dom (w_motion ?w') \<union> dom (w_constraints ?w')" for a
    using that by (auto simp: store_simps split: if_splits)
      (use ob os om oc in fastforce)+
  have rigid: "fst e \<in> dom (w_bodies ?w')" if "e \<in> set (w_rigid ?w')" for e
  proof -
    from that consider "e \<in> set (w_rigid w)" | i where "i < ?N" "e = (?B + 3 * i + 2, COLLISION_GROUP_KINEMATIC, COLLISION_MASK_NONE)"
      by (auto simp: store_simps)
    then show ?thesis
    proof cases
      case 1
      then have "fst e \<in> dom (w_bodies w)" using assms by (auto simp: world_wf_def)
      then show ?thesis by (auto simp: built_world_lookup dest: ob)
    next
      case 2
      then show ?thesis using built_world_body [of i m s ent anchor w] by auto
    qed
  qed
  have joints: "fst e \<in> dom (w_constraints ?w')" if "e \<in> set (w_joints ?w')" for e
  proof -
    from that consider "e \<in> set (w_joints w)" | q where "q < ?N * ?J" "e = (?B + 3 * ?N + q, True)"
      by (auto simp: store_simps joint_regs_def)
    then show ?thesis
    proof cases
      case 1
      then have "fst e \<in> dom (w_constraints w)" using assms by (auto simp: world_wf_def)
      then show ?thesis by (auto simp: built_world_lookup dest: oc)
    next
      case 2
      then show ?thesis using built_world_constraint [of q m s ent anchor w] by auto
    qed
  qed
  show ?thesis
    unfolding world_wf_def using dom_lt rigid joints by blast
qed


lemma built_rig_ptrs:
  "rig_bodies (built_hair h s eid ent m B) = map (\<lambda>i. B + 3 * i + 2) [0..<mesh_count m]"
  "rig_shapes (built_hair h s eid ent m B) = map (\<lambda>i. B + 3 * i) [0..<mesh_count m]"
  "rig_joints (built_hair h s eid ent m B) =
     map (\<lambda>q. B + 3 * mesh_count m + q) [0..<mesh_count m * joints_per_body s]"
proof -
  have mf: "List.map_filter f (map g xs) = map k xs" if "\<And>x. f (g x) = Some (k x)" for f g k and xs :: "nat list"
    using that by (induction xs) auto
  show "rig_bodies (built_hair h s eid ent m B) = map (\<lambda>i. B + 3 * i + 2) [0..<mesh_count m]"
    by (simp add: rig_bodies_def built_hair_fields mf seg_element_def)
  show "rig_shapes (built_hair h s eid ent m B) = map (\<lambda>i. B + 3 * i) [0..<mesh_count m]"
    by (simp add: rig_shapes_def built_hair_fields mf seg_element_def)
  show "rig_joints (built_hair h s eid ent m B) =
     map (\<lambda>q. B + 3 * mesh_count m + q) [0..<mesh_count m * joints_per_body s]"
    by (simp add: rig_joints_def built_hair_fields joint_ptrs_def mf)
qed

lemma built_rig_wf:
  "rig_wf (built_hair h s eid ent m (w_next w)) (built_world s ent anchor m w)"
proof -
  let ?B = "w_next w" and ?N = "mesh_count m"
  have b: "\<forall>b \<in> set (rig_bodies (built_hair h s eid ent m ?B)). w_bodies (built_world s ent anchor m w) b \<noteq> None"
    using built_world_body [of _ m s ent anchor w] by (auto simp: built_rig_ptrs)
  have sh: "\<forall>a \<in> set (rig_shapes (built_hair h s eid ent m ?B)). w_shapes (built_world s ent anchor m w) a \<noteq> None"
    by (auto simp: built_rig_ptrs built_world_lookup)
  have c: "\<forall>c \<in> set (rig_joints (built_hair h s eid ent m ?B)). w_constraints (built_world s ent anchor m w) c \<noteq> None"
    by (auto simp: built_rig_ptrs built_world_lookup)
  show ?thesis
    using b sh c
    by (simp add: rig_wf_def built_hair_fields joint_ptrs_def built_rig_ptrs distinct_map inj_on_def)
qed


section \<open>Every step keeps the invariants\<close>

lemma Hair_Create_cases:
  assumes r: "Hair_Create h setup parent models w = Some (Inr (b, h', w'))" and wf: "world_wf w"
  shows "(\<not> b \<and> h' = h \<and> w' = w) \<or>
    (\<exists>s eid ent anchor m. h' = built_hair h s eid ent m (w_next w) \<and> w' = built_world s ent anchor m w)"
proof (cases "\<exists>eid ent s anchor m. parent = Some (eid, ent) \<and> setup = Some s \<and>
    link_body s < bone_tag_count ent \<and> bt_body (bone_tags ent ! link_body s) = Some anchor \<and>
    World_GetModelByID models (model s) = Some m \<and> 0 < mesh_count m")
  case True
  then obtain eid ent s anchor m where g: "parent = Some (eid, ent)" "setup = Some s"
    "link_body s < bone_tag_count ent" "bt_body (bone_tags ent ! link_body s) = Some anchor"
    "World_GetModelByID models (model s) = Some m" "0 < mesh_count m" by blast
  have "mesh_count m < 256"
  proof (rule ccontr)
    assume "\<not> mesh_count m < 256"
    then have "Hair_Create h setup parent models w = None"
      using g create_rig_diverges [of m] by (simp add: Hair_Create_def not_le)
    with r show False by simp
  qed
  with g wf have "Hair_Create h setup parent models w =
      Some (Inr (True, built_hair h s eid ent m (w_next w), built_world s ent anchor m w))"
    by (intro Hair_Create_closed) simp_all
  with r have "h' = built_hair h s eid ent m (w_next w) \<and> w' = built_world s ent anchor m w" by simp
  then show ?thesis by blast
next
  case False
  then have "Hair_Create h setup parent models w = Some (Inr (False, h, w))"
    by (auto simp: Hair_Create_def not_le split: option.splits)
  with r show ?thesis by simp
qed

lemma rig_wf_update_body: "rig_wf h w \<Longrightarrow> rig_wf h (update_body b f w)"
  by (simp add: rig_wf_def update_body_def)

lemma rig_wf_empty: "rig_wf empty_hair w"
  by (simp add: rig_wf_def rig_bodies_def rig_shapes_def rig_joints_def empty_hair_def)

lemma world_wf_release_rig: "world_wf w \<Longrightarrow> world_wf (release_rig h w)"
proof -
  have e: "world_wf (fold release_element es w)" if "world_wf w" for es w
    using that by (induction es arbitrary: w)
      (auto simp: release_element_def Let_def world_wf_remove_delete_body world_wf_delete_shape
        split: option.split)
  have j: "world_wf (fold release_joint js w)" if "world_wf w" for js w
    using that by (induction js arbitrary: w)
      (auto simp: release_joint_def world_wf_remove_delete_constraint split: option.split)
  show "world_wf w \<Longrightarrow> world_wf (release_rig h w)"
    by (simp add: release_rig_def e j)
qed

lemma rig_wf_cong:
  "element_count h' = element_count h \<Longrightarrow> elements h' = elements h \<Longrightarrow>
   joint_count h' = joint_count h \<Longrightarrow> joints h' = joints h \<Longrightarrow> rig_wf h' w = rig_wf h w"
  by (simp add: rig_wf_def rig_bodies_def rig_shapes_def rig_joints_def)

lemma Hair_Update_frame:
  assumes "Hair_Update find_room ents (Some h) w = Inr (Some h', w')"
  shows "element_count h' = element_count h \<and> elements h' = elements h \<and>
    joint_count h' = joint_count h \<and> joints h' = joints h \<and>
    (w' = w \<or> (\<exists>rb ab f. w' = update_body ab f (update_body rb f w)))"
  using assms
  by (auto simp: Hair_Update_def Let_def set_body_velocity_def ub_bind_def
      split: option.splits if_splits sum.splits)

lemma rig_step_preserves:
  assumes "rig_step st st'" and "world_wf (snd st)" and "rig_wf (fst st) (snd st)"
  shows "world_wf (snd st') \<and> rig_wf (fst st') (snd st')"
  using assms
proof (induction rule: rig_step.induct)
  case (create h su parent models w b h' w')
  from Hair_Create_cases [OF create(1)] create(2,3) show ?case
    by (auto simp: built_world_wf built_rig_wf)
next
  case (update find_room ents h w h' w')
  with Hair_Update_frame [OF update(1)] rig_wf_cong [of h' h] show ?case
    by (auto simp: world_wf_update_body rig_wf_update_body)
next
  case (clear h w h' w')
  then show ?case using Hair_Clear_closed [of h w]
    by (simp add: rig_wf_empty world_wf_release_rig)
qed


lemma reachable_wf:
  assumes "rig_step\<^sup>*\<^sup>* (empty_hair, w0) st" and "world_wf w0"
  shows "world_wf (snd st) \<and> rig_wf (fst st) (snd st)"
  using assms by (induction rule: rtranclp_induct) (auto simp: rig_wf_empty dest: rig_step_preserves)

section \<open>A teardown undoes a build\<close>

lemma release_built:
  assumes "world_wf w"
  shows "w_bodies (release_rig (built_hair h s eid ent m (w_next w)) (built_world s ent anchor m w)) = w_bodies w"
    "w_shapes (release_rig (built_hair h s eid ent m (w_next w)) (built_world s ent anchor m w)) = w_shapes w"
    "w_constraints (release_rig (built_hair h s eid ent m (w_next w)) (built_world s ent anchor m w)) = w_constraints w"
    "w_rigid (release_rig (built_hair h s eid ent m (w_next w)) (built_world s ent anchor m w)) = w_rigid w"
    "w_joints (release_rig (built_hair h s eid ent m (w_next w)) (built_world s ent anchor m w)) = w_joints w"
    "w_motion (release_rig (built_hair h s eid ent m (w_next w)) (built_world s ent anchor m w)) =
       w_motion (built_world s ent anchor m w)"
proof -
  let ?h = "built_hair h s eid ent m (w_next w)" and ?w = "built_world s ent anchor m w"
  let ?B = "w_next w" and ?N = "mesh_count m"
  have lt: "\<forall>k \<in> dom (w_bodies w) \<union> dom (w_shapes w) \<union> dom (w_motion w) \<union> dom (w_constraints w). k < ?B"
    using assms by (simp add: world_wf_def)
  have fresh: "w_bodies w a = None \<and> w_shapes w a = None \<and> w_constraints w a = None" if "?B \<le> a" for a
    using lt that by (auto simp: not_less [symmetric])
  have regs: "e \<in> set (w_rigid w) \<Longrightarrow> fst e < ?B" "j \<in> set (w_joints w) \<Longrightarrow> fst j < ?B" for e j
    using assms lt by (fastforce simp: world_wf_def)+
  have rel: "release_rig ?h ?w = fold release_joint (take (joint_count ?h) (joints ?h))
      (fold release_element (take (element_count ?h) (elements ?h)) ?w)"
    by (simp add: release_rig_def)
  have two: "(2::nat) < 3" by simp
  show "w_bodies (release_rig ?h ?w) = w_bodies w"
  proof
    fix a
    have r: "w_bodies (release_rig ?h ?w) a = (if a \<in> set (rig_bodies ?h) then None else w_bodies ?w a)"
      unfolding rel rig_bodies_def release_joints_fields release_elements_fields by (rule refl)
    have m: "a \<in> set (rig_bodies ?h) \<longleftrightarrow> ?B \<le> a \<and> a < ?B + 3 * ?N \<and> (a - ?B) mod 3 = 2"
      by (simp only: built_rig_ptrs set_stride3 [OF two]) simp
    show "w_bodies (release_rig ?h ?w) a = w_bodies w a"
      using fresh [of a] by (simp only: r m built_world_lookup) auto
  qed
  show "w_shapes (release_rig ?h ?w) = w_shapes w"
  proof
    fix a
    have r: "w_shapes (release_rig ?h ?w) a = (if a \<in> set (rig_shapes ?h) then None else w_shapes ?w a)"
      unfolding rel rig_shapes_def release_joints_fields release_elements_fields by (rule refl)
    have m: "a \<in> set (rig_shapes ?h) \<longleftrightarrow> ?B \<le> a \<and> a < ?B + 3 * ?N \<and> (a - ?B) mod 3 = 0"
      by (simp only: built_rig_ptrs set_stride3_0) simp
    show "w_shapes (release_rig ?h ?w) a = w_shapes w a"
      using fresh [of a] by (simp only: r m built_world_lookup) auto
  qed
  show "w_constraints (release_rig ?h ?w) = w_constraints w"
  proof
    fix a show "w_constraints (release_rig ?h ?w) a = w_constraints w a"
      using fresh [of a]
      by (auto simp: rel release_elements_fields release_joints_fields built_world_lookup
          built_rig_ptrs [unfolded rig_joints_def])
  qed
  show "w_rigid (release_rig ?h ?w) = w_rigid w"
  proof -
    have r: "w_rigid (release_rig ?h ?w) = filter (\<lambda>x. fst x \<notin> set (rig_bodies ?h)) (w_rigid ?w)"
      unfolding rel rig_bodies_def release_joints_fields release_elements_fields by (rule refl)
    have old: "\<forall>e \<in> set (w_rigid w). fst e \<notin> set (rig_bodies ?h)"
      using regs(1) by (fastforce simp: built_rig_ptrs)
    show ?thesis
      using old by (simp add: r built_world_fields built_rig_ptrs)
  qed
  show "w_joints (release_rig ?h ?w) = w_joints w"
  proof -
    have r: "w_joints (release_rig ?h ?w) = filter (\<lambda>x. fst x \<notin> set (rig_joints ?h)) (w_joints ?w)"
      unfolding rel rig_joints_def release_joints_fields release_elements_fields by (rule refl)
    have old: "\<forall>e \<in> set (w_joints w). fst e \<notin> set (rig_joints ?h)"
      using regs(2) by (fastforce simp: built_rig_ptrs)
    show ?thesis
      using old by (simp add: r built_world_fields built_rig_ptrs joint_regs_def)
  qed
  show "w_motion (release_rig ?h ?w) = w_motion ?w"
    by (simp add: rel store_simps)
qed

section \<open>Orderings of the calls\<close>

text \<open>C29: an update after a teardown is harmless: the teardown leaves the empty rig,
  on which the update is a no-op (the spec's "no-op on a rig with zero segments").\<close>

theorem Hair_Clear_Update_noop:
  assumes "rig_wf h w"
  shows "\<exists>w'. Hair_Clear (Some h) w = Inr (empty_hair, w') \<and>
     Hair_Update find_room ents (Some empty_hair) w' = Inr (Some empty_hair, w')"
  using Hair_Clear_closed [OF assms] by (simp add: Hair_Update_def empty_hair_def)

text \<open>C30: the builder does not release a rig it is given. Building twice over the same
  rig without a teardown in between succeeds both times, and every body of the first
  rig stays allocated and registered in the world while no pointer of the new rig
  reaches it: the first rig leaks.\<close>

theorem Hair_Create_twice_leaks:
  assumes "parent = Some (eid, ent)" and "setup = Some s"
    and "link_body s < bone_tag_count ent" and "bt_body (bone_tags ent ! link_body s) = Some anchor"
    and "World_GetModelByID models (model s) = Some m"
    and "0 < mesh_count m" and "mesh_count m < 256" and "world_wf w"
  shows "\<exists>h' w' h'' w''. Hair_Create h setup parent models w = Some (Inr (True, h', w')) \<and>
     Hair_Create h' setup parent models w' = Some (Inr (True, h'', w'')) \<and>
     (\<forall>b \<in> set (rig_bodies h'). w_bodies w'' b \<noteq> None \<and> b \<notin> set (rig_bodies h'') \<and>
        (b, COLLISION_GROUP_KINEMATIC, COLLISION_MASK_NONE) \<in> set (w_rigid w''))"
proof -
  let ?B = "w_next w" and ?N = "mesh_count m"
  let ?h1 = "built_hair h s eid ent m ?B" and ?w1 = "built_world s ent anchor m w"
  let ?h2 = "built_hair ?h1 s eid ent m (w_next ?w1)" and ?w2 = "built_world s ent anchor m ?w1"
  have c1: "Hair_Create h setup parent models w = Some (Inr (True, ?h1, ?w1))"
    by (rule Hair_Create_closed [OF assms])
  have c2: "Hair_Create ?h1 setup parent models ?w1 = Some (Inr (True, ?h2, ?w2))"
    by (rule Hair_Create_closed [OF assms(1-7) built_world_wf [OF assms(8)]])
  have old: "w_bodies ?w2 b \<noteq> None \<and> b \<notin> set (rig_bodies ?h2) \<and>
      (b, COLLISION_GROUP_KINEMATIC, COLLISION_MASK_NONE) \<in> set (w_rigid ?w2)"
    if mem: "b \<in> set (rig_bodies ?h1)" for b
  proof -
    obtain i where i: "i < ?N" "b = ?B + 3 * i + 2"
      using mem by (auto simp: built_rig_ptrs)
    have below: "b < w_next ?w1"
      using i by (simp add: built_world_fields)
    have "w_bodies ?w1 b \<noteq> None"
      using built_world_body [OF i(1), of s ent anchor w] i(2) by simp
    moreover have "w_bodies ?w2 b = w_bodies ?w1 b"
      using below by (simp add: built_world_lookup)
    moreover have "b \<notin> set (rig_bodies ?h2)"
      using below by (auto simp: built_rig_ptrs)
    moreover have "(b, COLLISION_GROUP_KINEMATIC, COLLISION_MASK_NONE) \<in> set (w_rigid ?w1)"
      using i by (auto simp: built_world_fields)
    ultimately show ?thesis by (simp add: built_world_fields) blast
  qed
  show ?thesis
    using c1 c2 old by blast
qed

section \<open>Many ticks\<close>

text \<open>One tick on a present rig returns a present rig and only writes two velocities.\<close>

lemma Hair_Update_Some:
  "Hair_Update find_room ents (Some h) w = Inr (r, w') \<Longrightarrow> \<exists>h'. r = Some h'"
  by (auto simp: Hair_Update_def Let_def ub_bind_def split: option.splits if_splits sum.splits)

lemma update_body_frame [store_simps]:
  "dom (w_bodies (update_body b f w)) = dom (w_bodies w)"
  "w_next (update_body b f w) = w_next w" "w_rigid (update_body b f w) = w_rigid w"
  "w_constraints (update_body b f w) = w_constraints w" "w_shapes (update_body b f w) = w_shapes w"
  by (auto simp: update_body_def split: if_splits)

text \<open>C31: the ticks keep the state invariant. Along any number of successful calls of
  \<open>Hair_Update\<close> the world stays well formed and the rig keeps its live, distinct
  pointers; the rig's elements and joints, the set of live bodies, the shapes, the
  constraints, the registrations and the allocation counter never change: the
  updater only writes velocities.\<close>

theorem Hair_Update_ticks_invariant:
  assumes "Hair_Update_ticks find_room ents n (Some h) w = Inr (Some h', w')"
    and "world_wf w" and "rig_wf h w"
  shows "world_wf w' \<and> rig_wf h' w' \<and>
     elements h' = elements h \<and> element_count h' = element_count h \<and>
     joints h' = joints h \<and> joint_count h' = joint_count h \<and>
     dom (w_bodies w') = dom (w_bodies w) \<and> w_shapes w' = w_shapes w \<and>
     w_constraints w' = w_constraints w \<and> w_rigid w' = w_rigid w \<and> w_next w' = w_next w"
  using assms
proof (induction n arbitrary: h w)
  case 0
  then show ?case by simp
next
  case (Suc n)
  obtain r w1 where u: "Hair_Update find_room ents (Some h) w = Inr (r, w1)"
    and rest: "Hair_Update_ticks find_room ents n r w1 = Inr (Some h', w')"
    using Suc.prems(1) by (auto simp: ub_bind_def split: sum.splits)
  obtain h1 where r: "r = Some h1" using Hair_Update_Some [OF u] by blast
  have step: "rig_step (h, w) (h1, w1)" using u r by (auto intro: rig_step.update)
  have inv1: "world_wf w1 \<and> rig_wf h1 w1"
    using rig_step_preserves [OF step] Suc.prems(2,3) by simp
  have fr: "element_count h1 = element_count h \<and> elements h1 = elements h \<and>
      joint_count h1 = joint_count h \<and> joints h1 = joints h \<and>
      dom (w_bodies w1) = dom (w_bodies w) \<and> w_shapes w1 = w_shapes w \<and>
      w_constraints w1 = w_constraints w \<and> w_rigid w1 = w_rigid w \<and> w_next w1 = w_next w"
    using Hair_Update_frame [OF u [unfolded r]] by (elim conjE disjE exE) (simp_all add: store_simps)
  show ?case
    using Suc.IH [OF rest [unfolded r]] inv1 fr by simp
qed

end
