(* ===== verification/Hair_Chain.thy ===== *)
theory Hair_Chain
  imports Hair_Build
begin

text \<open>
  The spec's view of a rig (section 4.1), as an abstract chain: the meshes of the
  segments in order, and for every joint the two nodes it links, a node being the
  owner's anchor or a segment by its index. \<open>chain_spec\<close> is what the builder
  promises: segment \<open>i\<close> bound to mesh \<open>i\<close>, and \<open>joints_per_body\<close> joints per segment,
  those of segment 0 linking the anchor to it and those of segment \<open>i > 0\<close> linking
  segment \<open>i - 1\<close> to it. \<open>chain_of\<close> reads the chain off a concrete rig and world,
  naming a body by the index of the element that owns it; a body of neither is
  \<open>Foreign\<close>. \<open>Hair_Create_refines_chain\<close> is the refinement: on valid input the
  built rig's chain is \<open>chain_spec\<close>.
\<close>

datatype node = Anchor | Seg nat | Foreign nat

record chain =
  ch_meshes :: "base_mesh option list"
  ch_links :: "(node \<times> node) option list"

definition chain_spec :: "hair_setup \<Rightarrow> skeletal_model \<Rightarrow> chain" where
  "chain_spec s m =
     (let J = joints_per_body s in
      \<lparr>ch_meshes = map Some (mesh_tree m),
       ch_links = map (\<lambda>q. Some (if q div J = 0 then Anchor else Seg (q div J - 1), Seg (q div J)))
                      [0..<mesh_count m * J]\<rparr>)"

fun body_index :: "nat \<Rightarrow> hair_element list \<Rightarrow> nat option" where
  "body_index b [] = None"
| "body_index b (e # es) = (if el_body e = Some b then Some 0 else map_option Suc (body_index b es))"

definition node_of :: "nat \<Rightarrow> hair_element list \<Rightarrow> nat \<Rightarrow> node" where
  "node_of anchor es b =
     (if b = anchor then Anchor else case body_index b es of Some i \<Rightarrow> Seg i | None \<Rightarrow> Foreign b)"

definition chain_of :: "nat \<Rightarrow> hair \<Rightarrow> world \<Rightarrow> chain" where
  "chain_of anchor h w =
     \<lparr>ch_meshes = map el_mesh (take (element_count h) (elements h)),
      ch_links = map (\<lambda>p. case p of
                            None \<Rightarrow> None
                          | Some c \<Rightarrow> map_option (\<lambda>k. (node_of anchor (elements h) (c_body_a k),
                                                       node_of anchor (elements h) (c_body_b k)))
                                                  (w_constraints w c))
                     (take (joint_count h) (joints h))\<rparr>"

lemma body_index_nth:
  assumes "i < length es" and "el_body (es ! i) = Some b" and "\<forall>j < i. el_body (es ! j) \<noteq> Some b"
  shows "body_index b es = Some i"
  using assms
proof (induction es arbitrary: i)
  case (Cons e es)
  show ?case
  proof (cases i)
    case 0
    with Cons.prems show ?thesis by simp
  next
    case (Suc k)
    with Cons.prems(3) have "el_body e \<noteq> Some b" by auto
    moreover have "body_index b es = Some k"
      using Cons.prems Suc by (intro Cons.IH) auto
    ultimately show ?thesis using Suc by simp
  qed
qed simp

lemma body_index_seg:
  assumes "i < mesh_count m"
  shows "body_index (B + 3 * i + 2) (map (seg_element m B) [0..<mesh_count m]) = Some i"
  using assms by (intro body_index_nth) (auto simp: seg_element_def)

lemma built_chain_links:
  assumes "q < mesh_count m * joints_per_body s" and "anchor < w_next w"
  shows "map_option (\<lambda>k. (node_of anchor (elements (built_hair h s eid ent m (w_next w))) (c_body_a k),
                          node_of anchor (elements (built_hair h s eid ent m (w_next w))) (c_body_b k)))
           (w_constraints (built_world s ent anchor m w) (w_next w + 3 * mesh_count m + q)) =
         Some (if q div joints_per_body s = 0 then Anchor else Seg (q div joints_per_body s - 1),
               Seg (q div joints_per_body s))"
proof -
  let ?i = "q div joints_per_body s" and ?B = "w_next w"
  have i: "?i < mesh_count m" using assms(1) by (rule seg_index_bound)
  have b: "node_of anchor (elements (built_hair h s eid ent m ?B)) (?B + 3 * ?i + 2) = Seg ?i"
    using i assms(2) body_index_seg [OF i, of ?B, simplified] by (simp add: node_of_def store_simps)
  have a: "node_of anchor (elements (built_hair h s eid ent m ?B)) (?B + 3 * (?i - 1) + 2) = Seg (?i - 1)"
    if "?i \<noteq> 0"
    using i that assms(2) body_index_seg [of "?i - 1" m ?B, simplified] by (simp add: node_of_def store_simps)
  have anc: "node_of anchor es anchor = Anchor" for es by (simp add: node_of_def)
  show ?thesis
  proof (cases "?i = 0")
    case True
    with assms b show ?thesis by (simp add: built_world_constraint joint_con_links anc)
  next
    case False
    with assms a [OF False] b show ?thesis by (simp add: built_world_constraint joint_con_links)
  qed
qed

text \<open>The built rig and world, read through \<open>chain_of\<close>, are the spec's chain.\<close>

lemma built_chain:
  assumes "anchor < w_next w"
  shows "chain_of anchor (built_hair h s eid ent m (w_next w)) (built_world s ent anchor m w) = chain_spec s m"
proof -
  let ?h = "built_hair h s eid ent m (w_next w)" and ?w = "built_world s ent anchor m w"
  have meshes: "map el_mesh (take (element_count ?h) (elements ?h)) = map Some (mesh_tree m)"
    by (simp add: store_simps mesh_count_def) (rule nth_equalityI, simp_all add: seg_element_def)
  have links: "map (\<lambda>p. case p of None \<Rightarrow> None
        | Some c \<Rightarrow> map_option (\<lambda>k. (node_of anchor (elements ?h) (c_body_a k),
                                      node_of anchor (elements ?h) (c_body_b k))) (w_constraints ?w c))
      (take (joint_count ?h) (joints ?h)) =
      map (\<lambda>q. Some (if q div joints_per_body s = 0 then Anchor else Seg (q div joints_per_body s - 1),
                      Seg (q div joints_per_body s))) [0..<mesh_count m * joints_per_body s]"
    using built_chain_links [OF _ assms, of _ m s h eid ent]
    by (simp add: store_simps joint_ptrs_def)
  show ?thesis
    using meshes links by (simp add: chain_of_def chain_spec_def Let_def)
qed

section \<open>The builder refines the chain\<close>

text \<open>C21: on valid input the builder refines the spec's chain: the rig it returns,
  read through \<open>chain_of\<close>, is \<open>chain_spec\<close>: segment \<open>i\<close> bound to mesh \<open>i\<close>, and
  every joint linking the anchor to segment 0 or segment \<open>i - 1\<close> to segment \<open>i\<close>.\<close>

theorem Hair_Create_refines_chain:
  assumes "parent = Some (eid, ent)" and "setup = Some s"
    and "link_body s < bone_tag_count ent" and "bt_body (bone_tags ent ! link_body s) = Some anchor"
    and "World_GetModelByID models (model s) = Some m"
    and "0 < mesh_count m" and "mesh_count m < 256" and "world_wf w"
    and "w_bodies w anchor \<noteq> None"
  shows "\<exists>h' w'. Hair_Create h setup parent models w = Some (Inr (True, h', w')) \<and>
     chain_of anchor h' w' = chain_spec s m"
proof -
  have lt: "anchor < w_next w" using assms(8,9) by (auto simp: world_wf_def)
  show ?thesis
    using Hair_Create_closed [OF assms(1-8)] built_chain [OF lt] by simp
qed

end
