(* ===== verification/Hair_GetSetup.thy ===== *)
theory Hair_GetSetup
  imports Hair_Types
begin

text \<open>
  \<open>Hair_GetSetup\<close> (\<open>hair.cpp\<close>, lines 343--426) fills a \<open>hair_setup_t\<close> from the
  table the script function \<open>getHairSetup(index)\<close> returns. The Lua state is modelled
  by the values the code inspects: a value is nil, a number, a string, a table (an
  association list from string or integer keys, first binding wins) or a function;
  \<open>getHairSetup\<close> is \<open>None\<close> when the global is not a function, and its call returns
  \<open>None\<close> when \<open>lua_CallAndLog\<close> reports an error. \<open>lua_GetScalarField\<close> reads a number
  field and gives \<open>0\<close> for anything else. The C conversions \<open>(uint32_t)\<close> and
  \<open>(uint8_t)\<close> of a \<open>lua_Number\<close> truncate towards zero and are undefined when the
  result does not fit. The stack bookkeeping (\<open>lua_pop\<close>, \<open>lua_settop\<close>) has no
  effect on the result and is not modelled.
\<close>

datatype lua_key = LKStr string | LKInt int

datatype lua_val = LNil | LNum real | LStr string | LTable "(lua_key \<times> lua_val) list" | LFunc

type_synonym lua_table = "(lua_key \<times> lua_val) list"

definition lua_field :: "lua_table \<Rightarrow> lua_key \<Rightarrow> lua_val" where
  "lua_field t k = (case map_of t k of Some v \<Rightarrow> v | None \<Rightarrow> LNil)"

definition lua_GetScalarField :: "lua_table \<Rightarrow> lua_key \<Rightarrow> real" where
  "lua_GetScalarField t k = (case lua_field t k of LNum x \<Rightarrow> x | _ \<Rightarrow> 0)"

text \<open>C's conversion of a floating value to an unsigned type of \<open>bits\<close> bits.\<close>

definition c_trunc :: "real \<Rightarrow> int" where
  "c_trunc x = (if 0 \<le> x then \<lfloor>x\<rfloor> else \<lceil>x\<rceil>)"

definition c_unsigned_cast :: "nat \<Rightarrow> real \<Rightarrow> ub + nat" where
  "c_unsigned_cast bits x =
     (let t = c_trunc x in if 0 \<le> t \<and> t < 2 ^ bits then Inr (nat t) else Inl Cast_out_of_range)"

text \<open>Lines 364--384: the \<open>props\<close> sub-table; the damping pair is read only when the
  \<open>hair_damping\<close> sub-table is there, and its absence is not reported.\<close>

definition read_props :: "lua_table \<Rightarrow> hair_setup \<Rightarrow> ub + hair_setup" where
  "read_props p hs =
     ub_bind (c_unsigned_cast 8 (lua_GetScalarField p (LKStr ''joints_per_body''))) (\<lambda>jpb.
       let hs1 = hs\<lparr>root_weight := lua_GetScalarField p (LKStr ''root_weight''),
                    tail_weight := lua_GetScalarField p (LKStr ''tail_weight''),
                    hair_inertia := lua_GetScalarField p (LKStr ''hair_inertia''),
                    hair_friction := lua_GetScalarField p (LKStr ''hair_friction''),
                    hair_restitution := lua_GetScalarField p (LKStr ''hair_bouncing''),
                    joint_radius := lua_GetScalarField p (LKStr ''joint_radius''),
                    joint_overlap := lua_GetScalarField p (LKStr ''joint_overlap''),
                    joints_per_body := jpb,
                    joint_cfm := lua_GetScalarField p (LKStr ''joint_cfm''),
                    joint_erp := lua_GetScalarField p (LKStr ''joint_erp'')\<rparr>
       in Inr (case lua_field p (LKStr ''hair_damping'') of
                 LTable d \<Rightarrow> hs1\<lparr>hair_damping := (lua_GetScalarField d (LKInt 1), lua_GetScalarField d (LKInt 2))\<rparr>
               | _ \<Rightarrow> hs1))"

text \<open>Lines 389--392, one pass: \<open>head_vertex_map[i-1] = (uint32_t)v_index[i]\<close>; the
  array has the length of the \<open>head_vertex_map\<close> list, and a write past it is
  undefined.\<close>

definition read_vertex :: "lua_table \<Rightarrow> nat \<Rightarrow> hair_setup \<Rightarrow> ub + hair_setup" where
  "read_vertex vi i hs =
     (if length (head_vertex_map hs) \<le> i - 1 then Inl Index_out_of_range
      else ub_bind (c_unsigned_cast 32 (lua_GetScalarField vi (LKInt (int i)))) (\<lambda>v.
             Inr (hs\<lparr>head_vertex_map := (head_vertex_map hs)[i - 1 := v]\<rparr>)))"

text \<open>Lines 400--402 and 410--412: a three-component vector read from \<open>t[1..3]\<close>.\<close>

definition read_vec3 :: "lua_table \<Rightarrow> vec3" where
  "read_vec3 t = Vec3 (lua_GetScalarField t (LKInt 1)) (lua_GetScalarField t (LKInt 2))
                      (lua_GetScalarField t (LKInt 3))"

text \<open>Lines 356--415: the setup table, each sub-table in turn; a missing \<open>props\<close>,
  \<open>v_index\<close>, \<open>offset\<close> or \<open>root_angle\<close> clears \<open>result\<close> and the reading goes on.\<close>

definition read_setup_table :: "lua_table \<Rightarrow> hair_setup \<Rightarrow> ub + bool \<times> hair_setup" where
  "read_setup_table t hs =
     ub_bind (c_unsigned_cast 32 (lua_GetScalarField t (LKStr ''model''))) (\<lambda>mdl.
     ub_bind (c_unsigned_cast 32 (lua_GetScalarField t (LKStr ''link_body''))) (\<lambda>lb.
     ub_bind (c_unsigned_cast 32 (lua_GetScalarField t (LKStr ''v_count''))) (\<lambda>vc.
       let hs1 = hs\<lparr>model := mdl, link_body := lb, vertex_map_count := vc\<rparr> in
       ub_bind (case lua_field t (LKStr ''props'') of
                  LTable p \<Rightarrow> ub_bind (read_props p hs1) (\<lambda>hs2. Inr (True, hs2))
                | _ \<Rightarrow> Inr (False, hs1)) (\<lambda>(r1, hs2).
       ub_bind (case lua_field t (LKStr ''v_index'') of
                  LTable vi \<Rightarrow> ub_bind (ub_loop (read_vertex vi) [1..<Suc (vertex_map_count hs2)] hs2)
                                 (\<lambda>hs3. Inr (True, hs3))
                | _ \<Rightarrow> Inr (False, hs2)) (\<lambda>(r2, hs3).
       let (r3, hs4) = (case lua_field t (LKStr ''offset'') of
                          LTable off \<Rightarrow> (True, hs3\<lparr>head_offset := read_vec3 off\<rparr>)
                        | _ \<Rightarrow> (False, hs3));
           (r4, hs5) = (case lua_field t (LKStr ''root_angle'') of
                          LTable a \<Rightarrow> (True, hs4\<lparr>root_angle := read_vec3 a\<rparr>)
                        | _ \<Rightarrow> (False, hs4))
       in Inr (r1 \<and> r2 \<and> r3 \<and> r4, hs5))))))"

definition Hair_GetSetup ::
  "(nat \<Rightarrow> lua_val option) option \<Rightarrow> nat \<Rightarrow> hair_setup \<Rightarrow> ub + bool \<times> hair_setup" where
  "Hair_GetSetup getHairSetup hair_entry_index hs =
     (case getHairSetup of
        None \<Rightarrow> Inr (False, hs)
      | Some f \<Rightarrow>
          (case f hair_entry_index of
             None \<Rightarrow> Inr (False, hs)
           | Some (LTable t) \<Rightarrow> read_setup_table t hs
           | Some _ \<Rightarrow> Inr (False, hs)))"

text \<open>The C types of the integer fields of \<open>hair_setup_t\<close> that the loader writes:
  \<open>uint32_t\<close> model, link body, vertex count and vertex indices, \<open>uint8_t\<close> joints per
  body.\<close>

section \<open>The loops in closed form\<close>

lemma vertex_loop_closed:
  assumes "n \<le> length (head_vertex_map hs)"
    and "\<And>i. i < n \<Longrightarrow> c_unsigned_cast 32 (lua_GetScalarField vi (LKInt (int (Suc i)))) = Inr (vals i)"
  shows "ub_loop (read_vertex vi) [1..<Suc n] hs =
           Inr (hs\<lparr>head_vertex_map := map vals [0..<n] @ drop n (head_vertex_map hs)\<rparr>)"
proof -
  let ?c = "\<lambda>k. hs\<lparr>head_vertex_map := map vals [0..<k] @ drop k (head_vertex_map hs)\<rparr>"
  have "ub_loop (\<lambda>k. read_vertex vi (Suc k)) [0..<n] (?c 0) = Inr (?c n)"
  proof (rule ub_loop_closed)
    fix k assume k: "k < n"
    then have "k < length (head_vertex_map hs)" using assms(1) by simp
    then show "read_vertex vi (Suc k) (?c k) = Inr (?c (Suc k))"
      using assms(2) [OF k] by (simp add: read_vertex_def update_index_prefix)
  qed
  moreover have "?c 0 = hs" by simp
  ultimately show ?thesis by (simp only: upt_Suc_map ub_loop_map)
qed

lemma vertex_loop_overflow:
  assumes "length (head_vertex_map hs) < n"
    and "\<And>i. i < length (head_vertex_map hs) \<Longrightarrow>
           c_unsigned_cast 32 (lua_GetScalarField vi (LKInt (int (Suc i)))) = Inr (vals i)"
  shows "ub_loop (read_vertex vi) [1..<Suc n] hs = Inl Index_out_of_range"
proof -
  let ?L = "length (head_vertex_map hs)"
  have split: "[1..<Suc n] = [1..<Suc ?L] @ [Suc ?L..<Suc n]"
    using upt_add_eq_append [of 1 "Suc ?L" "n - ?L"] assms(1) by simp
  have first: "ub_loop (read_vertex vi) [1..<Suc ?L] hs =
      Inr (hs\<lparr>head_vertex_map := map vals [0..<?L]\<rparr>)"
    using vertex_loop_closed [OF order_refl assms(2)] by simp
  have rest: "[Suc ?L..<Suc n] = Suc ?L # [Suc (Suc ?L)..<Suc n]"
    using assms(1) by (simp add: upt_rec)
  show ?thesis
    unfolding split ub_loop_append first rest by (simp add: read_vertex_def)
qed


lemma read_props_ok:
  assumes "c_unsigned_cast 8 (lua_GetScalarField p (LKStr ''joints_per_body'')) = Inr jpb"
  shows "read_props p hs = Inr (hs\<lparr>root_weight := lua_GetScalarField p (LKStr ''root_weight''),
      tail_weight := lua_GetScalarField p (LKStr ''tail_weight''),
      hair_inertia := lua_GetScalarField p (LKStr ''hair_inertia''),
      hair_friction := lua_GetScalarField p (LKStr ''hair_friction''),
      hair_restitution := lua_GetScalarField p (LKStr ''hair_bouncing''),
      joint_radius := lua_GetScalarField p (LKStr ''joint_radius''),
      joint_overlap := lua_GetScalarField p (LKStr ''joint_overlap''),
      joints_per_body := jpb,
      joint_cfm := lua_GetScalarField p (LKStr ''joint_cfm''),
      joint_erp := lua_GetScalarField p (LKStr ''joint_erp''),
      hair_damping := (case lua_field p (LKStr ''hair_damping'') of
                         LTable d \<Rightarrow> (lua_GetScalarField d (LKInt 1), lua_GetScalarField d (LKInt 2))
                       | _ \<Rightarrow> hair_damping hs)\<rparr>)"
  using assms by (simp add: read_props_def split: lua_val.split)

lemma read_setup_table_complete:
  assumes "c_unsigned_cast 32 (lua_GetScalarField t (LKStr ''model'')) = Inr mdl"
    and "c_unsigned_cast 32 (lua_GetScalarField t (LKStr ''link_body'')) = Inr lb"
    and "c_unsigned_cast 32 (lua_GetScalarField t (LKStr ''v_count'')) = Inr vc"
    and "lua_field t (LKStr ''props'') = LTable p"
    and "c_unsigned_cast 8 (lua_GetScalarField p (LKStr ''joints_per_body'')) = Inr jpb"
    and "lua_field t (LKStr ''v_index'') = LTable vi"
    and "vc \<le> length (head_vertex_map hs)"
    and "\<And>i. i < vc \<Longrightarrow> c_unsigned_cast 32 (lua_GetScalarField vi (LKInt (int (Suc i)))) = Inr (vals i)"
    and "lua_field t (LKStr ''offset'') = LTable off"
    and "lua_field t (LKStr ''root_angle'') = LTable ang"
  shows "\<exists>hs2. read_props p (hs\<lparr>model := mdl, link_body := lb, vertex_map_count := vc\<rparr>) = Inr hs2 \<and>
    read_setup_table t hs = Inr (True, hs2\<lparr>head_vertex_map := map vals [0..<vc] @ drop vc (head_vertex_map hs),
                                           head_offset := read_vec3 off, root_angle := read_vec3 ang\<rparr>)"
proof -
  let ?hs1 = "hs\<lparr>model := mdl, link_body := lb, vertex_map_count := vc\<rparr>"
  obtain hs2 where rp: "read_props p ?hs1 = Inr hs2"
    and f: "head_vertex_map hs2 = head_vertex_map hs" "vertex_map_count hs2 = vc"
    using read_props_ok [OF assms(5), of ?hs1] by simp
  have loop: "ub_loop (read_vertex vi) [1..<Suc vc] hs2 =
      Inr (hs2\<lparr>head_vertex_map := map vals [0..<vc] @ drop vc (head_vertex_map hs)\<rparr>)"
    using vertex_loop_closed [of vc hs2 vi vals] assms(7,8) f by simp
  show ?thesis
    using rp loop f(2) assms(1-4,6,9,10) by (simp add: read_setup_table_def del: upt_Suc)
qed


text \<open>The fields the builder depends on, from a complete table.\<close>

lemma Hair_GetSetup_complete:
  assumes "getHairSetup = Some f" and "f idx = Some (LTable t)"
    and "c_unsigned_cast 32 (lua_GetScalarField t (LKStr ''model'')) = Inr mdl"
    and "c_unsigned_cast 32 (lua_GetScalarField t (LKStr ''link_body'')) = Inr lb"
    and "c_unsigned_cast 32 (lua_GetScalarField t (LKStr ''v_count'')) = Inr vc"
    and "lua_field t (LKStr ''props'') = LTable p"
    and "c_unsigned_cast 8 (lua_GetScalarField p (LKStr ''joints_per_body'')) = Inr jpb"
    and "lua_field t (LKStr ''v_index'') = LTable vi"
    and "vc \<le> length (head_vertex_map hs)"
    and "\<And>i. i < vc \<Longrightarrow> c_unsigned_cast 32 (lua_GetScalarField vi (LKInt (int (Suc i)))) = Inr (vals i)"
    and "lua_field t (LKStr ''offset'') = LTable off" and "lua_field t (LKStr ''root_angle'') = LTable ang"
  shows "\<exists>hs'. Hair_GetSetup getHairSetup idx hs = Inr (True, hs') \<and>
     model hs' = mdl \<and> link_body hs' = lb \<and> joints_per_body hs' = jpb"
proof -
  obtain hs2 where rp: "read_props p (hs\<lparr>model := mdl, link_body := lb, vertex_map_count := vc\<rparr>) = Inr hs2"
    and r: "read_setup_table t hs = Inr (True, hs2\<lparr>head_vertex_map := map vals [0..<vc] @ drop vc (head_vertex_map hs),
                                           head_offset := read_vec3 off, root_angle := read_vec3 ang\<rparr>)"
    using read_setup_table_complete [OF assms(3-)] by blast
  show ?thesis
    using rp r assms(1,2) read_props_ok [OF assms(7)] by (auto simp: Hair_GetSetup_def)
qed

section \<open>The conversions\<close>

text \<open>A conversion succeeds only inside the target range.\<close>

lemma c_unsigned_cast_out:
  assumes "2 ^ bits \<le> x \<or> x \<le> - 1"
  shows "c_unsigned_cast bits x = Inl Cast_out_of_range"
proof (cases "0 \<le> x")
  case True
  then have "2 ^ bits \<le> x" using assms by linarith
  then have "(2::int) ^ bits \<le> \<lfloor>x\<rfloor>" by (simp add: le_floor_iff)
  then show ?thesis using True by (simp add: c_unsigned_cast_def c_trunc_def)
next
  case False
  moreover have "(0::real) < 2 ^ bits" by simp
  ultimately have "x \<le> - 1" using assms by linarith
  then show ?thesis using False by (simp add: c_unsigned_cast_def c_trunc_def Let_def)
qed

lemma c_unsigned_cast_bound: "c_unsigned_cast bits x = Inr v \<Longrightarrow> v < 2 ^ bits"
  unfolding c_unsigned_cast_def Let_def
  by (cases "0 \<le> c_trunc x \<and> c_trunc x < 2 ^ bits") (auto simp: nat_less_iff)

section \<open>Properties of the loader\<close>

text \<open>C17: the loader never reports success when there is no \<open>getHairSetup\<close>
  function or when the returned table has no \<open>props\<close> sub-table (the spec's
  missing-props scenario); in the first case it changes nothing.\<close>

theorem Hair_GetSetup_no_props:
  "Hair_GetSetup None idx hs = Inr (False, hs) \<and>
   (f idx = Some (LTable t) \<longrightarrow> (\<forall>p. lua_field t (LKStr ''props'') \<noteq> LTable p) \<longrightarrow>
      (\<forall>hs'. Hair_GetSetup (Some f) idx hs \<noteq> Inr (True, hs')))"
  by (auto simp: Hair_GetSetup_def read_setup_table_def ub_bind_def Let_def
      split: sum.splits lua_val.splits prod.splits)

text \<open>C18: from a complete table whose numbers fit their C types and whose vertex
  count fits the vertex map, the loader reports success and fills every field from
  the table: the identifiers, each of the ten scalar fields of the physical profile under
  the key the code reads it from (\<open>hair_bouncing\<close> for the restitution), the damping
  pair when \<open>hair_damping\<close> is a table, the first \<open>v_count\<close> vertex indices, the offset
  and the root angle.\<close>

theorem Hair_GetSetup_reads:
  assumes "getHairSetup = Some f" and "f idx = Some (LTable t)"
    and "c_unsigned_cast 32 (lua_GetScalarField t (LKStr ''model'')) = Inr mdl"
    and "c_unsigned_cast 32 (lua_GetScalarField t (LKStr ''link_body'')) = Inr lb"
    and "c_unsigned_cast 32 (lua_GetScalarField t (LKStr ''v_count'')) = Inr vc"
    and "lua_field t (LKStr ''props'') = LTable p"
    and "c_unsigned_cast 8 (lua_GetScalarField p (LKStr ''joints_per_body'')) = Inr jpb"
    and "lua_field t (LKStr ''v_index'') = LTable vi"
    and "vc \<le> length (head_vertex_map hs)"
    and "\<And>i. i < vc \<Longrightarrow> c_unsigned_cast 32 (lua_GetScalarField vi (LKInt (int (Suc i)))) = Inr (vals i)"
    and "lua_field t (LKStr ''offset'') = LTable off" and "lua_field t (LKStr ''root_angle'') = LTable ang"
  shows "\<exists>hs'. Hair_GetSetup getHairSetup idx hs = Inr (True, hs') \<and>
     model hs' = mdl \<and> link_body hs' = lb \<and> vertex_map_count hs' = vc \<and> joints_per_body hs' = jpb \<and>
     root_weight hs' = lua_GetScalarField p (LKStr ''root_weight'') \<and>
     tail_weight hs' = lua_GetScalarField p (LKStr ''tail_weight'') \<and>
     hair_inertia hs' = lua_GetScalarField p (LKStr ''hair_inertia'') \<and>
     hair_friction hs' = lua_GetScalarField p (LKStr ''hair_friction'') \<and>
     hair_restitution hs' = lua_GetScalarField p (LKStr ''hair_bouncing'') \<and>
     joint_radius hs' = lua_GetScalarField p (LKStr ''joint_radius'') \<and>
     joint_overlap hs' = lua_GetScalarField p (LKStr ''joint_overlap'') \<and>
     joint_cfm hs' = lua_GetScalarField p (LKStr ''joint_cfm'') \<and>
     joint_erp hs' = lua_GetScalarField p (LKStr ''joint_erp'') \<and>
     hair_damping hs' = (case lua_field p (LKStr ''hair_damping'') of
                           LTable d \<Rightarrow> (lua_GetScalarField d (LKInt 1), lua_GetScalarField d (LKInt 2))
                         | _ \<Rightarrow> hair_damping hs) \<and>
     (\<forall>i < vc. head_vertex_map hs' ! i = vals i) \<and>
     length (head_vertex_map hs') = length (head_vertex_map hs) \<and>
     head_offset hs' = read_vec3 off \<and> root_angle hs' = read_vec3 ang"
proof -
  obtain hs2 where rp: "read_props p (hs\<lparr>model := mdl, link_body := lb, vertex_map_count := vc\<rparr>) = Inr hs2"
    and r: "read_setup_table t hs = Inr (True, hs2\<lparr>head_vertex_map := map vals [0..<vc] @ drop vc (head_vertex_map hs),
                                           head_offset := read_vec3 off, root_angle := read_vec3 ang\<rparr>)"
    using read_setup_table_complete [OF assms(3-)] by blast
  show ?thesis
    using rp r assms(1,2,9) read_props_ok [OF assms(7)]
    by (auto simp: Hair_GetSetup_def nth_append split: lua_val.split)
qed

text \<open>C19: a \<open>props\<close> table without a \<open>hair_damping\<close> sub-table is not reported:
  the loader returns success and leaves the damping pair as it was, although the
  spec requires an incomplete configuration to be reported as a failure.\<close>

theorem Hair_GetSetup_damping_unreported:
  assumes "getHairSetup = Some f" and "f idx = Some (LTable t)"
    and "c_unsigned_cast 32 (lua_GetScalarField t (LKStr ''model'')) = Inr mdl"
    and "c_unsigned_cast 32 (lua_GetScalarField t (LKStr ''link_body'')) = Inr lb"
    and "c_unsigned_cast 32 (lua_GetScalarField t (LKStr ''v_count'')) = Inr vc"
    and "lua_field t (LKStr ''props'') = LTable p"
    and "c_unsigned_cast 8 (lua_GetScalarField p (LKStr ''joints_per_body'')) = Inr jpb"
    and "lua_field t (LKStr ''v_index'') = LTable vi"
    and "vc \<le> length (head_vertex_map hs)"
    and "\<And>i. i < vc \<Longrightarrow> c_unsigned_cast 32 (lua_GetScalarField vi (LKInt (int (Suc i)))) = Inr (vals i)"
    and "lua_field t (LKStr ''offset'') = LTable off" and "lua_field t (LKStr ''root_angle'') = LTable ang"
    and "\<forall>d. lua_field p (LKStr ''hair_damping'') \<noteq> LTable d"
  shows "\<exists>hs'. Hair_GetSetup getHairSetup idx hs = Inr (True, hs') \<and> hair_damping hs' = hair_damping hs"
proof -
  obtain hs2 where rp: "read_props p (hs\<lparr>model := mdl, link_body := lb, vertex_map_count := vc\<rparr>) = Inr hs2"
    and r: "read_setup_table t hs = Inr (True, hs2\<lparr>head_vertex_map := map vals [0..<vc] @ drop vc (head_vertex_map hs),
                                           head_offset := read_vec3 off, root_angle := read_vec3 ang\<rparr>)"
    using read_setup_table_complete [OF assms(3-12)] by blast
  show ?thesis
    using rp r assms(1,2,13) read_props_ok [OF assms(7)]
    by (auto simp: Hair_GetSetup_def split: lua_val.splits)
qed

text \<open>C20: the vertex-map loop has no bound: a \<open>v_count\<close> larger than the vertex map
  makes the loader write past the array (undefined behaviour), after filling it.\<close>

theorem Hair_GetSetup_vmap_overflow:
  assumes "getHairSetup = Some f" and "f idx = Some (LTable t)"
    and "c_unsigned_cast 32 (lua_GetScalarField t (LKStr ''model'')) = Inr mdl"
    and "c_unsigned_cast 32 (lua_GetScalarField t (LKStr ''link_body'')) = Inr lb"
    and "c_unsigned_cast 32 (lua_GetScalarField t (LKStr ''v_count'')) = Inr vc"
    and "lua_field t (LKStr ''props'') = LTable p"
    and "c_unsigned_cast 8 (lua_GetScalarField p (LKStr ''joints_per_body'')) = Inr jpb"
    and "lua_field t (LKStr ''v_index'') = LTable vi"
    and "length (head_vertex_map hs) < vc"
    and "\<And>i. i < length (head_vertex_map hs) \<Longrightarrow>
           c_unsigned_cast 32 (lua_GetScalarField vi (LKInt (int (Suc i)))) = Inr (vals i)"
  shows "Hair_GetSetup getHairSetup idx hs = Inl Index_out_of_range"
proof -
  obtain hs2 where rp: "read_props p (hs\<lparr>model := mdl, link_body := lb, vertex_map_count := vc\<rparr>) = Inr hs2"
    and f: "head_vertex_map hs2 = head_vertex_map hs" "vertex_map_count hs2 = vc"
    using read_props_ok [OF assms(7), of "hs\<lparr>model := mdl, link_body := lb, vertex_map_count := vc\<rparr>"] by simp
  have "ub_loop (read_vertex vi) [1..<Suc vc] hs2 = Inl Index_out_of_range"
    using vertex_loop_overflow [of hs2 vc vi vals] assms(9,10) f by simp
  then show ?thesis
    using rp f(2) assms(1-6,8) by (simp add: Hair_GetSetup_def read_setup_table_def del: upt_Suc)
qed

text \<open>C28: a \<open>joints_per_body\<close> the script gives outside \<open>0 .. 255\<close> (after truncation)
  makes the \<open>(uint8_t)\<close> conversion of line 372 undefined: the loader has no range check,
  and a negative count, or one of 256 and more, is undefined behaviour rather than a
  reported failure.\<close>

theorem Hair_GetSetup_jpb_out_of_range:
  assumes "getHairSetup = Some f" and "f idx = Some (LTable t)"
    and "c_unsigned_cast 32 (lua_GetScalarField t (LKStr ''model'')) = Inr mdl"
    and "c_unsigned_cast 32 (lua_GetScalarField t (LKStr ''link_body'')) = Inr lb"
    and "c_unsigned_cast 32 (lua_GetScalarField t (LKStr ''v_count'')) = Inr vc"
    and "lua_field t (LKStr ''props'') = LTable p"
    and "256 \<le> lua_GetScalarField p (LKStr ''joints_per_body'') \<or>
         lua_GetScalarField p (LKStr ''joints_per_body'') \<le> - 1"
  shows "Hair_GetSetup getHairSetup idx hs = Inl Cast_out_of_range"
proof -
  have "c_unsigned_cast 8 (lua_GetScalarField p (LKStr ''joints_per_body'')) = Inl Cast_out_of_range"
    using assms(7) by (intro c_unsigned_cast_out) simp
  then show ?thesis
    using assms(1-6) by (simp add: Hair_GetSetup_def read_setup_table_def read_props_def)
qed

text \<open>C32: a reported failure still writes. Without a \<open>v_index\<close> sub-table the
  loader returns \<open>false\<close>, but the identifiers, \<open>joints_per_body\<close> and the nine other
  scalar fields read from \<open>props\<close> are already in the caller's setup: a failed load
  leaves a half-overwritten configuration, not the one the caller had.\<close>

theorem Hair_GetSetup_partial_failure:
  assumes "getHairSetup = Some f" and "f idx = Some (LTable t)"
    and "c_unsigned_cast 32 (lua_GetScalarField t (LKStr ''model'')) = Inr mdl"
    and "c_unsigned_cast 32 (lua_GetScalarField t (LKStr ''link_body'')) = Inr lb"
    and "c_unsigned_cast 32 (lua_GetScalarField t (LKStr ''v_count'')) = Inr vc"
    and "lua_field t (LKStr ''props'') = LTable p"
    and "c_unsigned_cast 8 (lua_GetScalarField p (LKStr ''joints_per_body'')) = Inr jpb"
    and "\<forall>vi. lua_field t (LKStr ''v_index'') \<noteq> LTable vi"
  shows "\<exists>hs'. Hair_GetSetup getHairSetup idx hs = Inr (False, hs') \<and>
     model hs' = mdl \<and> link_body hs' = lb \<and> vertex_map_count hs' = vc \<and> joints_per_body hs' = jpb \<and>
     root_weight hs' = lua_GetScalarField p (LKStr ''root_weight'') \<and>
     tail_weight hs' = lua_GetScalarField p (LKStr ''tail_weight'') \<and>
     hair_inertia hs' = lua_GetScalarField p (LKStr ''hair_inertia'') \<and>
     hair_friction hs' = lua_GetScalarField p (LKStr ''hair_friction'') \<and>
     hair_restitution hs' = lua_GetScalarField p (LKStr ''hair_bouncing'') \<and>
     joint_radius hs' = lua_GetScalarField p (LKStr ''joint_radius'') \<and>
     joint_overlap hs' = lua_GetScalarField p (LKStr ''joint_overlap'') \<and>
     joint_cfm hs' = lua_GetScalarField p (LKStr ''joint_cfm'') \<and>
     joint_erp hs' = lua_GetScalarField p (LKStr ''joint_erp'') \<and>
     head_vertex_map hs' = head_vertex_map hs"
proof -
  let ?hs1 = "hs\<lparr>model := mdl, link_body := lb, vertex_map_count := vc\<rparr>"
  obtain hs2 where rp: "read_props p ?hs1 = Inr hs2"
    and f: "model hs2 = mdl" "link_body hs2 = lb" "vertex_map_count hs2 = vc" "joints_per_body hs2 = jpb"
      "root_weight hs2 = lua_GetScalarField p (LKStr ''root_weight'')"
      "tail_weight hs2 = lua_GetScalarField p (LKStr ''tail_weight'')"
      "hair_inertia hs2 = lua_GetScalarField p (LKStr ''hair_inertia'')"
      "hair_friction hs2 = lua_GetScalarField p (LKStr ''hair_friction'')"
      "hair_restitution hs2 = lua_GetScalarField p (LKStr ''hair_bouncing'')"
      "joint_radius hs2 = lua_GetScalarField p (LKStr ''joint_radius'')"
      "joint_overlap hs2 = lua_GetScalarField p (LKStr ''joint_overlap'')"
      "joint_cfm hs2 = lua_GetScalarField p (LKStr ''joint_cfm'')"
      "joint_erp hs2 = lua_GetScalarField p (LKStr ''joint_erp'')"
      "head_vertex_map hs2 = head_vertex_map hs"
    using read_props_ok [OF assms(7), of ?hs1] by simp
  have nv: "(case lua_field t (LKStr ''v_index'') of
               LTable vi \<Rightarrow> ub_bind (ub_loop (read_vertex vi) [1..<Suc (vertex_map_count hs2)] hs2) (\<lambda>hs3. Inr (True, hs3))
             | _ \<Rightarrow> Inr (False, hs2)) = Inr (False, hs2)"
    using assms(8) by (cases "lua_field t (LKStr ''v_index'')") simp_all
  have "\<exists>hs'. read_setup_table t hs = Inr (False, hs') \<and> model hs' = mdl \<and> link_body hs' = lb \<and>
      vertex_map_count hs' = vc \<and> joints_per_body hs' = jpb \<and>
      root_weight hs' = lua_GetScalarField p (LKStr ''root_weight'') \<and>
      tail_weight hs' = lua_GetScalarField p (LKStr ''tail_weight'') \<and>
      hair_inertia hs' = lua_GetScalarField p (LKStr ''hair_inertia'') \<and>
      hair_friction hs' = lua_GetScalarField p (LKStr ''hair_friction'') \<and>
      hair_restitution hs' = lua_GetScalarField p (LKStr ''hair_bouncing'') \<and>
      joint_radius hs' = lua_GetScalarField p (LKStr ''joint_radius'') \<and>
      joint_overlap hs' = lua_GetScalarField p (LKStr ''joint_overlap'') \<and>
      joint_cfm hs' = lua_GetScalarField p (LKStr ''joint_cfm'') \<and>
      joint_erp hs' = lua_GetScalarField p (LKStr ''joint_erp'') \<and>
      head_vertex_map hs' = head_vertex_map hs"
    using assms(3-6) rp nv f
    by (simp add: read_setup_table_def Let_def split: lua_val.split del: upt_Suc)
  then show ?thesis using assms(1,2) by (simp add: Hair_GetSetup_def)
qed

end
