(* ===== verification/Hair_Scenarios.thy ===== *)
theory Hair_Scenarios
  imports Hair_Chain Hair_Clear Hair_Update Hair_GetSetup
begin

text \<open>
  Concrete inputs for the end-to-end scenarios of the spec (section 8), and the witness
  theorems that apply each hypothesised property of the development at one of them:
  an owner with a single bone whose body sits at address 0 of the world, a model
  \<open>7\<close> of three meshes, a model \<open>8\<close> of 256 meshes, and the tuning profile of the
  spec's scenario (one joint per segment, weights from 1.0 down to 0.1).
\<close>

definition ex_mesh :: "nat \<Rightarrow> base_mesh" where
  "ex_mesh k = \<lparr>mesh_id = k, bb_min = (\<lambda>_. 0), bb_max = (\<lambda>a. if a = 1 then 2 else 1)\<rparr>"

definition ex_owner :: entity where
  "ex_owner = \<lparr>e_transform = (\<lambda>_. 0), bone_tags = [\<lparr>full_transform = (\<lambda>_. 0), bt_body = Some 0\<rparr>]\<rparr>"

definition ex_models :: "nat \<rightharpoonup> skeletal_model" where
  "ex_models = [7 \<mapsto> \<lparr>model_id = 7, mesh_tree = map ex_mesh [0, 1, 2]\<rparr>,
                8 \<mapsto> \<lparr>model_id = 8, mesh_tree = replicate 256 (ex_mesh 0)\<rparr>]"

definition ex_setup :: hair_setup where
  "ex_setup =
     \<lparr>model = 7, link_body = 0, vertex_map_count = 0, root_weight = 1, tail_weight = 0.1,
      hair_inertia = 1, hair_friction = 0.5, hair_restitution = 0.1, joint_radius = 1,
      joint_overlap = 0.9, joints_per_body = 1, joint_cfm = 0.1, joint_erp = 0.9,
      hair_damping = (0.2, 0.3), head_vertex_map = [], head_offset = Vec3 0 0 0,
      root_angle = Vec3 0 0 0\<rparr>"

definition ex_world :: world where
  "ex_world =
     \<lparr>w_gravity = Vec3 0 0 (- 10), w_bodies = [0 \<mapsto> new_btRigidBody 1 0 0 0],
      w_shapes = Map.empty, w_motion = Map.empty, w_constraints = Map.empty, w_next = 1,
      w_rigid = [], w_joints = []\<rparr>"

text \<open>A one-segment rig as the teardown finds it: body 1 with shape 0 (and motion
  state 0's neighbour), constraint 2 hanging it from the owner's body 0, all registered.\<close>

definition ex_frame :: frame where
  "ex_frame = \<lparr>fr_origin = 0, fr_euler = 0\<rparr>"

definition ex_rig :: hair where
  "ex_rig = empty_hair\<lparr>element_count := 1,
     elements := [\<lparr>el_mesh = None, el_body = Some 1, el_shape = Some 0\<rparr>],
     joint_count := 1, joints := [Some 2]\<rparr>"

definition ex_rig_world :: world where
  "ex_rig_world = ex_world\<lparr>w_shapes := [0 \<mapsto> \<lparr>cs_mesh = 0, cs_static = False\<rparr>],
     w_bodies := [0 \<mapsto> new_btRigidBody 1 0 0 0, 1 \<mapsto> new_btRigidBody 1 0 0 0],
     w_constraints := [2 \<mapsto> new_btGeneric6DofConstraint 0 1 ex_frame ex_frame True],
     w_next := 3, w_rigid := [(1, COLLISION_GROUP_KINEMATIC, COLLISION_MASK_NONE)],
     w_joints := [(2, True)]\<rparr>"

text \<open>An owner with fifteen bones (the updater reads bone 14), all at the origin, the
  owner's body at address 0; and the one-segment rig of above attached to it, its
  cached pose one unit along \<open>x\<close> from where the owner now is.\<close>

definition ex_owner15 :: entity where
  "ex_owner15 = \<lparr>e_transform = (\<lambda>_. 0),
     bone_tags = replicate 15 \<lparr>full_transform = (\<lambda>_. 0), bt_body = Some 0\<rparr>\<rparr>"

definition ex_moving_rig :: hair where
  "ex_moving_rig = ex_rig\<lparr>owner_char := Some 5,
     container := Some \<lparr>room = None, object_type = OBJECT_HAIR\<rparr>,
     owner_char_pos := Vec3 1 0 0, owner_body_pos := Vec3 1 0 0\<rparr>"

definition ex_still_rig :: hair where
  "ex_still_rig = ex_moving_rig\<lparr>owner_char_pos := 0, owner_body_pos := 0\<rparr>"

text \<open>An owner at rest whose link bone 0 sits one unit along \<open>x\<close> from bone 14.\<close>

definition ex_owner_bent :: entity where
  "ex_owner_bent = \<lparr>e_transform = (\<lambda>_. 0),
     bone_tags = \<lparr>full_transform = (\<lambda>k. if k = 12 then 1 else 0), bt_body = Some 0\<rparr> #
       replicate 14 \<lparr>full_transform = (\<lambda>_. 0), bt_body = Some 0\<rparr>\<rparr>"

text \<open>Script values for the loader: the \<open>props\<close> sub-table with or without \<open>hair_damping\<close>,
  and the setup table with a given \<open>v_count\<close>, with or without \<open>props\<close>; the vertex map has
  room for three indices.\<close>

definition ex_props :: "bool \<Rightarrow> lua_table" where
  "ex_props damping =
     [(LKStr ''root_weight'', LNum 1), (LKStr ''tail_weight'', LNum (1 / 10)),
      (LKStr ''hair_bouncing'', LNum (1 / 10)), (LKStr ''joints_per_body'', LNum 1),
      (LKStr ''joint_cfm'', LNum (1 / 10)), (LKStr ''joint_erp'', LNum (9 / 10))] @
     (if damping then [(LKStr ''hair_damping'', LTable [(LKInt 1, LNum (2 / 10)), (LKInt 2, LNum (3 / 10))])]
      else [])"

definition ex_lua_setup :: "nat \<Rightarrow> bool \<Rightarrow> bool \<Rightarrow> lua_table" where
  "ex_lua_setup vc props damping =
     [(LKStr ''model'', LNum 7), (LKStr ''link_body'', LNum 0), (LKStr ''v_count'', LNum (real vc))] @
     (if props then [(LKStr ''props'', LTable (ex_props damping))] else []) @
     [(LKStr ''v_index'', LTable [(LKInt 1, LNum 5), (LKInt 2, LNum 9)]),
      (LKStr ''offset'', LTable [(LKInt 1, LNum 0), (LKInt 2, LNum 1), (LKInt 3, LNum 0)]),
      (LKStr ''root_angle'', LTable [])]"

definition ex_script :: "lua_table \<Rightarrow> (nat \<Rightarrow> lua_val option) option" where
  "ex_script t = Some (\<lambda>_. Some (LTable t))"

definition ex_setup_vm :: hair_setup where
  "ex_setup_vm = ex_setup\<lparr>head_vertex_map := [0, 0, 0]\<rparr>"

lemmas ex_defs = ex_owner_def ex_models_def ex_setup_def ex_world_def bone_tag_count_def
  World_GetModelByID_def mesh_count_def

section \<open>Witnesses: the builder\<close>

text \<open>Anchor bone index 3 on a one-bone owner: rejected, nothing changed.\<close>

theorem Hair_Create_rejects_witness:
  "bone_tag_count ex_owner \<le> link_body (ex_setup\<lparr>link_body := 3\<rparr>) \<and>
   Hair_Create empty_hair (Some (ex_setup\<lparr>link_body := 3\<rparr>)) (Some (5, ex_owner)) ex_models ex_world
     = Some (Inr (False, empty_hair, ex_world))"
proof -
  have bad: "bone_tag_count ex_owner \<le> link_body (ex_setup\<lparr>link_body := 3\<rparr>)"
    by (simp add: ex_defs)
  have "Hair_Create empty_hair (Some (ex_setup\<lparr>link_body := 3\<rparr>)) (Some (5, ex_owner)) ex_models ex_world
     = Some (Inr (False, empty_hair, ex_world))"
    by (rule Hair_Create_rejects) (use bad in blast)
  with bad show ?thesis by blast
qed

theorem Hair_Create_returns_witness:
  "mesh_count (the (ex_models 7)) < 256 \<and>
   (\<exists>r. Hair_Create empty_hair (Some ex_setup) (Some (5, ex_owner)) ex_models ex_world = Some r)"
proof -
  have "\<forall>s m. Some ex_setup = Some s \<longrightarrow> World_GetModelByID ex_models (model s) = Some m \<longrightarrow>
      mesh_count m < 256"
    by (simp add: ex_defs)
  then have "\<exists>r. Hair_Create empty_hair (Some ex_setup) (Some (5, ex_owner)) ex_models ex_world = Some r"
    by (rule Hair_Create_returns)
  moreover have "mesh_count (the (ex_models 7)) < 256" by (simp add: ex_defs)
  ultimately show ?thesis by blast
qed

theorem Hair_Create_diverges_witness:
  "256 \<le> mesh_count (the (ex_models 8)) \<and>
   Hair_Create empty_hair (Some (ex_setup\<lparr>model := 8\<rparr>)) (Some (5, ex_owner)) ex_models ex_world = None"
proof -
  have "Hair_Create empty_hair (Some (ex_setup\<lparr>model := 8\<rparr>)) (Some (5, ex_owner)) ex_models ex_world = None"
    by (rule Hair_Create_diverges [where eid = 5 and ent = ex_owner and m = "the (ex_models 8)"
        and s = "ex_setup\<lparr>model := 8\<rparr>"])
      (simp_all add: ex_defs)
  moreover have "256 \<le> mesh_count (the (ex_models 8))" by (simp add: ex_defs)
  ultimately show ?thesis by blast
qed

lemma ex_world_wf: "world_wf ex_world"
  by (simp add: world_wf_def ex_world_def)
lemma ex_hyps:
  assumes "link_body s = 0" "model s = 7"
  shows "link_body s < bone_tag_count ex_owner" "bt_body (bone_tags ex_owner ! link_body s) = Some 0"
    "World_GetModelByID ex_models (model s) = Some (the (ex_models 7))"
    "0 < mesh_count (the (ex_models 7))" "mesh_count (the (ex_models 7)) < 256"
  using assms by (simp_all add: ex_defs)
lemma ex_count: "mesh_count (the (ex_models 7)) = 3"
  by (simp add: ex_defs)
theorem Hair_Create_builds_witness:
  "world_wf ex_world \<and>
   (\<exists>h' w'. Hair_Create empty_hair (Some ex_setup) (Some (5, ex_owner)) ex_models ex_world
        = Some (Inr (True, h', w')) \<and>
      element_count h' = 3 \<and> joint_count h' = 3 \<and> root_index h' = 0 \<and> tail_index h' = 2 \<and>
      owner_char h' = Some 5)"
proof -
  have "link_body ex_setup = 0" "model ex_setup = 7" "joints_per_body ex_setup = 1" by (simp_all add: ex_setup_def)
  note H = ex_hyps [OF this(1,2)]
  show ?thesis
    using Hair_Create_builds [where h = empty_hair and eid = 5, OF refl refl H ex_world_wf] ex_world_wf
    unfolding ex_count \<open>joints_per_body ex_setup = 1\<close> by auto
qed

lemma ex_setup_fields:
  "link_body ex_setup = 0" "model ex_setup = 7" "joints_per_body ex_setup = 1"
  "root_weight ex_setup = 1" "tail_weight ex_setup = 1 / 10" "joint_cfm ex_setup = 1 / 10"
  by (simp_all add: ex_setup_def)

theorem Hair_Create_masses_witness:
  "world_wf ex_world \<and>
   (\<exists>h' w'. Hair_Create empty_hair (Some ex_setup) (Some (5, ex_owner)) ex_models ex_world
        = Some (Inr (True, h', w')) \<and>
      (\<exists>b rb. el_body (elements h' ! 0) = Some b \<and> w_bodies w' b = Some rb \<and> rb_mass rb = 7 / 10) \<and>
      (\<exists>b rb. el_body (elements h' ! 2) = Some b \<and> w_bodies w' b = Some rb \<and> rb_mass rb = 1 / 10))"
proof -
  note H = ex_hyps [OF ex_setup_fields(1,2)]
  obtain h' w' where r: "Hair_Create empty_hair (Some ex_setup) (Some (5, ex_owner)) ex_models ex_world
        = Some (Inr (True, h', w'))"
    and each: "\<forall>i < 3. \<exists>b rb. el_body (elements h' ! i) = Some b \<and> w_bodies w' b = Some rb \<and>
        rb_mass rb = 1 - real (Suc i) * ((1 - 1 / 10) / 3) \<and>
        rb_inertia_mass rb = (1 - real i * ((1 - 1 / 10) / 3)) * hair_inertia ex_setup"
    and tail: "\<exists>b rb. el_body (elements h' ! 2) = Some b \<and> w_bodies w' b = Some rb \<and> rb_mass rb = 1 / 10"
    using Hair_Create_masses [where h = empty_hair and eid = 5, OF refl refl H ex_world_wf]
    unfolding ex_count ex_setup_fields by auto
  from each have "\<exists>b rb. el_body (elements h' ! 0) = Some b \<and> w_bodies w' b = Some rb \<and> rb_mass rb = 7 / 10"
    by (drule_tac x = 0 in spec) auto
  with r tail ex_world_wf show ?thesis by blast
qed

theorem Hair_Create_links_witness:
  "world_wf ex_world \<and>
   (\<exists>h' w'. Hair_Create empty_hair (Some ex_setup) (Some (5, ex_owner)) ex_models ex_world
        = Some (Inr (True, h', w')) \<and>
      (\<exists>a c. joints h' ! 0 = Some a \<and> w_constraints w' a = Some c \<and> c_body_a c = 0) \<and>
      (\<exists>a c. joints h' ! 1 = Some a \<and> w_constraints w' a = Some c \<and>
         Some (c_body_a c) = el_body (elements h' ! 0) \<and> Some (c_body_b c) = el_body (elements h' ! 1)))"
proof -
  note H = ex_hyps [OF ex_setup_fields(1,2)]
  obtain h' w' where r: "Hair_Create empty_hair (Some ex_setup) (Some (5, ex_owner)) ex_models ex_world
        = Some (Inr (True, h', w'))"
    and each: "\<forall>q < 3. \<exists>a c. joints h' ! q = Some a \<and> w_constraints w' a = Some c \<and>
        (a, True) \<in> set (w_joints w') \<and>
        Some (c_body_b c) = el_body (elements h' ! q) \<and>
        Some (c_body_a c) = (if q = 0 then Some 0 else el_body (elements h' ! (q - 1)))"
    using Hair_Create_links [where h = empty_hair and eid = 5, OF refl refl H ex_world_wf]
    unfolding ex_count ex_setup_fields div_by_1 by auto
  from each have "\<exists>a c. joints h' ! 0 = Some a \<and> w_constraints w' a = Some c \<and> c_body_a c = 0"
    by (drule_tac x = 0 in spec) auto
  moreover from each have "\<exists>a c. joints h' ! 1 = Some a \<and> w_constraints w' a = Some c \<and>
         Some (c_body_a c) = el_body (elements h' ! 0) \<and> Some (c_body_b c) = el_body (elements h' ! 1)"
    by (drule_tac x = 1 in spec) auto
  ultimately show ?thesis using r ex_world_wf by blast
qed

theorem Hair_Create_joint_limits_witness:
  "world_wf ex_world \<and>
   (\<exists>h' w'. Hair_Create empty_hair (Some ex_setup) (Some (5, ex_owner)) ex_models ex_world
        = Some (Inr (True, h', w')) \<and>
      (\<exists>a c. joints h' ! 0 = Some a \<and> w_constraints w' a = Some c \<and> c_solver_iters c = 100 \<and>
         c_ang_upper c = Vec3 (- (pi / 2) * 0.3) 0 ((pi / 2) * 0.4)) \<and>
      (\<exists>a c. joints h' ! 1 = Some a \<and> w_constraints w' a = Some c \<and> c_solver_iters c = - 1 \<and>
         c_ang_upper c = Vec3 ((pi / 2) * 0.5) 0 ((pi / 2) * 0.5)))"
proof -
  note H = ex_hyps [OF ex_setup_fields(1,2)]
  obtain h' w' where r: "Hair_Create empty_hair (Some ex_setup) (Some (5, ex_owner)) ex_models ex_world
        = Some (Inr (True, h', w'))"
    and each: "\<forall>q < 3. \<exists>a c. joints h' ! q = Some a \<and> w_constraints w' a = Some c \<and>
        c_lin_lower c = Vec3 0 0 0 \<and> c_lin_upper c = Vec3 0 0 0 \<and>
        (if q = 0 then
           c_ang_lower c = Vec3 (- (pi / 2)) 0 (- (pi / 2) * 0.4) \<and>
           c_ang_upper c = Vec3 (- (pi / 2) * 0.3) 0 ((pi / 2) * 0.4) \<and> c_solver_iters c = 100
         else
           c_ang_lower c = Vec3 (- (pi / 2) * 0.5) 0 (- (pi / 2) * 0.5) \<and>
           c_ang_upper c = Vec3 ((pi / 2) * 0.5) 0 ((pi / 2) * 0.5) \<and> c_solver_iters c = - 1)"
    using Hair_Create_joint_limits [where h = empty_hair and eid = 5, OF refl refl H ex_world_wf]
    unfolding ex_count ex_setup_fields div_by_1 by auto
  from each have "\<exists>a c. joints h' ! 0 = Some a \<and> w_constraints w' a = Some c \<and> c_solver_iters c = 100 \<and>
         c_ang_upper c = Vec3 (- (pi / 2) * 0.3) 0 ((pi / 2) * 0.4)"
    by (drule_tac x = 0 in spec) auto
  moreover from each have "\<exists>a c. joints h' ! 1 = Some a \<and> w_constraints w' a = Some c \<and> c_solver_iters c = - 1 \<and>
         c_ang_upper c = Vec3 ((pi / 2) * 0.5) 0 ((pi / 2) * 0.5)"
    by (drule_tac x = 1 in spec) auto
  ultimately show ?thesis using r ex_world_wf by blast
qed

theorem Hair_Create_joint_placement_witness:
  "world_wf ex_world \<and>
   (\<exists>h' w'. Hair_Create empty_hair (Some (ex_setup\<lparr>joints_per_body := 2\<rparr>)) (Some (5, ex_owner))
        ex_models ex_world = Some (Inr (True, h', w')) \<and>
      (\<exists>a c. joints h' ! 0 = Some a \<and> w_constraints w' a = Some c \<and>
         c_frame_b c = \<lparr>fr_origin = Vec3 (1 / 2) 0 0, fr_euler = Vec3 0 (- (pi / 2)) 0\<rparr>))"
proof -
  have f: "link_body (ex_setup\<lparr>joints_per_body := 2\<rparr>) = 0" "model (ex_setup\<lparr>joints_per_body := 2\<rparr>) = 7"
    "joints_per_body (ex_setup\<lparr>joints_per_body := 2\<rparr>) = 2"
    "joint_radius (ex_setup\<lparr>joints_per_body := 2\<rparr>) = 1"
    by (simp_all add: ex_setup_def)
  note H = ex_hyps [OF f(1,2)]
  obtain h' w' where r: "Hair_Create empty_hair (Some (ex_setup\<lparr>joints_per_body := 2\<rparr>)) (Some (5, ex_owner))
        ex_models ex_world = Some (Inr (True, h', w'))"
    and each: "\<forall>q < 6. \<exists>a c. joints h' ! q = Some a \<and> w_constraints w' a = Some c \<and>
        c_frame_b c = \<lparr>fr_origin = Vec3 ((- 1) ^ (q mod 2) *
             \<bar>bb_max (mesh_tree (the (ex_models 7)) ! (q div 2)) 3 -
              bb_min (mesh_tree (the (ex_models 7)) ! (q div 2)) 3\<bar> / 2) 0 0,
           fr_euler = (if q div 2 = 0 then Vec3 0 (- (pi / 2)) 0 else Vec3 0 (pi / 2) 0)\<rparr>"
    using Hair_Create_joint_placement [where h = empty_hair and eid = 5, OF refl refl H ex_world_wf]
    unfolding ex_count f Let_def by simp blast
  from each have "\<exists>a c. joints h' ! 0 = Some a \<and> w_constraints w' a = Some c \<and>
         c_frame_b c = \<lparr>fr_origin = Vec3 (1 / 2) 0 0, fr_euler = Vec3 0 (- (pi / 2)) 0\<rparr>"
    by (drule_tac x = 0 in spec) (simp add: ex_models_def ex_mesh_def)
  then show ?thesis using r ex_world_wf by blast
qed

theorem Hair_Create_no_joints_witness:
  "world_wf ex_world \<and> joints_per_body (ex_setup\<lparr>joints_per_body := 0\<rparr>) = 0 \<and>
   (\<exists>h' w'. Hair_Create empty_hair (Some (ex_setup\<lparr>joints_per_body := 0\<rparr>)) (Some (5, ex_owner))
        ex_models ex_world = Some (Inr (True, h', w')) \<and>
      element_count h' = 3 \<and> joint_count h' = 0 \<and> w_constraints w' = Map.empty)"
proof -
  have f: "link_body (ex_setup\<lparr>joints_per_body := 0\<rparr>) = 0" "model (ex_setup\<lparr>joints_per_body := 0\<rparr>) = 7"
    "joints_per_body (ex_setup\<lparr>joints_per_body := 0\<rparr>) = 0"
    by (simp_all add: ex_setup_def)
  note H = ex_hyps [OF f(1,2)]
  show ?thesis
    using Hair_Create_no_joints [where h = empty_hair and eid = 5, OF refl refl H ex_world_wf f(3)]
      ex_world_wf f(3) unfolding ex_count by (simp add: ex_world_def) blast
qed

theorem Hair_Create_softness_witness:
  "world_wf ex_world \<and>
   (\<exists>h' w'. Hair_Create empty_hair (Some (ex_setup\<lparr>joints_per_body := 2\<rparr>)) (Some (5, ex_owner))
        ex_models ex_world = Some (Inr (True, h', w')) \<and>
      (\<exists>a c. joints h' ! 0 = Some a \<and> w_constraints w' a = Some c \<and> c_stop_cfm c 0 = Some (1 / 10)) \<and>
      (\<exists>a c. joints h' ! 3 = Some a \<and> w_constraints w' a = Some c \<and> c_stop_cfm c 0 = None))"
proof -
  have f: "link_body (ex_setup\<lparr>joints_per_body := 2\<rparr>) = 0" "model (ex_setup\<lparr>joints_per_body := 2\<rparr>) = 7"
    "joints_per_body (ex_setup\<lparr>joints_per_body := 2\<rparr>) = 2"
    "joint_cfm (ex_setup\<lparr>joints_per_body := 2\<rparr>) = 1 / 10"
    "joint_erp (ex_setup\<lparr>joints_per_body := 2\<rparr>) = joint_erp ex_setup"
    by (simp_all add: ex_setup_fields)
  note H = ex_hyps [OF f(1,2)]
  obtain h' w' where r: "Hair_Create empty_hair (Some (ex_setup\<lparr>joints_per_body := 2\<rparr>)) (Some (5, ex_owner))
        ex_models ex_world = Some (Inr (True, h', w'))"
    and each: "\<forall>q < 6. \<exists>a c. joints h' ! q = Some a \<and> w_constraints w' a = Some c \<and>
        (\<forall>ax. c_stop_cfm c ax = (if q < 3 \<and> ax < 6 then Some (1 / 10) else None)) \<and>
        (\<forall>ax. c_stop_erp c ax = (if q < 3 \<and> ax < 6 then Some (joint_erp ex_setup) else None))"
    using Hair_Create_softness [where h = empty_hair and eid = 5, OF refl refl H ex_world_wf]
    unfolding ex_count f by simp blast
  from each have "\<exists>a c. joints h' ! 0 = Some a \<and> w_constraints w' a = Some c \<and> c_stop_cfm c 0 = Some (1 / 10)"
    by (drule_tac x = 0 in spec) auto
  moreover from each have "\<exists>a c. joints h' ! 3 = Some a \<and> w_constraints w' a = Some c \<and> c_stop_cfm c 0 = None"
    by (drule_tac x = 3 in spec) auto
  ultimately show ?thesis using r ex_world_wf by blast
qed

theorem Hair_Create_body_setup_witness:
  "world_wf ex_world \<and>
   (\<exists>h' w'. Hair_Create empty_hair (Some ex_setup) (Some (5, ex_owner)) ex_models ex_world
        = Some (Inr (True, h', w')) \<and>
      (\<exists>b rb. el_body (elements h' ! 0) = Some b \<and> w_bodies w' b = Some rb \<and>
         (b, COLLISION_GROUP_KINEMATIC, COLLISION_MASK_NONE) \<in> set (w_rigid w') \<and>
         rb_activation rb = DISABLE_DEACTIVATION \<and> rb_gravity rb = Vec3 0 0 (- 1)))"
proof -
  note H = ex_hyps [OF ex_setup_fields(1,2)]
  have g: "vscale (1 / 10) (w_gravity ex_world) = Vec3 0 0 (- 1)"
    by (simp add: ex_world_def)
  obtain h' w' where r: "Hair_Create empty_hair (Some ex_setup) (Some (5, ex_owner)) ex_models ex_world
        = Some (Inr (True, h', w'))"
    and each: "\<forall>i < 3. \<exists>b rb. el_body (elements h' ! i) = Some b \<and> w_bodies w' b = Some rb \<and>
        (b, COLLISION_GROUP_KINEMATIC, COLLISION_MASK_NONE) \<in> set (w_rigid w') \<and>
        rb_activation rb = DISABLE_DEACTIVATION \<and> rb_gravity rb = Vec3 0 0 (- 1)"
    using Hair_Create_body_setup [where h = empty_hair and eid = 5, OF refl refl H ex_world_wf]
    unfolding ex_count g by blast
  from each have "\<exists>b rb. el_body (elements h' ! 0) = Some b \<and> w_bodies w' b = Some rb \<and>
         (b, COLLISION_GROUP_KINEMATIC, COLLISION_MASK_NONE) \<in> set (w_rigid w') \<and>
         rb_activation rb = DISABLE_DEACTIVATION \<and> rb_gravity rb = Vec3 0 0 (- 1)"
    by (drule_tac x = 0 in spec) auto
  with r ex_world_wf show ?thesis by blast
qed
section \<open>Witnesses: the teardown\<close>

lemma ex_rig_wf: "rig_wf ex_rig ex_rig_world"
  by (simp add: rig_wf_def rig_bodies_def rig_shapes_def rig_joints_def ex_rig_def ex_rig_world_def
      ex_world_def)

theorem Hair_Clear_releases_witness:
  "rig_wf ex_rig ex_rig_world \<and>
   (\<exists>w'. Hair_Clear (Some ex_rig) ex_rig_world = Inr (empty_hair, w') \<and>
      w_bodies w' 1 = None \<and> w_bodies w' 0 \<noteq> None \<and> w_shapes w' 0 = None \<and>
      w_constraints w' 2 = None \<and> w_rigid w' = [] \<and> w_joints w' = [])"
proof -
  have sets: "set (rig_bodies ex_rig) = {1}" "set (rig_shapes ex_rig) = {0}" "set (rig_joints ex_rig) = {2}"
    by (simp_all add: rig_bodies_def rig_shapes_def rig_joints_def ex_rig_def)
  obtain w' where r: "Hair_Clear (Some ex_rig) ex_rig_world = Inr (empty_hair, w')"
    and b: "\<forall>b. w_bodies w' b = (if b \<in> {1} then None else w_bodies ex_rig_world b)"
    and rg: "w_rigid w' = filter (\<lambda>e. fst e \<notin> {1}) (w_rigid ex_rig_world)"
    and sh: "\<forall>s. w_shapes w' s = (if s \<in> {0} then None else w_shapes ex_rig_world s)"
    and c: "\<forall>c. w_constraints w' c = (if c \<in> {2} then None else w_constraints ex_rig_world c)"
    and j: "w_joints w' = filter (\<lambda>e. fst e \<notin> {2}) (w_joints ex_rig_world)"
    using Hair_Clear_releases [OF ex_rig_wf] unfolding sets by blast
  have "w_bodies w' 1 = None \<and> w_bodies w' 0 \<noteq> None \<and> w_shapes w' 0 = None \<and>
      w_constraints w' 2 = None \<and> w_rigid w' = [] \<and> w_joints w' = []"
    using spec [OF b, of 1] spec [OF b, of 0] spec [OF sh, of 0] spec [OF c, of 2] rg j
    by (simp add: ex_rig_world_def)
  with r ex_rig_wf show ?thesis by blast
qed

theorem Hair_Clear_idempotent_witness:
  "\<exists>w'. Hair_Clear (Some ex_rig) ex_rig_world = Inr (empty_hair, w') \<and>
     Hair_Clear (Some empty_hair) w' = Inr (empty_hair, w')"
proof -
  have r: "Hair_Clear (Some ex_rig) ex_rig_world = Inr (empty_hair, release_rig ex_rig ex_rig_world)"
    by (rule Hair_Clear_closed [OF ex_rig_wf])
  show ?thesis
    using Hair_Clear_idempotent [OF r] r by blast
qed

section \<open>Witnesses: the update\<close>

theorem Hair_Update_noop_witness:
  "element_count empty_hair = 0 \<and>
   Hair_Update (\<lambda>_ r. r) [5 \<mapsto> ex_owner15] (Some empty_hair) ex_world = Inr (Some empty_hair, ex_world) \<and>
   Hair_Update (\<lambda>_ r. r) [5 \<mapsto> ex_owner15] None ex_world = Inr (None, ex_world)"
  using Hair_Update_noop [of "\<lambda>_ r. r" "[5 \<mapsto> ex_owner15]" ex_world empty_hair]
  by (simp add: empty_hair_def)

lemma ex_moving_rig_facts:
  "0 < element_count ex_moving_rig" "owner_char ex_moving_rig = Some 5"
  "([5 \<mapsto> ex_owner15] :: nat \<rightharpoonup> entity) 5 = Some ex_owner15" "14 < bone_tag_count ex_owner15"
  "root_index ex_moving_rig < length (elements ex_moving_rig)"
  "el_body (elements ex_moving_rig ! root_index ex_moving_rig) = Some 1"
  "w_bodies ex_rig_world 1 \<noteq> None" "owner_body ex_moving_rig < bone_tag_count ex_owner15"
  "bt_body (bone_tags ex_owner15 ! owner_body ex_moving_rig) = Some 0" "w_bodies ex_rig_world 0 \<noteq> None"
  "container ex_moving_rig = Some \<lparr>room = None, object_type = OBJECT_HAIR\<rparr>"
  by (simp_all add: ex_moving_rig_def ex_rig_def empty_hair_def ex_owner15_def bone_tag_count_def
      ex_rig_world_def)

text \<open>The spec's numeric test: a one-unit displacement of the owner and of bone 14
  imposes the velocity \<open>(-200, 0, 0)\<close> on the root body and on the owner's body.\<close>

theorem Hair_Update_velocity_witness:
  "\<exists>h' w'. Hair_Update (\<lambda>_ r. r) [5 \<mapsto> ex_owner15] (Some ex_moving_rig) ex_rig_world = Inr (Some h', w') \<and>
     map_option rb_lin_vel (w_bodies w' 1) = Some (Vec3 (- 200) 0 0) \<and>
     map_option rb_lin_vel (w_bodies w' 0) = Some (Vec3 (- 200) 0 0) \<and>
     owner_char_pos h' = Vec3 0 0 0"
proof -
  have v: "vscale (- 100) ((owner_char_pos ex_moving_rig - mat4_pos (e_transform ex_owner15)) +
     (owner_body_pos ex_moving_rig - mat4_pos (full_transform (bone_tags ex_owner15 ! 14)))) = Vec3 (- 200) 0 0"
    by (simp add: ex_moving_rig_def ex_owner15_def mat4_pos_def)
  have p: "mat4_pos (e_transform ex_owner15) = Vec3 0 0 0"
    by (simp add: ex_owner15_def mat4_pos_def)
  show ?thesis
    using Hair_Update_velocity [where find_room = "\<lambda>_ r. r" and ents = "[5 \<mapsto> ex_owner15]",
        OF ex_moving_rig_facts]
    unfolding v unfolding p by (auto simp: setLinearVelocity_def ex_rig_world_def)
qed

text \<open>The spec's settling scenario: the moving rig's first tick imposes \<open>(-200, 0, 0)\<close>
  (above); with the owner still, two ticks leave both bodies at rest.\<close>

theorem Hair_Update_settles_witness:
  "update_ready [5 \<mapsto> ex_owner15] 5 ex_owner15 1 0 ex_moving_rig ex_rig_world \<and>
   (\<exists>h' w'. Hair_Update_ticks (\<lambda>_ r. r) [5 \<mapsto> ex_owner15] 2 (Some ex_moving_rig) ex_rig_world =
       Inr (Some h', w') \<and>
     map_option rb_lin_vel (w_bodies w' 1) = Some 0 \<and> map_option rb_lin_vel (w_bodies w' 0) = Some 0)"
proof -
  have r: "update_ready [5 \<mapsto> ex_owner15] 5 ex_owner15 1 0 ex_moving_rig ex_rig_world"
    using ex_moving_rig_facts by (simp add: update_ready_def)
  show ?thesis
    using r Hair_Update_settles [where find_room = "\<lambda>_ r. r" and n = 0, OF r]
    by (simp add: numeral_2_eq_2)
qed

lemma ex_still_rig_facts:
  "0 < element_count ex_still_rig" "owner_char ex_still_rig = Some 5"
  "root_index ex_still_rig < length (elements ex_still_rig)"
  "el_body (elements ex_still_rig ! root_index ex_still_rig) = Some 1"
  "owner_body ex_still_rig < bone_tag_count ex_owner15"
  "bt_body (bone_tags ex_owner15 ! owner_body ex_still_rig) = Some 0"
  "container ex_still_rig = Some \<lparr>room = None, object_type = OBJECT_HAIR\<rparr>"
  "owner_char_pos ex_still_rig = mat4_pos (e_transform ex_owner15)"
  "owner_body_pos ex_still_rig = mat4_pos (full_transform (bone_tags ex_owner15 ! 14))"
  by (simp_all add: ex_still_rig_def ex_moving_rig_def ex_rig_def empty_hair_def ex_owner15_def
      bone_tag_count_def mat4_pos_def)

theorem Hair_Update_still_witness:
  "\<exists>h' w'. Hair_Update (\<lambda>_ r. r) [5 \<mapsto> ex_owner15] (Some ex_still_rig) ex_rig_world = Inr (Some h', w') \<and>
     map_option rb_lin_vel (w_bodies w' 1) = Some 0 \<and> map_option rb_lin_vel (w_bodies w' 0) = Some 0"
  using Hair_Update_still [where find_room = "\<lambda>_ r. r" and ents = "[5 \<mapsto> ex_owner15]",
      OF ex_still_rig_facts(1,2) ex_moving_rig_facts(3,4) ex_still_rig_facts(3,4) ex_moving_rig_facts(7)
        ex_still_rig_facts(5,6) ex_moving_rig_facts(10) ex_still_rig_facts(7,8,9)]
  by simp

lemmas ex_lua_defs = ex_script_def ex_lua_setup_def ex_props_def lua_GetScalarField_def lua_field_def
  c_unsigned_cast_def c_trunc_def ex_setup_vm_def

section \<open>Witnesses: the loader\<close>

lemma ex_vindex:
  "i < 2 \<Longrightarrow> c_unsigned_cast 32 (lua_GetScalarField [(LKInt 1, LNum 5), (LKInt 2, LNum 9)] (LKInt (int (Suc i))))
     = Inr ([5, 9] ! i)"
  by (auto simp: ex_lua_defs less_Suc_eq)

lemma ex_lua_facts:
  "ex_script (ex_lua_setup 2 True dmp) = Some (\<lambda>_. Some (LTable (ex_lua_setup 2 True dmp)))"
  "(\<lambda>_. Some (LTable (ex_lua_setup 2 True dmp))) (0::nat) = Some (LTable (ex_lua_setup 2 True dmp))"
  "c_unsigned_cast 32 (lua_GetScalarField (ex_lua_setup 2 True dmp) (LKStr ''model'')) = Inr 7"
  "c_unsigned_cast 32 (lua_GetScalarField (ex_lua_setup 2 True dmp) (LKStr ''link_body'')) = Inr 0"
  "c_unsigned_cast 32 (lua_GetScalarField (ex_lua_setup 2 True dmp) (LKStr ''v_count'')) = Inr 2"
  "lua_field (ex_lua_setup 2 True dmp) (LKStr ''props'') = LTable (ex_props dmp)"
  "c_unsigned_cast 8 (lua_GetScalarField (ex_props dmp) (LKStr ''joints_per_body'')) = Inr 1"
  "lua_field (ex_lua_setup 2 True dmp) (LKStr ''v_index'') = LTable [(LKInt 1, LNum 5), (LKInt 2, LNum 9)]"
  "lua_field (ex_lua_setup 2 True dmp) (LKStr ''offset'') = LTable [(LKInt 1, LNum 0), (LKInt 2, LNum 1), (LKInt 3, LNum 0)]"
  "lua_field (ex_lua_setup 2 True dmp) (LKStr ''root_angle'') = LTable []"
  by (simp_all add: ex_lua_defs)

lemma ex_vm_room: "2 \<le> length (head_vertex_map ex_setup_vm)"
  by (simp add: ex_setup_vm_def)

theorem Hair_GetSetup_reads_witness:
  "\<exists>hs'. Hair_GetSetup (ex_script (ex_lua_setup 2 True True)) 0 ex_setup_vm = Inr (True, hs') \<and>
     model hs' = 7 \<and> root_weight hs' = 1 \<and> joint_cfm hs' = 1 / 10 \<and>
     head_vertex_map hs' ! 0 = 5 \<and> head_vertex_map hs' ! 1 = 9"
proof -
  note h = ex_lua_facts [of True]
  have v: "lua_GetScalarField (ex_props True) (LKStr ''root_weight'') = 1"
    "lua_GetScalarField (ex_props True) (LKStr ''joint_cfm'') = 1 / 10"
    by (simp_all add: ex_lua_defs)
  show ?thesis
    using Hair_GetSetup_reads [where idx = 0, OF h(1-8) ex_vm_room ex_vindex h(9,10)] unfolding v by auto
qed

theorem Hair_GetSetup_jpb_out_of_range_witness:
  "Hair_GetSetup (ex_script [(LKStr ''model'', LNum 7), (LKStr ''link_body'', LNum 0), (LKStr ''v_count'', LNum 0),
      (LKStr ''props'', LTable [(LKStr ''joints_per_body'', LNum (- 1))])]) 0 ex_setup_vm = Inl Cast_out_of_range"
proof -
  let ?p = "[(LKStr ''joints_per_body'', LNum (- 1))]"
  let ?t = "[(LKStr ''model'', LNum 7), (LKStr ''link_body'', LNum 0), (LKStr ''v_count'', LNum 0),
      (LKStr ''props'', LTable ?p)]"
  have h: "ex_script ?t = Some (\<lambda>_. Some (LTable ?t))"
    "(\<lambda>_. Some (LTable ?t)) (0::nat) = Some (LTable ?t)"
    "c_unsigned_cast 32 (lua_GetScalarField ?t (LKStr ''model'')) = Inr 7"
    "c_unsigned_cast 32 (lua_GetScalarField ?t (LKStr ''link_body'')) = Inr 0"
    "c_unsigned_cast 32 (lua_GetScalarField ?t (LKStr ''v_count'')) = Inr 0"
    "lua_field ?t (LKStr ''props'') = LTable ?p"
    "256 \<le> lua_GetScalarField ?p (LKStr ''joints_per_body'') \<or>
     lua_GetScalarField ?p (LKStr ''joints_per_body'') \<le> - 1"
    by (simp_all add: ex_lua_defs)
  show ?thesis
    using Hair_GetSetup_jpb_out_of_range [OF h] .
qed

text \<open>A table with \<open>props\<close> but no \<open>v_index\<close>: the load fails, yet model 7 and the root
  weight 1 are written.\<close>

theorem Hair_GetSetup_partial_failure_witness:
  "\<exists>hs'. Hair_GetSetup (ex_script [(LKStr ''model'', LNum 7), (LKStr ''link_body'', LNum 0),
        (LKStr ''v_count'', LNum 2), (LKStr ''props'', LTable (ex_props True))]) 0 (ex_setup_vm\<lparr>model := 9\<rparr>)
      = Inr (False, hs') \<and> model hs' = 7 \<and> root_weight hs' = 1"
proof -
  let ?t = "[(LKStr ''model'', LNum 7), (LKStr ''link_body'', LNum 0),
        (LKStr ''v_count'', LNum 2), (LKStr ''props'', LTable (ex_props True))]"
  have h: "ex_script ?t = Some (\<lambda>_. Some (LTable ?t))"
    "(\<lambda>_. Some (LTable ?t)) (0::nat) = Some (LTable ?t)"
    "c_unsigned_cast 32 (lua_GetScalarField ?t (LKStr ''model'')) = Inr 7"
    "c_unsigned_cast 32 (lua_GetScalarField ?t (LKStr ''link_body'')) = Inr 0"
    "c_unsigned_cast 32 (lua_GetScalarField ?t (LKStr ''v_count'')) = Inr 2"
    "lua_field ?t (LKStr ''props'') = LTable (ex_props True)"
    "c_unsigned_cast 8 (lua_GetScalarField (ex_props True) (LKStr ''joints_per_body'')) = Inr 1"
    "\<forall>vi. lua_field ?t (LKStr ''v_index'') \<noteq> LTable vi"
    by (simp_all add: ex_lua_defs)
  have w: "lua_GetScalarField (ex_props True) (LKStr ''root_weight'') = 1"
    by (simp add: ex_lua_defs)
  show ?thesis
    using Hair_GetSetup_partial_failure [where hs = "ex_setup_vm\<lparr>model := 9\<rparr>", OF h] unfolding w by blast
qed

theorem Hair_GetSetup_no_props_witness:
  "ex_script (ex_lua_setup 2 False True) = Some (\<lambda>_. Some (LTable (ex_lua_setup 2 False True))) \<and>
   Hair_GetSetup None 0 ex_setup_vm = Inr (False, ex_setup_vm) \<and>
   (\<forall>hs'. Hair_GetSetup (ex_script (ex_lua_setup 2 False True)) 0 ex_setup_vm \<noteq> Inr (True, hs'))"
proof -
  have np: "\<forall>p. lua_field (ex_lua_setup 2 False True) (LKStr ''props'') \<noteq> LTable p"
    by (simp add: ex_lua_defs)
  have e: "ex_script (ex_lua_setup 2 False True) = Some (\<lambda>_. Some (LTable (ex_lua_setup 2 False True)))"
    by (simp add: ex_script_def)
  show ?thesis
    using Hair_GetSetup_no_props [of 0 ex_setup_vm "\<lambda>_. Some (LTable (ex_lua_setup 2 False True))"
        "ex_lua_setup 2 False True"] np e by simp
qed

theorem Hair_GetSetup_damping_unreported_witness:
  "\<exists>hs'. Hair_GetSetup (ex_script (ex_lua_setup 2 True False)) 0 ex_setup_vm = Inr (True, hs') \<and>
     hair_damping hs' = (2 / 10, 3 / 10)"
proof -
  note h = ex_lua_facts [of False]
  have nd: "\<forall>d. lua_field (ex_props False) (LKStr ''hair_damping'') \<noteq> LTable d"
    by (simp add: ex_lua_defs)
  have d: "hair_damping ex_setup_vm = (2 / 10, 3 / 10)"
    by (simp add: ex_setup_vm_def ex_setup_def)
  show ?thesis
    using Hair_GetSetup_damping_unreported [where idx = 0, OF h(1-8) ex_vm_room ex_vindex h(9,10) nd] unfolding d by blast
qed

theorem Hair_GetSetup_vmap_overflow_witness:
  "length (head_vertex_map ex_setup_vm) < 5 \<and>
   Hair_GetSetup (ex_script (ex_lua_setup 5 True True)) 0 ex_setup_vm = Inl Index_out_of_range"
proof -
  have h: "ex_script (ex_lua_setup 5 True True) = Some (\<lambda>_. Some (LTable (ex_lua_setup 5 True True)))"
    "(\<lambda>_. Some (LTable (ex_lua_setup 5 True True))) (0::nat) = Some (LTable (ex_lua_setup 5 True True))"
    "c_unsigned_cast 32 (lua_GetScalarField (ex_lua_setup 5 True True) (LKStr ''model'')) = Inr 7"
    "c_unsigned_cast 32 (lua_GetScalarField (ex_lua_setup 5 True True) (LKStr ''link_body'')) = Inr 0"
    "c_unsigned_cast 32 (lua_GetScalarField (ex_lua_setup 5 True True) (LKStr ''v_count'')) = Inr 5"
    "lua_field (ex_lua_setup 5 True True) (LKStr ''props'') = LTable (ex_props True)"
    "c_unsigned_cast 8 (lua_GetScalarField (ex_props True) (LKStr ''joints_per_body'')) = Inr 1"
    "lua_field (ex_lua_setup 5 True True) (LKStr ''v_index'') = LTable [(LKInt 1, LNum 5), (LKInt 2, LNum 9)]"
    "length (head_vertex_map ex_setup_vm) < 5"
    by (simp_all add: ex_lua_defs)
  have vals: "i < length (head_vertex_map ex_setup_vm) \<Longrightarrow>
    c_unsigned_cast 32 (lua_GetScalarField [(LKInt 1, LNum 5), (LKInt 2, LNum 9)] (LKInt (int (Suc i))))
      = Inr ([5, 9, 0] ! i)" for i
    by (auto simp: ex_lua_defs less_Suc_eq)
  show ?thesis
    using Hair_GetSetup_vmap_overflow [where idx = 0, OF h vals] h(9) by simp
qed

section \<open>Witnesses: the chain refinement\<close>

text \<open>The spec's scenario read as a chain: three segments, joint 0 from the anchor to
  segment 0, joint 1 from segment 0 to segment 1, joint 2 from segment 1 to segment 2.\<close>

theorem Hair_Create_refines_chain_witness:
  "\<exists>h' w'. Hair_Create empty_hair (Some ex_setup) (Some (5, ex_owner)) ex_models ex_world
        = Some (Inr (True, h', w')) \<and>
     ch_links (chain_of 0 h' w') = [Some (Anchor, Seg 0), Some (Seg 0, Seg 1), Some (Seg 1, Seg 2)] \<and>
     length (ch_meshes (chain_of 0 h' w')) = 3"
proof -
  have live: "w_bodies ex_world 0 \<noteq> None" by (simp add: ex_world_def)
  have spec: "ch_links (chain_spec ex_setup (the (ex_models 7))) =
      [Some (Anchor, Seg 0), Some (Seg 0, Seg 1), Some (Seg 1, Seg 2)]"
    "length (ch_meshes (chain_spec ex_setup (the (ex_models 7)))) = 3"
    by (simp_all add: chain_spec_def ex_defs upt_rec)
  show ?thesis
    using Hair_Create_refines_chain [where h = empty_hair and eid = 5,
        OF refl refl ex_hyps [OF ex_setup_fields(1,2)] ex_world_wf live] spec by auto
qed

end
