(* ===== verification/Spec2Isabelle.thy ===== *)
theory Spec2Isabelle
  imports Hair_Lifecycle Hair_Scenarios
begin

text \<open>
  \<^bold>\<open>A verification development of OpenTomb's hair rig, \<open>src/src/hair.cpp\<close>.\<close>

  The file builds, drives and tears down a chain of rigid bodies hanging from a bone
  of a character (Lara's braid) in the Bullet world. Four functions make it up:
  \<open>Hair_Create\<close> (lines 3--245) builds one body per mesh of a skeletal model and
  \<open>joints_per_body\<close> generic 6-DOF constraints per body; \<open>Hair_Clear\<close> (247--293)
  releases them; \<open>Hair_Update\<close> (295--341) runs every tick and imposes a velocity on
  the root body and the owner's body from the owner's displacement; \<open>Hair_GetSetup\<close>
  (343--426) reads the tuning profile from the table the Lua script returns. They share the rig
  \<open>hair_t\<close>, the profile \<open>hair_setup_t\<close> and the global dynamics world.

  \<^bold>\<open>Theories.\<close>
  \<^item> \<open>Hair_Prelude\<close>: \<open>vec3\<close> (\<open>btVector3\<close> over \<open>real\<close>; float rounding is not
    modelled), \<open>mat4\<close>, the undefined-behaviour values \<open>ub\<close>, the loop combinators
    \<open>for_word\<close> (a C \<open>for\<close> loop whose counter is a machine word, a
    \<open>partial_function (option)\<close>: \<open>None\<close> is a loop that never ends) and
    \<open>ub_loop\<close> (an \<open>int\<close>-counted loop whose body may fail), and shared list and
    arithmetic lemmas.
  \<^item> \<open>Physics_World\<close>, \<open>Engine_Entity\<close>: the collaborators, modelled from the spec
    because their code is not in the repository: the world is an object store
    (\<open>w_bodies\<close>, \<open>w_shapes\<close>, \<open>w_motion\<close>, \<open>w_constraints\<close>, addresses below
    \<open>w_next\<close>) with the registration lists \<open>w_rigid\<close> and \<open>w_joints\<close>; a pointer is an
    address, \<open>NULL\<close> is \<open>None\<close>. \<open>world_wf\<close> is the store's invariant.
  \<^item> \<open>Hair_Types\<close>: \<open>hair_setup\<close>, \<open>hair_element\<close>, \<open>hair\<close> as the code uses them.
  \<^item> \<open>Hair_Create\<close>: the builder, one definition per part of \<open>Hair_Create\<close>: the
    guards (\<open>Hair_Create\<close>), the header set-up (\<open>hair_create_init\<close>), the body
    loop step (\<open>create_body_step\<close>, under a \<open>uint8_t\<close> counter), the joint loops
    (\<open>create_segment_joints\<close>, \<open>create_joint_step\<close>, \<open>joint_frames\<close>,
    \<open>set_stop_params\<close>, \<open>joint_limits\<close>, under \<open>uint16_t\<close> and \<open>int\<close> counters),
    composed in \<open>create_rig\<close> in the option monad.
  \<^item> \<open>Hair_Create_Bodies\<close>, \<open>Hair_Create_Joints\<close>, \<open>Hair_Build\<close>: the loops in closed
    form, by induction over the iterations, ending in \<open>Hair_Create_closed\<close>: on valid
    input the builder returns \<open>built_hair\<close> and \<open>built_world\<close>, segment \<open>i\<close> owning
    the addresses \<open>B + 3 i\<close> (shape), \<open>B + 3 i + 1\<close> (motion state),
    \<open>B + 3 i + 2\<close> (body), joint \<open>q\<close> the address \<open>B + 3 N + q\<close>.
  \<^item> \<open>Hair_Chain\<close>: the spec's abstract chain (segments bound to meshes, joints
    as pairs of nodes), the abstraction \<open>chain_of\<close> from a rig and a world, and the
    refinement theorem that the builder implements \<open>chain_spec\<close>.
  \<^item> \<open>Hair_Clear\<close>: the teardown, its requirement \<open>rig_wf\<close> and its closed form
    \<open>release_rig\<close>. \<open>Hair_Update\<close>: the per-tick update, with \<open>Room_FindPosCogerrence\<close>
    as a parameter \<open>find_room\<close> and the entity table as a map; \<open>Hair_Update_ticks\<close>,
    the engine's repeated calls, one per tick; \<open>update_ready\<close>, what a tick needs of
    the rig and the world.
  \<^item> \<open>Hair_GetSetup\<close>: the loader over a model of the Lua values it inspects
    (\<open>lua_val\<close>, \<open>lua_GetScalarField\<close>), with the C conversions \<open>(uint32_t)\<close> and
    \<open>(uint8_t)\<close> undefined outside their range (\<open>c_unsigned_cast\<close>).
  \<^item> \<open>Hair_Lifecycle\<close>: \<open>rig_step\<close>, one successful call of any of the three
    operations, as an inductive relation, and the invariant \<open>world_wf \<and> rig_wf\<close>
    it keeps. \<open>Hair_Scenarios\<close>: the concrete inputs of the spec's scenarios and the
    witnesses of the component claims.
  \<^item> This theory: the claims that span components and their witnesses.

  \<^bold>\<open>What is shown.\<close> The builder rejects invalid input without effect, returns
  whenever the model has fewer than 256 meshes, and never returns for 256 or more
  (the \<open>uint8_t\<close> body counter wraps); on valid input it builds the rig of the
  closed form, whose counts, indices, masses, links, softness and body settings are
  read off in \<open>Hair_Build\<close>, together with the joint placement and the joint limits
  (linear axes and \<open>y\<close> locked, the root's own ranges and solver iterations). With
  \<open>joints_per_body = 0\<close> it builds segments without a single joint. Read through
  \<open>chain_of\<close>, the built rig is the spec's abstract chain (a refinement).

  The teardown of a well-formed rig releases exactly its objects and leaves the empty
  rig, and is idempotent on the rig it returns. Any number of successful updates keeps the world
  and the rig well formed and changes nothing but velocities. The update is a no-op on an absent or empty rig,
  and otherwise imposes \<open>-100\<close> times the summed displacement of the owner and of bone
  14, zero when nothing moved; with the owner still, repeated ticks return and
  settle: from the second tick on the imposed velocity is zero. The loader never
  reports success without a \<open>props\<close> table, fills every field from a complete table,
  reports success when the damping pair is missing, writes past the vertex map when
  \<open>v_count\<close> exceeds it, and is undefined on a \<open>joints_per_body\<close> outside
  \<open>0 .. 255\<close>; a failed load (no \<open>v_index\<close>) has already overwritten the identifiers
  and the scalar fields of the profile.

  Across components: every reachable state keeps the invariants, so a teardown never
  hits undefined behaviour; build-then-teardown restores the world except for the
  leaked motion states; the first update after a build moves the owner's body unless
  the link bone coincides with bone 14, and reads past the owner's bones when it has
  at most 14; an update after a teardown is a no-op, while a second build without a
  teardown leaks the first rig's bodies; and a setup loaded from a complete script
  table builds the rig of its model, with fewer than 256 joints per segment.

  \<^bold>\<open>Bounds and fuel.\<close> No fuel is used: the word-counted loops are
  \<open>partial_function (option)\<close>, and \<open>for_word_fold\<close> turns them into folds whenever
  the bound is below the counter's range (\<open>N < 256\<close> for the body loop,
  \<open>N < 65536\<close> for the joint loop, implied), which is exactly when they return.

  \<^bold>\<open>Not modelled.\<close> The Lua runtime beyond the values the loader reads (the stack
  bookkeeping of \<open>Hair_GetSetup\<close> does not affect its result), the physics solver and
  collision detection, rendering, room lookup, and floating point rounding:
  \<open>btScalar\<close> is \<open>real\<close>, so statements about masses hold for exact arithmetic (the
  tail mass is \<open>tail_weight\<close> exactly there, not in \<open>float\<close>). Bullet's and the engine's functions are modelled from the spec's
  interface: the model says what the hair code asks of them, not how they do it. Two
  effects of the real Bullet are therefore outside the model: \<open>addRigidBody\<close>
  (line 109) resets a dynamic body's gravity to the world's, overriding the reduced
  gravity set at line 88, and \<open>removeConstraint\<close> (line 271) touches both bodies of
  the constraint, which \<open>Hair_Clear\<close> has already deleted at line 254. The width of
  \<open>element_count\<close> is declared in \<open>hair.h\<close>, outside the repository's sources; it is
  taken as wide as \<open>mesh_count\<close>, as the spec's \<open>segment_count = mesh_count\<close> has
  it, which the non-termination for 256 or more meshes depends on. This
  is why the physics world and the entity and model registry are only partly
  modelled: their code is not in the repository. Every statement of
  \<open>hair.cpp\<close> itself is modelled.
\<close>

text \<open>C14: along any sequence of successful builds, updates and teardowns that starts
  from the empty rig in a well-formed world, the world stays well formed, the rig
  keeps live and distinct pointers, and a teardown at any point succeeds (it never
  deletes a dangling pointer or reads past an array) and releases exactly the rig.\<close>

theorem rig_lifecycle_safe:
  assumes "world_wf w0" and "rig_step\<^sup>*\<^sup>* (empty_hair, w0) (h, w)"
  shows "world_wf w \<and> rig_wf h w \<and> Hair_Clear (Some h) w = Inr (empty_hair, release_rig h w)"
  using reachable_wf [OF assms(2,1)] Hair_Clear_closed [of h w] by simp

text \<open>C15: a teardown right after a successful build gives back the world's bodies,
  shapes, constraints and both registration lists exactly as they were, but not its
  motion states: the \<open>btDefaultMotionState\<close> of every segment stays allocated (a
  leak), holding the start transform built from bone 0.\<close>

theorem Hair_Create_Clear_roundtrip:
  assumes "parent = Some (eid, ent)" and "setup = Some s"
    and "link_body s < bone_tag_count ent" and "bt_body (bone_tags ent ! link_body s) = Some anchor"
    and "World_GetModelByID models (model s) = Some m"
    and "0 < mesh_count m" and "mesh_count m < 256" and "world_wf w"
  shows "\<exists>h' w' w''. Hair_Create h setup parent models w = Some (Inr (True, h', w')) \<and>
     Hair_Clear (Some h') w' = Inr (empty_hair, w'') \<and>
     w_bodies w'' = w_bodies w \<and> w_shapes w'' = w_shapes w \<and> w_constraints w'' = w_constraints w \<and>
     w_rigid w'' = w_rigid w \<and> w_joints w'' = w_joints w \<and>
     (\<forall>i < mesh_count m. w_motion w (w_next w + 3 * i + 1) = None \<and>
        w_motion w'' (w_next w + 3 * i + 1) =
          Some (Mat4_Mat4_mul (e_transform ent) (full_transform (bone_tags ent ! 0))))"
proof -
  have lt: "\<forall>k \<in> dom (w_motion w). k < w_next w"
    using assms(8) by (simp add: world_wf_def)
  have fresh: "w_motion w a = None" if "w_next w \<le> a" for a
    using lt that by (auto simp: not_less [symmetric])
  show ?thesis
    using Hair_Create_closed [OF assms] Hair_Clear_closed [OF built_rig_wf] release_built [OF assms(8)]
      fresh by (auto simp: built_world_lookup seg_tr_def)
qed

text \<open>C16: on the first tick after a build, with the owner exactly where it was at
  build time, the update imposes \<open>-100 * (pos(bone link_body) - pos(bone 14))\<close> on the
  owner's body and the root body: the builder caches the link bone's position and the
  updater compares it with bone 14's, so the velocity is zero only if the two bones
  coincide.\<close>

theorem Hair_Create_Update_first_tick:
  assumes "parent = Some (eid, ent)" and "setup = Some s"
    and "link_body s < bone_tag_count ent" and "bt_body (bone_tags ent ! link_body s) = Some anchor"
    and "World_GetModelByID models (model s) = Some m"
    and "0 < mesh_count m" and "mesh_count m < 256" and "world_wf w"
    and "ents eid = Some ent" and "14 < bone_tag_count ent" and "w_bodies w anchor \<noteq> None"
  shows "\<exists>h' w' h'' w''. Hair_Create h setup parent models w = Some (Inr (True, h', w')) \<and>
     Hair_Update find_room ents (Some h') w' = Inr (Some h'', w'') \<and>
     map_option rb_lin_vel (w_bodies w'' anchor) =
       Some (vscale (- 100) (mat4_pos (full_transform (bone_tags ent ! link_body s)) -
                             mat4_pos (full_transform (bone_tags ent ! 14)))) \<and>
     map_option rb_lin_vel (w_bodies w'' (w_next w + 2)) =
       Some (vscale (- 100) (mat4_pos (full_transform (bone_tags ent ! link_body s)) -
                             mat4_pos (full_transform (bone_tags ent ! 14))))"
proof -
  let ?h = "built_hair h s eid ent m (w_next w)" and ?w = "built_world s ent anchor m w"
  have anchor_old: "anchor < w_next w"
    using assms(8,11) by (auto simp: world_wf_def)
  have root: "el_body (elements ?h ! root_index ?h) = Some (w_next w + 2)"
    using assms(6) by (simp add: built_hair_fields seg_element_def)
  have live: "w_bodies ?w (w_next w + 2) \<noteq> None" "w_bodies ?w anchor \<noteq> None"
    using built_world_body [OF assms(6), of s ent anchor w] assms(11) anchor_old
    by (simp_all add: built_world_lookup)
  have hf: "0 < element_count ?h" "owner_char ?h = Some eid" "root_index ?h < length (elements ?h)"
    "owner_body ?h < bone_tag_count ent" "bt_body (bone_tags ent ! owner_body ?h) = Some anchor"
    "container ?h = Some \<lparr>room = None, object_type = OBJECT_HAIR\<rparr>"
    using assms(3,4,6) by (simp_all add: built_hair_fields) (simp add: built_hair_def hair_create_init_def Let_def)
  have pose: "owner_char_pos ?h = mat4_pos (e_transform ent)"
    "owner_body_pos ?h = mat4_pos (full_transform (bone_tags ent ! link_body s))"
    by (simp_all add: built_hair_def hair_create_init_def Let_def)
  show ?thesis
    using Hair_Create_closed [OF assms(1-8)]
      Hair_Update_closed [where find_room = find_room and ents = ents, OF hf(1,2) assms(9,10) hf(3) root
        live(1) hf(4,5) live(2) hf(6)] live anchor_old
    by (auto simp: pose update_body_def setLinearVelocity_def)
qed


section \<open>Witnesses\<close>

text \<open>C25: the loader feeds the builder. From a complete script table whose model has
  between 1 and 255 meshes and whose link bone has a body, \<open>Hair_GetSetup\<close> succeeds
  and \<open>Hair_Create\<close> on the setup it returns builds the rig of that model: one
  element per mesh, \<open>joints_per_body\<close> joints per element, where the \<open>uint8_t\<close>
  conversion bounds \<open>joints_per_body\<close> below 256; the rig hangs from the script's
  link bone and the world stays well formed.\<close>

theorem Hair_GetSetup_Create_pipeline:
  assumes "getHairSetup = Some f" and "f idx = Some (LTable t)"
    and "c_unsigned_cast 32 (lua_GetScalarField t (LKStr ''model'')) = Inr mdl"
    and "c_unsigned_cast 32 (lua_GetScalarField t (LKStr ''link_body'')) = Inr lb"
    and "c_unsigned_cast 32 (lua_GetScalarField t (LKStr ''v_count'')) = Inr vc"
    and "lua_field t (LKStr ''props'') = LTable p"
    and "c_unsigned_cast 8 (lua_GetScalarField p (LKStr ''joints_per_body'')) = Inr jpb"
    and "lua_field t (LKStr ''v_index'') = LTable vi"
    and "vc \<le> length (head_vertex_map hs)"
    and "\<And>i. i < vc \<Longrightarrow> c_unsigned_cast 32 (lua_GetScalarField vi (LKInt (int (Suc i)))) = Inr (vals i)"
    and "lua_field t (LKStr ''offset'') = LTable off" and "lua_field t (LKStr ''root_angle'') = LTable ang"
    and "lb < bone_tag_count ent" and "bt_body (bone_tags ent ! lb) = Some anchor"
    and "World_GetModelByID models mdl = Some m" and "0 < mesh_count m" and "mesh_count m < 256"
    and "world_wf w"
  shows "\<exists>hs' h' w'. Hair_GetSetup getHairSetup idx hs = Inr (True, hs') \<and>
     Hair_Create h (Some hs') (Some (eid, ent)) models w = Some (Inr (True, h', w')) \<and>
     element_count h' = mesh_count m \<and> joint_count h' = mesh_count m * jpb \<and> jpb < 256 \<and>
     owner_body h' = lb \<and> world_wf w'"
proof -
  obtain hs' where g: "Hair_GetSetup getHairSetup idx hs = Inr (True, hs')"
    and f: "model hs' = mdl" "link_body hs' = lb" "joints_per_body hs' = jpb"
    using Hair_GetSetup_complete [OF assms(1-12)] by blast
  have c: "Hair_Create h (Some hs') (Some (eid, ent)) models w =
             Some (Inr (True, built_hair h hs' eid ent m (w_next w), built_world hs' ent anchor m w))"
    by (rule Hair_Create_closed) (simp_all add: f assms(13-18))
  have "jpb < 2 ^ 8"
    using c_unsigned_cast_bound [OF assms(7)] .
  moreover have "world_wf (built_world hs' ent anchor m w)"
    using built_world_wf [OF assms(18)] .
  ultimately show ?thesis
    using g c f by (auto simp: built_hair_fields)
qed

text \<open>C26: the builder and the updater disagree on the owner's skeleton. The builder
  accepts any owner whose link bone exists, but the updater reads bone 14 whatever the
  link bone is: for an owner with at most 14 bones the build succeeds and the very
  first update reads past the owner's bone array.\<close>

theorem Hair_Create_Update_short_owner:
  assumes "parent = Some (eid, ent)" and "setup = Some s"
    and "link_body s < bone_tag_count ent" and "bt_body (bone_tags ent ! link_body s) = Some anchor"
    and "World_GetModelByID models (model s) = Some m"
    and "0 < mesh_count m" and "mesh_count m < 256" and "world_wf w"
    and "ents eid = Some ent" and "bone_tag_count ent \<le> 14"
  shows "\<exists>h' w'. Hair_Create h setup parent models w = Some (Inr (True, h', w')) \<and>
     Hair_Update find_room ents (Some h') w' = Inl Index_out_of_range"
proof -
  let ?h = "built_hair h s eid ent m (w_next w)"
  have "Hair_Update find_room ents (Some ?h) (built_world s ent anchor m w) = Inl Index_out_of_range"
    by (rule Hair_Update_short_owner [where ents = ents and ent = ent and eid = eid, OF _ _ assms(9,10)])
      (simp_all add: built_hair_fields assms(6))
  then show ?thesis
    using Hair_Create_closed [OF assms(1-8)] by blast
qed

theorem rig_lifecycle_safe_witness:
  "\<exists>h w. rig_step\<^sup>*\<^sup>* (empty_hair, ex_world) (h, w) \<and> element_count h = 3 \<and>
     world_wf w \<and> rig_wf h w \<and> Hair_Clear (Some h) w = Inr (empty_hair, release_rig h w)"
proof -
  let ?h = "built_hair empty_hair ex_setup 5 ex_owner (the (ex_models 7)) (w_next ex_world)"
  let ?w = "built_world ex_setup ex_owner 0 (the (ex_models 7)) ex_world"
  have "Hair_Create empty_hair (Some ex_setup) (Some (5, ex_owner)) ex_models ex_world = Some (Inr (True, ?h, ?w))"
    by (rule Hair_Create_closed [OF refl refl ex_hyps [OF ex_setup_fields(1,2)] ex_world_wf])
  then have "rig_step (empty_hair, ex_world) (?h, ?w)" by (rule rig_step.create)
  then have reach: "rig_step\<^sup>*\<^sup>* (empty_hair, ex_world) (?h, ?w)" by (rule r_into_rtranclp)
  have "element_count ?h = 3" by (simp add: built_hair_fields ex_count)
  with reach rig_lifecycle_safe [OF ex_world_wf reach] show ?thesis by blast
qed

theorem Hair_Create_Clear_roundtrip_witness:
  "\<exists>h' w' w''. Hair_Create empty_hair (Some ex_setup) (Some (5, ex_owner)) ex_models ex_world
        = Some (Inr (True, h', w')) \<and>
     Hair_Clear (Some h') w' = Inr (empty_hair, w'') \<and>
     w_bodies w'' = w_bodies ex_world \<and> w_rigid w'' = [] \<and> w_joints w'' = [] \<and>
     w_motion ex_world 2 = None \<and> w_motion w'' 2 \<noteq> None"
proof -
  obtain h' w' w'' where r: "Hair_Create empty_hair (Some ex_setup) (Some (5, ex_owner)) ex_models ex_world
        = Some (Inr (True, h', w'))" "Hair_Clear (Some h') w' = Inr (empty_hair, w'')"
    "w_bodies w'' = w_bodies ex_world" "w_rigid w'' = w_rigid ex_world" "w_joints w'' = w_joints ex_world"
    and leak: "\<forall>i < 3. w_motion ex_world (w_next ex_world + 3 * i + 1) = None \<and>
        w_motion w'' (w_next ex_world + 3 * i + 1) =
          Some (Mat4_Mat4_mul (e_transform ex_owner) (full_transform (bone_tags ex_owner ! 0)))"
    using Hair_Create_Clear_roundtrip [where h = empty_hair and eid = 5,
        OF refl refl ex_hyps [OF ex_setup_fields(1,2)] ex_world_wf]
    unfolding ex_count by blast
  have "w_motion ex_world 2 = None \<and> w_motion w'' 2 \<noteq> None"
    using spec [OF leak, of 0] by (simp add: ex_world_def numeral_2_eq_2)
  with r show ?thesis by (auto simp: ex_world_def)
qed

lemma ex_owner_bent_facts:
  "link_body ex_setup < bone_tag_count ex_owner_bent"
  "bt_body (bone_tags ex_owner_bent ! link_body ex_setup) = Some 0"
  "14 < bone_tag_count ex_owner_bent" "w_bodies ex_world 0 \<noteq> None"
  by (simp_all add: ex_owner_bent_def ex_setup_def bone_tag_count_def ex_world_def)

text \<open>The owner has not moved, yet the first tick imposes \<open>(-100, 0, 0)\<close> on its body.\<close>

theorem Hair_Create_Update_first_tick_witness:
  "\<exists>h' w' h'' w''. Hair_Create empty_hair (Some ex_setup) (Some (5, ex_owner_bent)) ex_models ex_world
        = Some (Inr (True, h', w')) \<and>
     Hair_Update (\<lambda>_ r. r) [5 \<mapsto> ex_owner_bent] (Some h') w' = Inr (Some h'', w'') \<and>
     map_option rb_lin_vel (w_bodies w'' 0) = Some (Vec3 (- 100) 0 0)"
proof -
  have v: "vscale (- 100) (mat4_pos (full_transform (bone_tags ex_owner_bent ! link_body ex_setup)) -
      mat4_pos (full_transform (bone_tags ex_owner_bent ! 14))) = Vec3 (- 100) 0 0"
    by (simp add: ex_owner_bent_def ex_setup_def mat4_pos_def)
  have m: "World_GetModelByID ex_models (model ex_setup) = Some (the (ex_models 7))"
    "0 < mesh_count (the (ex_models 7))" "mesh_count (the (ex_models 7)) < 256"
    using ex_hyps [OF ex_setup_fields(1,2)] by simp_all
  show ?thesis
    using Hair_Create_Update_first_tick [where h = empty_hair and find_room = "\<lambda>_ r. r",
        OF refl refl ex_owner_bent_facts(1,2) m ex_world_wf _ ex_owner_bent_facts(3,4),
        of "[5 \<mapsto> ex_owner_bent]" 5]
    unfolding v by auto
qed

text \<open>The spec's loader-to-builder scenario: the script's table for model 7 gives a
  three-segment rig with one joint per segment.\<close>

theorem Hair_GetSetup_Create_pipeline_witness:
  "\<exists>hs' h' w'. Hair_GetSetup (ex_script (ex_lua_setup 2 True True)) 0 ex_setup_vm = Inr (True, hs') \<and>
     Hair_Create empty_hair (Some hs') (Some (5, ex_owner)) ex_models ex_world = Some (Inr (True, h', w')) \<and>
     element_count h' = 3 \<and> joint_count h' = 3 \<and> owner_body h' = 0"
proof -
  note h = ex_lua_facts [of True]
  have o: "0 < bone_tag_count ex_owner" "bt_body (bone_tags ex_owner ! 0) = Some 0"
    "World_GetModelByID ex_models 7 = Some (the (ex_models 7))"
    "0 < mesh_count (the (ex_models 7))" "mesh_count (the (ex_models 7)) < 256"
    by (simp_all add: ex_defs)
  show ?thesis
    using Hair_GetSetup_Create_pipeline [where idx = 0 and h = empty_hair and eid = 5,
        OF h(1,2) h(3-8) ex_vm_room ex_vindex h(9,10) o ex_world_wf]
    unfolding ex_count by auto
qed

text \<open>The spec's one-bone owner: the build succeeds, the first update is undefined.\<close>

theorem Hair_Create_Update_short_owner_witness:
  "world_wf ex_world \<and> bone_tag_count ex_owner \<le> 14 \<and>
   (\<exists>h' w'. Hair_Create empty_hair (Some ex_setup) (Some (5, ex_owner)) ex_models ex_world
        = Some (Inr (True, h', w')) \<and>
      Hair_Update (\<lambda>_ r. r) [5 \<mapsto> ex_owner] (Some h') w' = Inl Index_out_of_range)"
proof -
  note H = ex_hyps [OF ex_setup_fields(1,2)]
  have b: "bone_tag_count ex_owner \<le> 14" by (simp add: ex_defs)
  show ?thesis
    using Hair_Create_Update_short_owner [where h = empty_hair and eid = 5 and find_room = "\<lambda>_ r. r",
        OF refl refl H ex_world_wf _ b] ex_world_wf b by simp
qed

text \<open>Teardown then update on the one-segment rig.\<close>

theorem Hair_Clear_Update_noop_witness:
  "rig_wf ex_rig ex_rig_world \<and>
   (\<exists>w'. Hair_Clear (Some ex_rig) ex_rig_world = Inr (empty_hair, w') \<and>
      Hair_Update (\<lambda>_ r. r) [5 \<mapsto> ex_owner15] (Some empty_hair) w' = Inr (Some empty_hair, w'))"
  using ex_rig_wf Hair_Clear_Update_noop [OF ex_rig_wf] by blast

text \<open>Building the three-segment rig twice leaks the first rig's root body, at address 3.\<close>

theorem Hair_Create_twice_leaks_witness:
  "world_wf ex_world \<and>
   (\<exists>h' w' h'' w''. Hair_Create empty_hair (Some ex_setup) (Some (5, ex_owner)) ex_models ex_world
        = Some (Inr (True, h', w')) \<and>
      Hair_Create h' (Some ex_setup) (Some (5, ex_owner)) ex_models w' = Some (Inr (True, h'', w'')) \<and>
      el_body (elements h' ! 0) = Some 3 \<and> w_bodies w'' 3 \<noteq> None \<and> 3 \<notin> set (rig_bodies h''))"
proof -
  note H = ex_hyps [OF ex_setup_fields(1,2)]
  obtain h' w' h'' w'' where r: "Hair_Create empty_hair (Some ex_setup) (Some (5, ex_owner)) ex_models ex_world
        = Some (Inr (True, h', w'))"
      "Hair_Create h' (Some ex_setup) (Some (5, ex_owner)) ex_models w' = Some (Inr (True, h'', w''))"
    and old: "\<forall>b \<in> set (rig_bodies h'). w_bodies w'' b \<noteq> None \<and> b \<notin> set (rig_bodies h'')"
    using Hair_Create_twice_leaks [where h = empty_hair and eid = 5, OF refl refl H ex_world_wf] by blast
  have h': "h' = built_hair empty_hair ex_setup 5 ex_owner (the (ex_models 7)) (w_next ex_world)"
    using r(1) Hair_Create_closed [OF refl refl H ex_world_wf, of empty_hair] by simp
  have e: "el_body (elements h' ! 0) = Some 3" "3 \<in> set (rig_bodies h')"
    unfolding h' by (simp_all add: built_rig_ptrs built_element seg_element_def ex_count ex_world_def)
  show ?thesis
    using r old e ex_world_wf by blast
qed

text \<open>Three ticks of the moving one-segment rig keep the invariant.\<close>

theorem Hair_Update_ticks_invariant_witness:
  "world_wf ex_rig_world \<and> rig_wf ex_moving_rig ex_rig_world \<and>
   (\<exists>h' w'. Hair_Update_ticks (\<lambda>_ r. r) [5 \<mapsto> ex_owner15] 3 (Some ex_moving_rig) ex_rig_world =
       Inr (Some h', w') \<and> world_wf w' \<and> rig_wf h' w' \<and> w_next w' = 3)"
proof -
  have wf: "world_wf ex_rig_world"
    by (auto simp: world_wf_def ex_rig_world_def ex_world_def split: if_splits)
  have rwf: "rig_wf ex_moving_rig ex_rig_world"
    using ex_rig_wf by (simp add: rig_wf_def rig_bodies_def rig_shapes_def rig_joints_def ex_moving_rig_def)
  have r: "update_ready [5 \<mapsto> ex_owner15] 5 ex_owner15 1 0 ex_moving_rig ex_rig_world"
    using ex_moving_rig_facts by (simp add: update_ready_def)
  obtain h' w' where t: "Hair_Update_ticks (\<lambda>_ r. r) [5 \<mapsto> ex_owner15] 3 (Some ex_moving_rig) ex_rig_world =
       Inr (Some h', w')"
    using Hair_Update_ticks_ready [where find_room = "\<lambda>_ r. r" and n = 2, OF r]
    by (auto simp: numeral_3_eq_3)
  have "w_next ex_rig_world = 3" by (simp add: ex_rig_world_def)
  then show ?thesis
    using wf rwf t Hair_Update_ticks_invariant [OF t wf rwf] by auto
qed

end
